(* ===== verification/Prelude.thy ===== *)
theory Prelude
  imports Main "HOL-Library.Multiset" "HOL-Library.Char_ord" "HOL-Library.List_Lexorder"
begin

text \<open>
  Shared vocabulary of the Embersome model: the JavaScript values a request body can
  carry (\<open>jval\<close>), JavaScript truthiness, the ECMAScript string builtins the server
  calls (\<open>trim\<close>, \<open>startsWith\<close>, \<open>||\<close>, \<open>localeCompare\<close>) and the stable
  \<open>Array.prototype.sort\<close>, each written after the ECMAScript definition, together
  with the generic lemmas the component theories share. Strings are \<open>char\<close> lists;
  the whitespace class is the ASCII part of ECMAScript's WhiteSpace and
  LineTerminator sets.
\<close>

named_theorems js_simps "evaluation rules of the modelled JavaScript builtins"

type_synonym ms = int \<comment> \<open>a \<open>Date.now()\<close> reading, in milliseconds\<close>

datatype js_error = TypeError

type_synonym 'a js_result = "js_error + 'a"

subsection \<open>JavaScript values and truthiness\<close>

text \<open>
  A field of a parsed JSON request body: absent (\<open>undefined\<close>), \<open>null\<close>, a boolean,
  an integral number, a string, or an array/object (\<open>JObj\<close>), which is truthy and has
  no \<open>trim\<close> method.
\<close>

datatype jval = JUndefined | JNull | JBool bool | JNum int | JStr string | JObj

fun js_truthy :: "jval \<Rightarrow> bool" where
  "js_truthy JUndefined = False"
| "js_truthy JNull = False"
| "js_truthy (JBool b) = b"
| "js_truthy (JNum n) = (n \<noteq> 0)"
| "js_truthy (JStr s) = (s \<noteq> [])"
| "js_truthy JObj = True"

text \<open>\<open>a || b\<close>: the left operand when it is truthy, otherwise the right one.\<close>

definition js_or :: "jval \<Rightarrow> jval \<Rightarrow> jval" where
  "js_or a b = (if js_truthy a then a else b)"

subsection \<open>Whitespace and \<open>String.prototype.trim\<close>\<close>

definition is_ws :: "char \<Rightarrow> bool" where
  "is_ws c \<longleftrightarrow> c = CHR '' '' \<or> c = CHR 0x09 \<or> c = CHR 0x0A \<or> c = CHR 0x0B
     \<or> c = CHR 0x0C \<or> c = CHR 0x0D"

definition str_trim :: "string \<Rightarrow> string" where
  "str_trim s = rev (dropWhile is_ws (rev (dropWhile is_ws s)))"

text \<open>\<open>v.trim()\<close> on a value: only strings have the method; on anything else the call
  throws a \<open>TypeError\<close>.\<close>

fun jv_trim :: "jval \<Rightarrow> string js_result" where
  "jv_trim (JStr s) = Inr (str_trim s)"
| "jv_trim _ = Inl TypeError"

definition starts_with :: "string \<Rightarrow> string \<Rightarrow> bool" where
  "starts_with s p \<longleftrightarrow> take (length p) s = p"

subsection \<open>\<open>String.prototype.split\<close> and \<open>Array.prototype.join\<close>\<close>

text \<open>\<open>s.split(c)\<close> for a one-character separator: the pieces between separators, an
  empty piece at each end where \<open>s\<close> starts or ends with \<open>c\<close>, and \<open>['']\<close> for \<open>''\<close>.\<close>

fun split_on :: "char \<Rightarrow> string \<Rightarrow> string list" where
  "split_on c [] = [[]]"
| "split_on c (x # xs) =
     (if x = c then [] # split_on c xs
      else case split_on c xs of [] \<Rightarrow> [[x]] | y # ys \<Rightarrow> (x # y) # ys)"

text \<open>\<open>xs.join(sep)\<close> on an array of strings.\<close>

fun js_join :: "string \<Rightarrow> string list \<Rightarrow> string" where
  "js_join sep [] = []"
| "js_join sep [x] = x"
| "js_join sep (x # y # ys) = x @ sep @ js_join sep (y # ys)"

subsection \<open>\<open>localeCompare\<close> and the stable \<open>Array.prototype.sort\<close>\<close>

text \<open>
  \<open>a.localeCompare(b)\<close> is modelled as the code-unit (lexicographic) comparison, which
  is how the root collation orders the ASCII ISO-8601 timestamps the store holds.
\<close>

definition locale_compare :: "string \<Rightarrow> string \<Rightarrow> int" where
  "locale_compare a b = (if a < b then -1 else if a = b then 0 else 1)"

text \<open>
  \<open>xs.sort(cmp)\<close> is stable (ECMAScript 2019): with a consistent comparator its result
  is the unique stable ordering, computed here by insertion: an element goes in front of
  the first element it does not compare greater than.
\<close>

fun insert_by :: "('a \<Rightarrow> 'a \<Rightarrow> int) \<Rightarrow> 'a \<Rightarrow> 'a list \<Rightarrow> 'a list" where
  "insert_by cmp x [] = [x]"
| "insert_by cmp x (y # ys) = (if cmp x y \<le> 0 then x # y # ys else y # insert_by cmp x ys)"

fun sort_by :: "('a \<Rightarrow> 'a \<Rightarrow> int) \<Rightarrow> 'a list \<Rightarrow> 'a list" where
  "sort_by cmp [] = []"
| "sort_by cmp (x # xs) = insert_by cmp x (sort_by cmp xs)"

subsection \<open>\<open>Number.prototype.toString(radix)\<close>\<close>

text \<open>
  \<open>n.toString(b)\<close> for a non-negative integer \<open>n\<close> and \<open>2 \<le> b \<le> 36\<close>: the digits of
  \<open>n\<close> in base \<open>b\<close>, most significant first, with the lower-case letters as digits
  beyond 9. \<open>from_radix\<close> reads such a string back (\<open>parseInt(s, b)\<close> on valid
  digits).
\<close>

definition RADIX_DIGITS :: string where
  "RADIX_DIGITS = ''0123456789abcdefghijklmnopqrstuvwxyz''"

definition radix_digit :: "nat \<Rightarrow> char" where
  "radix_digit d = RADIX_DIGITS ! d"

fun to_radix :: "nat \<Rightarrow> nat \<Rightarrow> string" where
  "to_radix b n =
     (if b \<le> 1 \<or> n < b then [radix_digit n] else to_radix b (n div b) @ [radix_digit (n mod b)])"

fun idx_of :: "'a \<Rightarrow> 'a list \<Rightarrow> nat" where
  "idx_of x [] = 0"
| "idx_of x (y # ys) = (if x = y then 0 else Suc (idx_of x ys))"

definition digit_value :: "char \<Rightarrow> nat" where
  "digit_value c = idx_of c RADIX_DIGITS"

definition from_radix :: "nat \<Rightarrow> string \<Rightarrow> nat" where
  "from_radix b s = foldl (\<lambda>acc c. acc * b + digit_value c) 0 s"

declare to_radix.simps [simp del]

declare js_truthy.simps [js_simps] js_or_def [js_simps] jv_trim.simps [js_simps]
  starts_with_def [js_simps] locale_compare_def [js_simps]

subsection \<open>Lemmas on \<open>trim\<close>\<close>

lemma hd_dropWhile_not: "dropWhile P xs \<noteq> [] \<Longrightarrow> \<not> P (hd (dropWhile P xs))"
  by (induction xs) auto

lemma last_dropWhile: "dropWhile P xs \<noteq> [] \<Longrightarrow> last (dropWhile P xs) = last xs"
  by (induction xs) auto

lemma dropWhile_hd_not: "xs \<noteq> [] \<Longrightarrow> \<not> P (hd xs) \<Longrightarrow> dropWhile P xs = xs"
  by (cases xs) auto

lemma all_dropWhile_iff: "(\<forall>x\<in>set (dropWhile P xs). P x) \<longleftrightarrow> (\<forall>x\<in>set xs. P x)"
  by (induction xs) auto

lemma str_trim_Nil_iff: "str_trim s = [] \<longleftrightarrow> (\<forall>c\<in>set s. is_ws c)"
  by (simp add: str_trim_def dropWhile_eq_Nil_conv all_dropWhile_iff)

lemma str_trim_ends:
  assumes "str_trim s \<noteq> []"
  shows "\<not> is_ws (hd (str_trim s)) \<and> \<not> is_ws (last (str_trim s))"
proof -
  let ?a = "dropWhile is_ws s"
  let ?b = "dropWhile is_ws (rev ?a)"
  have b: "?b \<noteq> []" using assms by (simp add: str_trim_def)
  then have a: "?a \<noteq> []" by (metis Nil_is_rev_conv dropWhile.simps(1))
  have "\<not> is_ws (hd ?b)" using b by (rule hd_dropWhile_not)
  moreover have "last ?b = hd ?a" using last_dropWhile [OF b] a by (simp add: last_rev)
  moreover have "\<not> is_ws (hd ?a)" using a by (rule hd_dropWhile_not)
  ultimately show ?thesis using b by (simp add: str_trim_def hd_rev last_rev)
qed

lemma str_trim_id:
  assumes "s = [] \<or> (\<not> is_ws (hd s) \<and> \<not> is_ws (last s))"
  shows "str_trim s = s"
proof (cases "s = []")
  case True
  then show ?thesis by (simp add: str_trim_def)
next
  case False
  with assms have "dropWhile is_ws s = s" "dropWhile is_ws (rev s) = rev s"
    by (simp_all add: dropWhile_hd_not hd_rev)
  then show ?thesis by (simp add: str_trim_def)
qed

lemma str_trim_idem: "str_trim (str_trim s) = str_trim s"
  using str_trim_ends [of s] by (intro str_trim_id) blast

lemma str_trim_infix: "\<exists>p q. s = p @ str_trim s @ q \<and> (\<forall>c\<in>set p. is_ws c) \<and> (\<forall>c\<in>set q. is_ws c)"
proof -
  let ?a = "dropWhile is_ws s"
  have 1: "s = takeWhile is_ws s @ ?a" by simp
  have 2: "rev ?a = takeWhile is_ws (rev ?a) @ dropWhile is_ws (rev ?a)" by simp
  then have "?a = str_trim s @ rev (takeWhile is_ws (rev ?a))"
    by (metis rev_append rev_rev_ident str_trim_def)
  then have "s = takeWhile is_ws s @ str_trim s @ rev (takeWhile is_ws (rev ?a))"
    using 1 by simp
  then show ?thesis by (metis set_rev set_takeWhileD)
qed

subsection \<open>Lemmas on the stable sort\<close>

text \<open>
  For the descending comparator \<open>(a, b) \<mapsto> k(b).localeCompare(k(a))\<close>: the result is a
  permutation, ordered by non-increasing key, keeps elements of equal key in input order,
  and equals the library's stable \<open>sort_key\<close> run on the reversed list, reversed.
\<close>

lemma mset_insert_by [simp]: "mset (insert_by cmp x ys) = add_mset x (mset ys)"
  by (induction ys) auto

lemma mset_sort_by [simp]: "mset (sort_by cmp xs) = mset xs"
  by (induction xs) (auto simp: mset_insert_by)

lemma set_insert_by [simp]: "set (insert_by cmp x ys) = insert x (set ys)"
  by (induction ys) auto

lemma desc_cmp_le: "locale_compare (k y) (k x) \<le> 0 \<longleftrightarrow> k y \<le> (k x :: string)"
  by (auto simp: locale_compare_def)

lemma sorted_insert_by_desc:
  "sorted_wrt (\<lambda>a b. k b \<le> (k a :: string)) ys \<Longrightarrow>
   sorted_wrt (\<lambda>a b. k b \<le> k a) (insert_by (\<lambda>a b. locale_compare (k b) (k a)) x ys)"
  by (induction ys) (auto simp: desc_cmp_le set_insert_by)

lemma sorted_sort_by_desc:
  "sorted_wrt (\<lambda>a b. k b \<le> (k a :: string)) (sort_by (\<lambda>a b. locale_compare (k b) (k a)) xs)"
  by (induction xs) (auto simp: sorted_insert_by_desc)

lemma filter_insert_by_desc:
  "filter (\<lambda>y. k y = (c :: string)) (insert_by (\<lambda>a b. locale_compare (k b) (k a)) x ys) =
   (if k x = c then x # filter (\<lambda>y. k y = c) ys else filter (\<lambda>y. k y = c) ys)"
  by (induction ys) (auto simp: desc_cmp_le)

lemma filter_sort_by_desc:
  "filter (\<lambda>y. k y = (c :: string)) (sort_by (\<lambda>a b. locale_compare (k b) (k a)) xs) =
   filter (\<lambda>y. k y = c) xs"
  by (induction xs) (auto simp: filter_insert_by_desc)

lemma sort_by_desc_eq_sort_key:
  "sort_by (\<lambda>a b. locale_compare (k b) (k a)) xs = rev (sort_key (k :: 'a \<Rightarrow> string) (rev xs))"
proof -
  let ?ys = "sort_by (\<lambda>a b. locale_compare (k b) (k a)) xs"
  have "sort_key k (rev xs) = rev ?ys"
  proof (rule properties_for_sort_key)
    show "mset (rev ?ys) = mset (rev xs)" by (simp add: mset_sort_by)
    fix x
    have "filter (\<lambda>y. k y = k x) ?ys = filter (\<lambda>y. k y = k x) xs"
      by (rule filter_sort_by_desc)
    then show "filter (\<lambda>y. k x = k y) (rev ?ys) = filter (\<lambda>y. k x = k y) (rev xs)"
      by (simp add: rev_filter [symmetric] eq_commute)
  next
    show "sorted (map k (rev ?ys))"
      using sorted_sort_by_desc [of k xs] by (simp add: sorted_wrt_rev sorted_wrt_map rev_map [symmetric])
  qed
  then show ?thesis by simp
qed

lemma set_sort_by [simp]: "set (sort_by cmp xs) = set xs"
  by (metis mset_sort_by set_mset_mset)

lemma length_sort_by [simp]: "length (sort_by cmp xs) = length xs"
  by (metis mset_sort_by size_mset)

subsection \<open>Lemmas on the radix printer\<close>

lemma idx_of_nth: "distinct xs \<Longrightarrow> d < length xs \<Longrightarrow> idx_of (xs ! d) xs = d"
proof (induction xs arbitrary: d)
  case Nil
  then show ?case by simp
next
  case (Cons y ys)
  then show ?case by (cases d) auto
qed

lemma digit_value_radix_digit: "d < 36 \<Longrightarrow> digit_value (radix_digit d) = d"
  by (simp add: digit_value_def radix_digit_def idx_of_nth RADIX_DIGITS_def del: idx_of.simps)

lemma from_radix_snoc: "from_radix b (s @ [c]) = from_radix b s * b + digit_value c"
  by (simp add: from_radix_def)

lemma from_radix_to_radix:
  assumes "2 \<le> b" "b \<le> 36"
  shows "from_radix b (to_radix b n) = n"
  using assms
proof (induction b n rule: to_radix.induct)
  case (1 b n)
  show ?case
  proof (cases "b \<le> 1 \<or> n < b")
    case True
    with "1.prems" have "n < 36" by auto
    with True show ?thesis by (simp add: to_radix.simps [of b n] from_radix_def digit_value_radix_digit)
  next
    case False
    with "1.IH" "1.prems" have IH: "from_radix b (to_radix b (n div b)) = n div b" by simp
    from False have "n mod b < b" by simp
    with "1.prems" have "n mod b < 36" by linarith
    with False IH show ?thesis
      by (simp add: to_radix.simps [of b n] from_radix_snoc digit_value_radix_digit)
  qed
qed

lemma to_radix_nonempty: "to_radix b n \<noteq> []"
  by (simp add: to_radix.simps [of b n])

subsection \<open>Lemmas on lists\<close>

lemma length_filter_mono_impl:
  "(\<And>x. P x \<Longrightarrow> Q x) \<Longrightarrow> length (filter P xs) \<le> length (filter Q xs)"
  by (induction xs) auto

subsection \<open>Lemmas on split and join\<close>

lemma split_on_not_Nil [simp]: "split_on c s \<noteq> []"
  by (induction s) (auto split: list.splits)

lemma js_join_Cons_Cons: "js_join sep ((x # y) # ys) = x # js_join sep (y # ys)"
  by (cases ys) auto

lemma js_join_Nil_Cons: "r \<noteq> [] \<Longrightarrow> js_join sep ([] # r) = sep @ js_join sep r"
  by (cases r) auto

text \<open>Splitting and joining with the same separator is the identity.\<close>

lemma split_on_join: "js_join [c] (split_on c s) = s"
proof (induction s)
  case (Cons x xs)
  then show ?case
    by (cases "split_on c xs") (auto simp: js_join_Cons_Cons js_join_Nil_Cons)
qed simp

lemma split_on_pieces: "p \<in> set (split_on c s) \<Longrightarrow> c \<notin> set p"
proof (induction s arbitrary: p)
  case (Cons x xs)
  then show ?case by (cases "split_on c xs") (auto split: if_splits)
qed simp

end
