(* ===== verification/Sessions.thy ===== *)
theory Sessions
  imports Prelude
begin

text \<open>
  The Session Manager of \<open>src/server.js\<close> (lines 115--139): the in-memory
  \<open>activeSessions\<close> map from token to \<open>{created, expires}\<close>, \<open>createSession\<close>,
  \<open>isValidSession\<close> with its lazy expiry, and the unconditional delete of the logout
  route (line 166). The map is a HOL map \<open>string \<rightharpoonup> session\<close>; every operation takes
  it and returns the new map. The random token (\<open>crypto.randomBytes(32)\<close> in hex) and
  the clock readings are parameters supplied by the environment.
\<close>

record session =
  created :: ms
  expires :: ms

type_synonym sessions = "string \<rightharpoonup> session"

definition SESSION_DURATION :: ms where
  "SESSION_DURATION = 24 * 60 * 60 * 1000"

definition is_hex_lower :: "char \<Rightarrow> bool" where
  "is_hex_lower c \<longleftrightarrow> c \<in> set ''0123456789abcdef''"

text \<open>What \<open>crypto.randomBytes(32).toString('hex')\<close> can return: 64 lower-case hex digits.\<close>

definition is_session_token :: "string \<Rightarrow> bool" where
  "is_session_token t \<longleftrightarrow> length t = 64 \<and> (\<forall>c\<in>set t. is_hex_lower c)"

text \<open>\<open>createSession()\<close>: the two \<open>Date.now()\<close> calls are the readings \<open>t1\<close>, \<open>t2\<close>.\<close>

definition createSession :: "string \<Rightarrow> ms \<Rightarrow> ms \<Rightarrow> sessions \<Rightarrow> string \<times> sessions" where
  "createSession token t1 t2 ss =
     (token, ss(token \<mapsto> \<lparr>created = t1, expires = t2 + SESSION_DURATION\<rparr>))"

text \<open>\<open>isValidSession(token)\<close>: the token is \<open>null\<close> (\<open>None\<close>) or a string; the empty
  string is falsy. An expired entry is deleted on lookup.\<close>

definition isValidSession :: "string option \<Rightarrow> ms \<Rightarrow> sessions \<Rightarrow> bool \<times> sessions" where
  "isValidSession tok now ss =
     (case tok of
        None \<Rightarrow> (False, ss)
      | Some t \<Rightarrow>
          if t = [] then (False, ss)
          else (case ss t of
                  None \<Rightarrow> (False, ss)
                | Some se \<Rightarrow> if now > expires se then (False, ss(t := None)) else (True, ss)))"

text \<open>\<open>if (token) activeSessions.delete(token)\<close> of the logout route.\<close>

definition deleteSession :: "string option \<Rightarrow> sessions \<Rightarrow> sessions" where
  "deleteSession tok ss =
     (case tok of None \<Rightarrow> ss | Some t \<Rightarrow> if t = [] then ss else ss(t := None))"

subsection \<open>Session operations as a state machine\<close>

text \<open>The three things a request can do to \<open>activeSessions\<close>.\<close>

datatype sess_op =
    Create string ms ms
  | Check "string option" ms
  | Delete "string option"

fun sess_step :: "sessions \<Rightarrow> sess_op \<Rightarrow> sessions" where
  "sess_step ss (Create t t1 t2) = snd (createSession t t1 t2 ss)"
| "sess_step ss (Check tok now) = snd (isValidSession tok now ss)"
| "sess_step ss (Delete tok) = deleteSession tok ss"

fun sess_run :: "sessions \<Rightarrow> sess_op list \<Rightarrow> sessions" where
  "sess_run ss [] = ss"
| "sess_run ss (a # as) = sess_run (sess_step ss a) as"

text \<open>
  A creation is well formed when the token is what the CSPRNG produces and the second
  clock reading is not before the first.
\<close>

fun op_ok :: "sess_op \<Rightarrow> bool" where
  "op_ok (Create t t1 t2) \<longleftrightarrow> is_session_token t \<and> t1 \<le> t2"
| "op_ok _ \<longleftrightarrow> True"

inductive sess_reachable :: "sessions \<Rightarrow> bool" where
  start: "sess_reachable Map.empty"
| step: "sess_reachable ss \<Longrightarrow> op_ok a \<Longrightarrow> sess_reachable (sess_step ss a)"

definition sess_inv :: "sessions \<Rightarrow> bool" where
  "sess_inv ss \<longleftrightarrow>
     (\<forall>t se. ss t = Some se \<longrightarrow> is_session_token t \<and> created se + SESSION_DURATION \<le> expires se)"

text \<open>The operations a sequence does not contain that would disturb token \<open>t\<close>.\<close>

fun creates :: "string \<Rightarrow> sess_op \<Rightarrow> bool" where
  "creates t (Create t' _ _) \<longleftrightarrow> t' = t"
| "creates t _ \<longleftrightarrow> False"

subsection \<open>Helper lemmas\<close>

lemma isValidSession_fst:
  "fst (isValidSession tok now ss) \<longleftrightarrow>
   (\<exists>t se. tok = Some t \<and> t \<noteq> [] \<and> ss t = Some se \<and> now \<le> expires se)"
  by (auto simp: isValidSession_def split: option.splits)

lemma isValidSession_snd:
  "snd (isValidSession tok now ss) = ss \<or>
   (\<exists>t se. tok = Some t \<and> ss t = Some se \<and> expires se < now \<and>
      snd (isValidSession tok now ss) = ss(t := None))"
  by (auto simp: isValidSession_def split: option.splits)

lemma createSession_lookup:
  "snd (createSession tok t1 t2 ss) tok = Some \<lparr>created = t1, expires = t2 + SESSION_DURATION\<rparr>"
  by (simp add: createSession_def)

lemma sess_step_inv: "sess_inv ss \<Longrightarrow> op_ok a \<Longrightarrow> sess_inv (sess_step ss a)"
  by (cases a)
    (auto simp: sess_inv_def createSession_def isValidSession_def deleteSession_def
      split: option.splits if_splits)

lemma sess_step_dom: "dom (sess_step ss a) \<subseteq> dom ss \<union> {t. creates t a}"
  by (cases a)
    (auto simp: createSession_def isValidSession_def deleteSession_def split: option.splits if_splits)

lemma sess_run_dom: "dom (sess_run ss as) \<subseteq> dom ss \<union> {t. \<exists>a\<in>set as. creates t a}"
proof (induction as arbitrary: ss)
  case Nil
  then show ?case by simp
next
  case (Cons a as)
  have "dom (sess_run (sess_step ss a) as) \<subseteq> dom (sess_step ss a) \<union> {t. \<exists>b\<in>set as. creates t b}"
    by (rule Cons.IH)
  then show ?case using sess_step_dom [of ss a] by auto
qed

lemma sess_step_keeps:
  assumes "ss t = Some se" "\<not> creates t a" "a \<noteq> Delete (Some t)"
    "\<forall>now. a = Check (Some t) now \<longrightarrow> now \<le> expires se"
  shows "sess_step ss a t = Some se"
  using assms
  by (cases a) (auto simp: createSession_def isValidSession_def deleteSession_def split: option.splits)

lemma sess_run_keeps:
  assumes "ss t = Some se"
    and "\<forall>a\<in>set as. \<not> creates t a \<and> a \<noteq> Delete (Some t) \<and>
           (\<forall>now. a = Check (Some t) now \<longrightarrow> now \<le> expires se)"
  shows "sess_run ss as t = Some se"
  using assms
proof (induction as arbitrary: ss)
  case Nil
  then show ?case by simp
next
  case (Cons a as)
  then have "sess_step ss a t = Some se" by (intro sess_step_keeps) auto
  with Cons show ?case by simp
qed

lemma token_a64: "is_session_token (replicate 64 (CHR ''a''))"
  by (simp add: is_session_token_def is_hex_lower_def)

subsection \<open>Properties of the Session Manager\<close>

text \<open>
  C2. A token is accepted exactly when it is a non-empty string stored in
  \<open>activeSessions\<close> whose expiry is not before the current time; the test is
  \<open>now > expires\<close>, so a token is still accepted at the instant \<open>now = expires\<close>.
\<close>

theorem isValidSession_accepts:
  "fst (isValidSession tok now ss) \<longleftrightarrow>
   (\<exists>t se. tok = Some t \<and> t \<noteq> [] \<and> ss t = Some se \<and> now \<le> expires se)"
  by (auto simp: isValidSession_def split: option.splits)

text \<open>
  C3. Lazy expiry: looking up a stored token whose expiry has passed rejects it and removes
  exactly that entry from \<open>activeSessions\<close>.
\<close>

theorem isValidSession_lazy_expiry:
  assumes "ss t = Some se" and "expires se < now" and "t \<noteq> []"
  shows "isValidSession (Some t) now ss = (False, ss(t := None))"
  using assms by (simp add: isValidSession_def)

theorem isValidSession_lazy_expiry_witness:
  "(Map.empty(''ab'' \<mapsto> \<lparr>created = 0, expires = 10\<rparr>)) ''ab'' = Some \<lparr>created = 0, expires = 10\<rparr>
   \<and> expires \<lparr>created = 0, expires = (10::ms)\<rparr> < 11 \<and> ''ab'' \<noteq> []
   \<and> isValidSession (Some ''ab'') 11 (Map.empty(''ab'' \<mapsto> \<lparr>created = 0, expires = 10\<rparr>))
       = (False, (Map.empty(''ab'' \<mapsto> \<lparr>created = 0, expires = 10\<rparr>))(''ab'' := None))"
  using isValidSession_lazy_expiry [of "Map.empty(''ab'' \<mapsto> \<lparr>created = 0, expires = 10\<rparr>)" "''ab''"
      "\<lparr>created = 0, expires = 10\<rparr>" 11]
  by simp

text \<open>
  C7. Session invariant: in every state reachable from the empty map by well-formed
  creations, lookups and deletions, every stored token is a 64-digit hex token and every
  entry expires at least \<open>SESSION_DURATION\<close> after it was created.
\<close>

theorem sess_reachable_inv:
  assumes "sess_reachable ss"
  shows "sess_inv ss"
  using assms
proof (induction rule: sess_reachable.induct)
  case start
  then show ?case by (simp add: sess_inv_def)
next
  case (step ss a)
  then show ?case by (blast intro: sess_step_inv)
qed

theorem sess_reachable_inv_witness:
  "sess_reachable (sess_step Map.empty (Create (replicate 64 (CHR ''a'')) 0 0))
   \<and> sess_inv (sess_step Map.empty (Create (replicate 64 (CHR ''a'')) 0 0))"
proof -
  have r: "sess_reachable (sess_step Map.empty (Create (replicate 64 (CHR ''a'')) 0 0))"
    by (rule sess_reachable.step [OF sess_reachable.start]) (simp add: token_a64)
  show ?thesis using r sess_reachable_inv [OF r] by simp
qed

text \<open>
  C8. A session created by login stays valid through any sequence of session operations
  that neither deletes nor re-creates its token and only looks it up before it expires:
  lookups and logouts of other tokens never disturb it.
\<close>

theorem session_persists:
  assumes "tok \<noteq> []" and "now \<le> t2 + SESSION_DURATION"
    and "\<forall>a\<in>set as. \<not> creates tok a \<and> a \<noteq> Delete (Some tok) \<and>
           (\<forall>n. a = Check (Some tok) n \<longrightarrow> n \<le> t2 + SESSION_DURATION)"
  shows "fst (isValidSession (Some tok) now (sess_run (snd (createSession tok t1 t2 ss)) as))"
proof -
  let ?se = "\<lparr>created = t1, expires = t2 + SESSION_DURATION\<rparr>"
  have "sess_run (snd (createSession tok t1 t2 ss)) as tok = Some ?se"
    using assms(3) createSession_lookup by (intro sess_run_keeps) auto
  with assms(1,2) show ?thesis by (simp add: isValidSession_fst)
qed

theorem session_persists_witness:
  "''ab'' \<noteq> [] \<and> (5::ms) \<le> 0 + SESSION_DURATION
   \<and> fst (isValidSession (Some ''ab'') 5
        (sess_run (snd (createSession ''ab'' 0 0 Map.empty)) [Check (Some ''cd'') 3, Delete (Some ''cd'')]))"
  using session_persists [of "''ab''" 5 0 "[Check (Some ''cd'') 3, Delete (Some ''cd'')]" 0 Map.empty]
  by (simp add: SESSION_DURATION_def)

text \<open>
  Only login creates sessions: a token that is not stored and that no operation of a
  run creates is rejected after the run, whatever lookups and logouts it contains.
\<close>

theorem never_created_invalid:
  assumes "ss t = None" and "\<forall>a\<in>set as. \<not> creates t a"
  shows "\<not> fst (isValidSession (Some t) now (sess_run ss as))"
proof -
  have "t \<notin> dom (sess_run ss as)" using sess_run_dom [of ss as] assms by auto
  then show ?thesis by (auto simp: isValidSession_fst)
qed

theorem never_created_invalid_witness:
  "Map.empty ''ab'' = (None :: session option)
   \<and> \<not> fst (isValidSession (Some ''ab'') 2 (sess_run Map.empty [Create ''cd'' 0 0, Check (Some ''ab'') 1]))"
  using never_created_invalid [of Map.empty "''ab''" "[Create ''cd'' 0 0, Check (Some ''ab'') 1]" 2]
  by simp

end
