(* ===== verification/Http.thy ===== *)
theory Http
  imports Prelude
begin

text \<open>
  The interface every route handler of \<open>src/server.js\<close> shares with Express: the
  request a handler reads (method, path, the \<open>Cookie\<close> and \<open>Authorization\<close> headers and
  the parsed JSON body), and the response it produces (status, an optional
  \<open>Set-Cookie\<close> header, and a JSON document, a redirect or a file). JSON documents are
  the \<open>json\<close> datatype; an object keeps its keys in insertion order, as
  \<open>JSON.stringify\<close> prints them.
\<close>

datatype json =
    JsNull
  | JsBool bool
  | JsNum int
  | JsStr string
  | JsArr "json list"
  | JsObj "(string \<times> json) list"

datatype http_method = GET | HEAD | POST | DELETE | PUT

text \<open>
  \<open>body = None\<close> is Express~5's \<open>req.body === undefined\<close> (no body parser matched);
  otherwise each field of the parsed body is a \<open>jval\<close>, \<open>JUndefined\<close> when absent.
\<close>

record request =
  req_method :: http_method
  path :: string
  cookie_header :: "string option"
  authorization :: "string option"
  body :: "(string \<Rightarrow> jval) option"

datatype payload =
    PJson json
  | PRedirect string
  | PFile string
  | PError

record response =
  status :: nat
  set_cookie :: "string option"
  payload :: payload

text \<open>\<open>res.status(n).json(v)\<close>, \<open>res.redirect(url)\<close>, \<open>res.sendFile(f)\<close>, and the
  500 response Express sends when a handler throws.\<close>

definition json_resp :: "nat \<Rightarrow> json \<Rightarrow> response" where
  "json_resp n v = \<lparr>status = n, set_cookie = None, payload = PJson v\<rparr>"

definition redirect_resp :: "string \<Rightarrow> response" where
  "redirect_resp url = \<lparr>status = 302, set_cookie = None, payload = PRedirect url\<rparr>"

definition file_resp :: "string \<Rightarrow> response" where
  "file_resp f = \<lparr>status = 200, set_cookie = None, payload = PFile f\<rparr>"

definition error_resp :: response where
  "error_resp = \<lparr>status = 500, set_cookie = None, payload = PError\<rparr>"

text \<open>The field \<open>k\<close> of a JSON object, as \<open>obj[k]\<close> reads it (first binding).\<close>

definition json_get :: "json \<Rightarrow> string \<Rightarrow> json option" where
  "json_get v k = (case v of JsObj kvs \<Rightarrow> map_of kvs k | _ \<Rightarrow> None)"

declare json_resp_def [js_simps] redirect_resp_def [js_simps] file_resp_def [js_simps]
  error_resp_def [js_simps] json_get_def [js_simps]

end
