(* ===== verification/Auth.thy ===== *)
theory Auth
  imports Sessions Http
begin

text \<open>
  The Auth Gate of \<open>src/server.js\<close>: \<open>getTokenFromReq\<close> (lines 141--149), the
  \<open>/api/auth/login\<close>, \<open>/api/auth/logout\<close> and \<open>/api/auth/check\<close> handlers
  (lines 152--174) and the \<open>requireAdmin\<close> middleware (lines 177--186). Each handler
  takes the session map of \<open>Sessions\<close> and returns its response with the new map; the
  token a login draws and the clock readings are parameters.
\<close>

record config =
  admin_password :: string  \<comment> \<open>\<open>process.env.ADMIN_PASSWORD || 'embersome2026'\<close>\<close>

definition SESSION_COOKIE_NAME :: string where
  "SESSION_COOKIE_NAME = ''ember_session=''"

text \<open>
  \<open>cookies.match(/ember_session=([a-f0-9]+)/)\<close>: the leftmost position where
  \<open>ember_session=\<close> is followed by at least one hex digit; the group is the longest run
  of hex digits there. The pattern is not anchored to a cookie boundary.
\<close>

fun cookie_match :: "string \<Rightarrow> string option" where
  "cookie_match [] = None"
| "cookie_match (c # cs) =
     (let v = takeWhile is_hex_lower (drop (length SESSION_COOKIE_NAME) (c # cs))
      in if starts_with (c # cs) SESSION_COOKIE_NAME \<and> v \<noteq> [] then Some v else cookie_match cs)"

definition getTokenFromReq :: "request \<Rightarrow> string option" where
  "getTokenFromReq req =
     (let cookies = (case cookie_header req of None \<Rightarrow> [] | Some c \<Rightarrow> c)
      in case cookie_match cookies of
           Some t \<Rightarrow> Some t
         | None \<Rightarrow>
             let auth = (case authorization req of None \<Rightarrow> [] | Some a \<Rightarrow> a)
             in if starts_with auth ''Bearer '' then Some (drop 7 auth) else None)"

text \<open>The \<open>Set-Cookie\<close> values of login (line 156) and logout (line 167).\<close>

definition login_cookie :: "string \<Rightarrow> string" where
  "login_cookie token =
     SESSION_COOKIE_NAME @ token @ ''; Path=/; HttpOnly; SameSite=Strict; Max-Age=''
       @ to_radix 10 (nat (SESSION_DURATION div 1000))"

definition LOGOUT_COOKIE :: string where
  "LOGOUT_COOKIE = ''ember_session=; Path=/; HttpOnly; Max-Age=0''"

text \<open>
  \<open>POST /api/auth/login\<close>: \<open>const { password } = req.body\<close> throws when the body is
  \<open>undefined\<close>; \<open>===\<close> accepts only the string equal to the configured password.
  \<open>token\<close> is what \<open>crypto.randomBytes\<close> yields, \<open>t1\<close>, \<open>t2\<close> the two clock readings.
\<close>

definition login :: "config \<Rightarrow> request \<Rightarrow> string \<Rightarrow> ms \<Rightarrow> ms \<Rightarrow> sessions \<Rightarrow> response \<times> sessions" where
  "login cfg req token t1 t2 ss =
     (case body req of
        None \<Rightarrow> (error_resp, ss)
      | Some b \<Rightarrow>
          if b ''password'' = JStr (admin_password cfg) then
            (let (tok, ss') = createSession token t1 t2 ss
             in (\<lparr>status = 200, set_cookie = Some (login_cookie tok),
                   payload = PJson (JsObj [(''success'', JsBool True)])\<rparr>, ss'))
          else (json_resp 401 (JsObj [(''success'', JsBool False), (''error'', JsStr ''Wrong password'')]), ss))"

definition logout :: "request \<Rightarrow> sessions \<Rightarrow> response \<times> sessions" where
  "logout req ss =
     (\<lparr>status = 200, set_cookie = Some LOGOUT_COOKIE, payload = PJson (JsObj [(''success'', JsBool True)])\<rparr>,
      deleteSession (getTokenFromReq req) ss)"

definition auth_check :: "request \<Rightarrow> ms \<Rightarrow> sessions \<Rightarrow> response \<times> sessions" where
  "auth_check req now ss =
     (let (ok, ss') = isValidSession (getTokenFromReq req) now ss
      in (json_resp 200 (JsObj [(''authenticated'', JsBool ok)]), ss'))"

text \<open>
  \<open>requireAdmin(req, res, next)\<close>: \<open>Pass\<close> is the call of \<open>next()\<close>. The path tested is
  \<open>req.path\<close> as the middleware sees it; where it is mounted with
  \<open>app.use('/api/admin', ...)\<close> Express has already removed that prefix.
\<close>

text \<open>The browser's side of the cookie: it stores the \<open>name=value\<close> part of a
  \<open>Set-Cookie\<close> value, before the first \<open>;\<close>, and sends it back in \<open>Cookie\<close>.\<close>

definition cookie_pair :: "string \<Rightarrow> string" where
  "cookie_pair sc = takeWhile (\<lambda>c. c \<noteq> CHR '';'') sc"

datatype gate = Pass | Deny response

definition NOT_AUTHENTICATED :: response where
  "NOT_AUTHENTICATED = json_resp 401 (JsObj [(''error'', JsStr ''Not authenticated'')])"

definition requireAdmin :: "string \<Rightarrow> request \<Rightarrow> ms \<Rightarrow> sessions \<Rightarrow> gate \<times> sessions" where
  "requireAdmin req_path req now ss =
     (let (ok, ss') = isValidSession (getTokenFromReq req) now ss
      in if ok then (Pass, ss')
         else if starts_with req_path ''/api/'' then (Deny NOT_AUTHENTICATED, ss')
         else (Deny (redirect_resp ''/login''), ss'))"

subsection \<open>Helper lemmas\<close>

lemma takeWhile_stop: "ys = [] \<or> \<not> P (hd ys) \<Longrightarrow> takeWhile P ys = []"
  by (cases ys) auto

lemma takeWhile_all_append:
  "(\<forall>c\<in>set xs. P c) \<Longrightarrow> (ys = [] \<or> \<not> P (hd ys)) \<Longrightarrow> takeWhile P (xs @ ys) = xs"
  by (induction xs) (auto simp: takeWhile_stop)

lemma cookie_match_at_start:
  assumes "\<forall>c\<in>set tok. is_hex_lower c" "tok \<noteq> []" "q = [] \<or> \<not> is_hex_lower (hd q)"
  shows "cookie_match (SESSION_COOKIE_NAME @ tok @ q) = Some tok"
  using assms by (simp add: SESSION_COOKIE_NAME_def starts_with_def takeWhile_all_append takeWhile_stop)

lemma not_hex_semicolon: "\<not> is_hex_lower CHR '';''"
  by (simp add: is_hex_lower_def)

lemma session_token_no_semicolon: "is_session_token t \<Longrightarrow> CHR '';'' \<notin> set t"
  unfolding is_session_token_def using not_hex_semicolon by blast
lemma cookie_pair_login_cookie:
  assumes "is_session_token tok"
  shows "cookie_pair (login_cookie tok) = SESSION_COOKIE_NAME @ tok"
proof -
  have "\<forall>c\<in>set (SESSION_COOKIE_NAME @ tok). c \<noteq> CHR '';''"
    using session_token_no_semicolon [OF assms] by (auto simp: SESSION_COOKIE_NAME_def)
  moreover have "login_cookie tok = (SESSION_COOKIE_NAME @ tok) @ CHR '';'' # ('' Path=/; HttpOnly; SameSite=Strict; Max-Age='' @ to_radix 10 (nat (SESSION_DURATION div 1000)))"
    by (simp add: login_cookie_def)
  ultimately show ?thesis
    unfolding cookie_pair_def by (simp only: takeWhile_all_append [where ys = "CHR '';'' # _"]) simp
qed

lemma login_accepts:
  assumes "body req = Some b" and "b ''password'' = JStr (admin_password cfg)"
  shows "login cfg req tok t1 t2 ss =
    (\<lparr>status = 200, set_cookie = Some (login_cookie tok), payload = PJson (JsObj [(''success'', JsBool True)])\<rparr>,
     snd (createSession tok t1 t2 ss))"
  using assms by (simp add: login_def createSession_def)

subsection \<open>Properties of the Auth Gate\<close>

text \<open>C1. Logging in with the configured password answers 200 with the session cookie, and
  a following \<open>/api/auth/check\<close> that sends that cookie back is answered
  \<open>{authenticated: true}\<close> until the session expires.\<close>

theorem login_then_check:
  assumes "body req = Some b" and "b ''password'' = JStr (admin_password cfg)"
    and "is_session_token tok" and "now \<le> t2 + SESSION_DURATION"
    and "login cfg req tok t1 t2 ss = (resp, ss')"
  shows "status resp = 200 \<and> set_cookie resp = Some (login_cookie tok) \<and>
    auth_check (next_req\<lparr>cookie_header := Some (cookie_pair (login_cookie tok))\<rparr>) now ss' =
      (json_resp 200 (JsObj [(''authenticated'', JsBool True)]), ss')"
proof -
  have ss': "ss' = snd (createSession tok t1 t2 ss)" and resp: "status resp = 200 \<and> set_cookie resp = Some (login_cookie tok)"
    using login_accepts [OF assms(1,2)] assms(5) by auto
  have "\<forall>c\<in>set tok. is_hex_lower c" "tok \<noteq> []" using assms(3) by (auto simp: is_session_token_def)
  then have "cookie_match (SESSION_COOKIE_NAME @ tok @ []) = Some tok" by (intro cookie_match_at_start) auto
  then have tok: "getTokenFromReq (next_req\<lparr>cookie_header := Some (cookie_pair (login_cookie tok))\<rparr>) = Some tok"
    using assms(3) by (simp add: getTokenFromReq_def cookie_pair_login_cookie)
  have "isValidSession (Some tok) now ss' = (True, ss')"
    using ss' assms(4) \<open>tok \<noteq> []\<close> by (simp add: isValidSession_def createSession_def)
  then show ?thesis using resp tok by (simp add: auth_check_def)
qed

theorem login_then_check_witness:
  "status (fst (login \<lparr>admin_password = ''pw''\<rparr> \<lparr>req_method = POST, path = ''/api/auth/login'', cookie_header = None, authorization = None, body = Some (\<lambda>_. JStr ''pw'')\<rparr>
     (replicate 64 (CHR ''a'')) 0 0 Map.empty)) = 200
   \<and> auth_check (\<lparr>req_method = GET, path = ''/api/auth/check'', cookie_header = None, authorization = None, body = None\<rparr>
        \<lparr>cookie_header := Some (cookie_pair (login_cookie (replicate 64 (CHR ''a''))))\<rparr>) 0
        (snd (login \<lparr>admin_password = ''pw''\<rparr> \<lparr>req_method = POST, path = ''/api/auth/login'', cookie_header = None, authorization = None, body = Some (\<lambda>_. JStr ''pw'')\<rparr> (replicate 64 (CHR ''a'')) 0 0 Map.empty))
      = (json_resp 200 (JsObj [(''authenticated'', JsBool True)]),
         snd (login \<lparr>admin_password = ''pw''\<rparr> \<lparr>req_method = POST, path = ''/api/auth/login'', cookie_header = None, authorization = None, body = Some (\<lambda>_. JStr ''pw'')\<rparr> (replicate 64 (CHR ''a'')) 0 0 Map.empty))"
proof -
  have h1: "body \<lparr>req_method = POST, path = ''/api/auth/login'', cookie_header = None, authorization = None, body = Some (\<lambda>_. JStr ''pw'')\<rparr> = Some (\<lambda>_. JStr ''pw'')" by simp
  have h2: "(\<lambda>_. JStr ''pw'') ''password'' = JStr (admin_password \<lparr>admin_password = ''pw''\<rparr>)" by simp
  have h4: "(0::ms) \<le> 0 + SESSION_DURATION" by (simp add: SESSION_DURATION_def)
  show ?thesis
    using login_then_check [where next_req = "\<lparr>req_method = GET, path = ''/api/auth/check'', cookie_header = None, authorization = None, body = None\<rparr>", OF h1 h2 token_a64 h4 prod.collapse [symmetric]]
    by blast
qed

text \<open>C4. After \<open>/api/auth/logout\<close>, a check that presents the same request's token is
  answered \<open>{authenticated: false}\<close>.\<close>

theorem logout_then_check:
  "auth_check req now (snd (logout req ss)) =
     (json_resp 200 (JsObj [(''authenticated'', JsBool False)]), snd (logout req ss))"
  by (auto simp: auth_check_def logout_def deleteSession_def isValidSession_def split: option.splits)

text \<open>C5. A login whose \<open>password\<close> is not the configured string is answered 401
  \<open>{success: false, error: 'Wrong password'}\<close>, and no session is created.\<close>

theorem login_wrong_password:
  assumes "body req = Some b" and "b ''password'' \<noteq> JStr (admin_password cfg)"
  shows "login cfg req tok t1 t2 ss =
    (json_resp 401 (JsObj [(''success'', JsBool False), (''error'', JsStr ''Wrong password'')]), ss)"
  using assms by (simp add: login_def)

theorem login_wrong_password_witness:
  "Some (\<lambda>_. JNum 5) = Some (\<lambda>_. JNum 5) \<and> JNum 5 \<noteq> JStr (admin_password \<lparr>admin_password = ''5''\<rparr>)
   \<and> login \<lparr>admin_password = ''5''\<rparr> \<lparr>req_method = POST, path = ''/api/auth/login'', cookie_header = None,
        authorization = None, body = Some (\<lambda>_. JNum 5)\<rparr> ''t'' 0 0 Map.empty
      = (json_resp 401 (JsObj [(''success'', JsBool False), (''error'', JsStr ''Wrong password'')]), Map.empty)"
  using login_wrong_password [of "\<lparr>req_method = POST, path = ''/api/auth/login'', cookie_header = None,
        authorization = None, body = Some (\<lambda>_. JNum 5)\<rparr>" "\<lambda>_. JNum 5" "\<lparr>admin_password = ''5''\<rparr>"
        "''t''" 0 0 Map.empty]
  by simp

text \<open>C6. \<open>requireAdmin\<close> lets a request through exactly when its token names a stored,
  unexpired session; otherwise it answers 401 when the path it sees starts with
  \<open>/api/\<close> and redirects to \<open>/login\<close> otherwise. Its only effect on the sessions is
  the lazy expiry of \<open>isValidSession\<close>.\<close>

theorem requireAdmin_gate:
  "requireAdmin p req now ss =
    (if \<exists>t se. getTokenFromReq req = Some t \<and> t \<noteq> [] \<and> ss t = Some se \<and> now \<le> expires se
     then Pass
     else if starts_with p ''/api/'' then Deny NOT_AUTHENTICATED else Deny (redirect_resp ''/login''),
     snd (isValidSession (getTokenFromReq req) now ss))"
  by (auto simp: requireAdmin_def isValidSession_def split: option.splits)

text \<open>C10. The cookie login sets is read back: the \<open>name=value\<close> pair a browser
  returns from it yields the login's token in \<open>getTokenFromReq\<close>.\<close>

theorem login_cookie_roundtrip:
  assumes "is_session_token tok"
  shows "getTokenFromReq (req\<lparr>cookie_header := Some (cookie_pair (login_cookie tok))\<rparr>) = Some tok"
proof -
  have "\<forall>c\<in>set tok. is_hex_lower c" "tok \<noteq> []" using assms by (auto simp: is_session_token_def)
  then have "cookie_match (SESSION_COOKIE_NAME @ tok @ []) = Some tok" by (intro cookie_match_at_start) auto
  then show ?thesis using assms by (simp add: getTokenFromReq_def cookie_pair_login_cookie)
qed

theorem login_cookie_roundtrip_witness:
  "is_session_token (replicate 64 (CHR ''a''))
   \<and> getTokenFromReq (\<lparr>req_method = GET, path = ''/admin'', cookie_header = None, authorization = None, body = None\<rparr>
        \<lparr>cookie_header := Some (cookie_pair (login_cookie (replicate 64 (CHR ''a''))))\<rparr>) = Some (replicate 64 (CHR ''a''))"
  using login_cookie_roundtrip [OF token_a64] token_a64 by blast

end
