(* ===== verification/Store.thy ===== *)
theory Store
  imports Http
begin

text \<open>
  The Record Store of \<open>src/server.js\<close>: the two JSON array files under \<open>data/\<close>
  written by \<open>saveSubmission\<close> (lines 222--232) and read by \<open>loadJSON\<close>
  (lines 337--341), the id generator \<open>genId\<close> (lines 217--219), and the admin
  handlers that list (lines 366--377), delete (lines 380--395) and count
  (lines 344--363) the records. The data directory is a map from file name to the
  state of that file; a file that \<open>JSON.parse\<close> rejects (or that cannot be read) is
  \<open>FCorrupt\<close>, one that parses to something other than an array is \<open>FOther\<close>.
  A record is the object \<open>{id, ...data, submittedAt}\<close>; \<open>id\<close> and \<open>submittedAt\<close>
  are optional because the handlers guard their absence.
\<close>

record entry =
  entry_id :: "string option"
  entry_data :: "(string \<times> string) list"
  submittedAt :: "string option"

datatype file_state = FAbsent | FCorrupt | FArray "entry list" | FOther

type_synonym store = "string \<Rightarrow> file_state"

definition APPLICATIONS :: string where "APPLICATIONS = ''applications.json''"
definition BOOKINGS :: string where "BOOKINGS = ''bookings.json''"

text \<open>
  \<open>genId(prefix)\<close>: \<open>prefix + '_' + Date.now().toString(36) +
  Math.random().toString(36).slice(2, 6)\<close>; \<open>rnd\<close> is the base-36 text of the random
  number (\<open>0.xxxx...\<close>), of which characters 2 to 5 are kept.
\<close>

definition genId :: "string \<Rightarrow> nat \<Rightarrow> string \<Rightarrow> string" where
  "genId prefix now rnd = prefix @ ''_'' @ to_radix 36 now @ take 4 (drop 2 rnd)"

text \<open>
  \<open>loadJSON(filename)\<close>: \<open>[]\<close> for an absent or unparsable file, the parsed value
  otherwise. Every caller applies an array method to the result at once, which throws a
  \<open>TypeError\<close> on a value that is not an array: that is the \<open>Inl\<close> case.
\<close>

fun loadJSON :: "file_state \<Rightarrow> entry list js_result" where
  "loadJSON FAbsent = Inr []"
| "loadJSON FCorrupt = Inr []"
| "loadJSON (FArray xs) = Inr xs"
| "loadJSON FOther = Inl TypeError"

text \<open>
  \<open>saveSubmission(filename, data)\<close>: read the list as \<open>loadJSON\<close> does, push the new
  entry (\<open>list.push\<close> throws on a non-array), write the whole array back, return the
  entry. \<open>new_id\<close> is the value of \<open>genId('sub')\<close>, \<open>now_iso\<close> that of
  \<open>new Date().toISOString()\<close>.
\<close>

definition saveSubmission ::
  "string \<Rightarrow> (string \<times> string) list \<Rightarrow> string \<Rightarrow> string \<Rightarrow> store \<Rightarrow> (entry \<times> store) js_result" where
  "saveSubmission filename data new_id now_iso st =
     (case loadJSON (st filename) of
        Inl e \<Rightarrow> Inl e
      | Inr list \<Rightarrow>
          let entry = \<lparr>entry_id = Some new_id, entry_data = data, submittedAt = Some now_iso\<rparr>
          in Inr (entry, st(filename := FArray (list @ [entry]))))"

text \<open>The JSON object of a record, keys in the order the spread writes them.\<close>

definition entry_json :: "entry \<Rightarrow> json" where
  "entry_json e =
     JsObj ((case entry_id e of None \<Rightarrow> [] | Some i \<Rightarrow> [(''id'', JsStr i)])
            @ map (\<lambda>(k, v). (k, JsStr v)) (entry_data e)
            @ (case submittedAt e of None \<Rightarrow> [] | Some t \<Rightarrow> [(''submittedAt'', JsStr t)]))"

text \<open>\<open>(x.submittedAt || '')\<close> and the comparator of the list handlers.\<close>

definition submitted_key :: "entry \<Rightarrow> string" where
  "submitted_key e = (case submittedAt e of None \<Rightarrow> [] | Some t \<Rightarrow> t)"

definition submitted_desc :: "entry \<Rightarrow> entry \<Rightarrow> int" where
  "submitted_desc a b = locale_compare (submitted_key b) (submitted_key a)"

text \<open>\<open>GET /api/admin/applications\<close> and \<open>GET /api/admin/bookings\<close>.\<close>

definition list_handler :: "string \<Rightarrow> store \<Rightarrow> response" where
  "list_handler filename st =
     (case loadJSON (st filename) of
        Inl e \<Rightarrow> error_resp
      | Inr xs \<Rightarrow> json_resp 200 (JsArr (map entry_json (sort_by submitted_desc xs))))"

text \<open>\<open>DELETE /api/admin/applications/:id\<close> and \<open>DELETE /api/admin/bookings/:id\<close>:
  keep the records whose id differs, rewrite the file, answer \<open>{success: true}\<close>.\<close>

definition delete_handler :: "string \<Rightarrow> string \<Rightarrow> store \<Rightarrow> response \<times> store" where
  "delete_handler filename pid st =
     (case loadJSON (st filename) of
        Inl e \<Rightarrow> (error_resp, st)
      | Inr xs \<Rightarrow>
          (json_resp 200 (JsObj [(''success'', JsBool True)]),
           st(filename := FArray (filter (\<lambda>a. entry_id a \<noteq> Some pid) xs))))"

text \<open>
  The counts of \<open>GET /api/admin/dashboard\<close> for one file: \<open>today\<close> is
  \<open>new Date().toISOString().slice(0, 10)\<close> and \<open>week_ago\<close> is
  \<open>new Date(Date.now() - 7 days).toISOString()\<close>; \<open>>=\<close> on strings is the
  lexicographic order.
\<close>

definition is_today :: "string \<Rightarrow> entry \<Rightarrow> bool" where
  "is_today today a = (case submittedAt a of None \<Rightarrow> False | Some t \<Rightarrow> t \<noteq> [] \<and> starts_with t today)"

definition in_week :: "string \<Rightarrow> entry \<Rightarrow> bool" where
  "in_week week_ago a = (case submittedAt a of None \<Rightarrow> False | Some t \<Rightarrow> week_ago \<le> t)"

definition counts_json :: "string \<Rightarrow> string \<Rightarrow> entry list \<Rightarrow> json" where
  "counts_json today week_ago xs =
     JsObj [(''total'', JsNum (int (length xs))),
            (''today'', JsNum (int (length (filter (is_today today) xs)))),
            (''thisWeek'', JsNum (int (length (filter (in_week week_ago) xs))))]"

definition dashboard_handler :: "string \<Rightarrow> string \<Rightarrow> store \<Rightarrow> response" where
  "dashboard_handler today week_ago st =
     (case (loadJSON (st APPLICATIONS), loadJSON (st BOOKINGS)) of
        (Inr apps, Inr books) \<Rightarrow>
          json_resp 200 (JsObj [(''applications'', counts_json today week_ago apps),
                                (''bookings'', counts_json today week_ago books),
                                (''totalRequests'', JsNum (int (length apps + length books)))])
      | _ \<Rightarrow> error_resp)"

subsection \<open>The unused \<open>db.json\<close> helpers\<close>

text \<open>\<open>readDB()\<close> and \<open>writeDB(data)\<close> (lines 205--215) read and write \<open>data/db.json\<close>;
  no route calls them, so no request reaches this file. A missing or unparsable file
  reads as the default object.\<close>

datatype db_file = DBAbsent | DBUnparsable | DBJson json

definition DB_DEFAULT :: json where
  "DB_DEFAULT = JsObj [(''accounts'', JsArr []), (''chatters'', JsArr []), (''weeklyRevenue'', JsArr []),
     (''payroll'', JsArr []), (''traffic'', JsObj []), (''settings'', JsObj [])]"

definition readDB :: "db_file \<Rightarrow> json" where
  "readDB f = (case f of DBJson j \<Rightarrow> j | _ \<Rightarrow> DB_DEFAULT)"

text \<open>\<open>JSON.stringify(data, null, 2)\<close> of a JSON value, which \<open>JSON.parse\<close> reads back
  as that value.\<close>

definition writeDB :: "json \<Rightarrow> db_file" where
  "writeDB j = DBJson j"

subsection \<open>Helper lemmas\<close>

lemma saveSubmission_ok:
  assumes "loadJSON (st fn) = Inr xs"
  shows "saveSubmission fn data i t st =
    Inr (\<lparr>entry_id = Some i, entry_data = data, submittedAt = Some t\<rparr>,
         st(fn := FArray (xs @ [\<lparr>entry_id = Some i, entry_data = data, submittedAt = Some t\<rparr>])))"
  using assms by (simp add: saveSubmission_def Let_def)

lemma submitted_desc_eq: "submitted_desc = (\<lambda>a b. locale_compare (submitted_key b) (submitted_key a))"
  by (simp add: submitted_desc_def fun_eq_iff)

lemma filter_keeps_other_ids:
  "Some pid \<notin> entry_id ` set xs \<Longrightarrow> filter (\<lambda>a. entry_id a \<noteq> Some pid) xs = xs"
  by (force simp: filter_id_conv)

lemma less_append_same_length:
  "length w = length u \<Longrightarrow> w < (u :: string) \<Longrightarrow> w @ x < u @ y"
proof (induction w u rule: list_induct2)
  case Nil
  then show ?case by simp
next
  case (Cons a w b u)
  then show ?case by auto
qed

lemma is_today_in_week:
  assumes "length today \<le> length week_ago" and "take (length today) week_ago < today"
    and "is_today today a"
  shows "in_week week_ago a"
proof -
  obtain t where t: "submittedAt a = Some t" "starts_with t today"
    using assms(3) by (auto simp: is_today_def split: option.splits)
  then have "t = today @ drop (length today) t" by (metis append_take_drop_id starts_with_def)
  moreover have "week_ago = take (length today) week_ago @ drop (length today) week_ago" by simp
  moreover have "length (take (length today) week_ago) = length today" using assms(1) by simp
  ultimately have "week_ago < t" using assms(2) less_append_same_length by metis
  with t show ?thesis by (simp add: in_week_def)
qed

lemma today_le_week:
  assumes "length today \<le> length week_ago" and "take (length today) week_ago < today"
  shows "length (filter (is_today today) xs) \<le> length (filter (in_week week_ago) xs)"
  using assms is_today_in_week by (intro length_filter_mono_impl) blast

lemma readDB_writeDB: "readDB (writeDB j) = j"
  by (simp add: readDB_def writeDB_def)

lemma readDB_unreadable: "f \<noteq> DBJson (readDB f) \<Longrightarrow> readDB f = DB_DEFAULT"
  by (cases f) (simp_all add: readDB_def)

subsection \<open>Properties of the Record Store\<close>

text \<open>C11. \<open>saveSubmission\<close> on a readable file appends exactly one record, with the
  given id, fields and timestamp, after the records already there, and touches no other
  file.\<close>

theorem save_appends:
  assumes "loadJSON (st fn) = Inr xs" and "saveSubmission fn data i t st = Inr (e, st')"
  shows "e = \<lparr>entry_id = Some i, entry_data = data, submittedAt = Some t\<rparr>
    \<and> loadJSON (st' fn) = Inr (xs @ [e]) \<and> (\<forall>g. g \<noteq> fn \<longrightarrow> st' g = st g)"
  using assms by (auto simp: saveSubmission_def Let_def)

theorem save_appends_witness:
  "\<exists>e st'. saveSubmission ''applications.json'' [(''name'', ''Bo'')] ''sub_2'' ''2026-01-02'' (\<lambda>_. FArray [\<lparr>entry_id = Some ''sub_1'', entry_data = [(''name'', ''Ana'')], submittedAt = Some ''2026-01-01''\<rparr>]) = Inr (e, st')
     \<and> e = \<lparr>entry_id = Some ''sub_2'', entry_data = [(''name'', ''Bo'')], submittedAt = Some ''2026-01-02''\<rparr>
     \<and> loadJSON (st' ''applications.json'') = Inr ([\<lparr>entry_id = Some ''sub_1'', entry_data = [(''name'', ''Ana'')], submittedAt = Some ''2026-01-01''\<rparr>] @ [e])
     \<and> st' ''bookings.json'' = FArray [\<lparr>entry_id = Some ''sub_1'', entry_data = [(''name'', ''Ana'')], submittedAt = Some ''2026-01-01''\<rparr>]"
proof -
  obtain e st' where sv: "saveSubmission ''applications.json'' [(''name'', ''Bo'')] ''sub_2'' ''2026-01-02''
      (\<lambda>_. FArray [\<lparr>entry_id = Some ''sub_1'', entry_data = [(''name'', ''Ana'')], submittedAt = Some ''2026-01-01''\<rparr>]) = Inr (e, st')"
    by (simp add: saveSubmission_def Let_def)
  have "e = \<lparr>entry_id = Some ''sub_2'', entry_data = [(''name'', ''Bo'')], submittedAt = Some ''2026-01-02''\<rparr>
    \<and> loadJSON (st' ''applications.json'') = Inr ([\<lparr>entry_id = Some ''sub_1'', entry_data = [(''name'', ''Ana'')], submittedAt = Some ''2026-01-01''\<rparr>] @ [e])
    \<and> (\<forall>g. g \<noteq> ''applications.json'' \<longrightarrow> st' g = FArray [\<lparr>entry_id = Some ''sub_1'', entry_data = [(''name'', ''Ana'')], submittedAt = Some ''2026-01-01''\<rparr>])"
    using save_appends [OF _ sv] by simp
  then show ?thesis using sv by auto
qed

text \<open>C12. Deleting an id that one record carries removes exactly that record: the other
  records stay, in their order.\<close>

theorem delete_existing:
  assumes "loadJSON (st fn) = Inr (us @ e # vs)" and "entry_id e = Some pid"
    and "Some pid \<notin> entry_id ` set us" and "Some pid \<notin> entry_id ` set vs"
  shows "loadJSON (snd (delete_handler fn pid st) fn) = Inr (us @ vs)"
  using assms by (simp add: delete_handler_def filter_keeps_other_ids)

theorem delete_existing_witness:
  "loadJSON (snd (delete_handler ''applications.json'' ''sub_1'' (\<lambda>_. FArray [\<lparr>entry_id = Some ''sub_1'', entry_data = [(''name'', ''Ana'')], submittedAt = Some ''2026-01-01''\<rparr>, \<lparr>entry_id = Some ''sub_2'', entry_data = [(''name'', ''Bo'')], submittedAt = Some ''2026-01-02''\<rparr>])) ''applications.json'')
     = Inr ([] @ [\<lparr>entry_id = Some ''sub_2'', entry_data = [(''name'', ''Bo'')], submittedAt = Some ''2026-01-02''\<rparr>])"
  by (rule delete_existing [of _ _ "[]" "\<lparr>entry_id = Some ''sub_1'', entry_data = [(''name'', ''Ana'')], submittedAt = Some ''2026-01-01''\<rparr>" "[\<lparr>entry_id = Some ''sub_2'', entry_data = [(''name'', ''Bo'')], submittedAt = Some ''2026-01-02''\<rparr>]"]) auto

text \<open>C13. Deleting an id no record carries leaves the records as they were, and the
  handler still answers \<open>{success: true}\<close>.\<close>

theorem delete_absent:
  assumes "loadJSON (st fn) = Inr xs" and "Some pid \<notin> entry_id ` set xs"
  shows "delete_handler fn pid st = (json_resp 200 (JsObj [(''success'', JsBool True)]), st(fn := FArray xs))"
  using assms by (simp add: delete_handler_def filter_keeps_other_ids)

theorem delete_absent_witness:
  "delete_handler ''applications.json'' ''sub_9'' (\<lambda>_. FArray [\<lparr>entry_id = Some ''sub_1'', entry_data = [(''name'', ''Ana'')], submittedAt = Some ''2026-01-01''\<rparr>, \<lparr>entry_id = Some ''sub_2'', entry_data = [(''name'', ''Bo'')], submittedAt = Some ''2026-01-02''\<rparr>])
     = (json_resp 200 (JsObj [(''success'', JsBool True)]), (\<lambda>_. FArray [\<lparr>entry_id = Some ''sub_1'', entry_data = [(''name'', ''Ana'')], submittedAt = Some ''2026-01-01''\<rparr>, \<lparr>entry_id = Some ''sub_2'', entry_data = [(''name'', ''Bo'')], submittedAt = Some ''2026-01-02''\<rparr>])(''applications.json'' := FArray [\<lparr>entry_id = Some ''sub_1'', entry_data = [(''name'', ''Ana'')], submittedAt = Some ''2026-01-01''\<rparr>, \<lparr>entry_id = Some ''sub_2'', entry_data = [(''name'', ''Bo'')], submittedAt = Some ''2026-01-02''\<rparr>]))"
  by (rule delete_absent) auto

text \<open>C14. The list handlers answer every record of the file exactly once, ordered by
  non-increasing \<open>submittedAt\<close> (absent ones as the empty string), and records with the
  same timestamp keep their order in the file.\<close>

theorem list_handler_sorted:
  assumes "loadJSON (st fn) = Inr xs"
  shows "\<exists>ys. list_handler fn st = json_resp 200 (JsArr (map entry_json ys)) \<and> mset ys = mset xs
    \<and> sorted_wrt (\<lambda>a b. submitted_key b \<le> submitted_key a) ys
    \<and> (\<forall>k. filter (\<lambda>y. submitted_key y = k) ys = filter (\<lambda>y. submitted_key y = k) xs)"
  using assms by (auto simp: list_handler_def submitted_desc_eq sorted_sort_by_desc filter_sort_by_desc)

theorem list_handler_sorted_witness:
  "\<exists>ys. list_handler ''applications.json'' (\<lambda>_. FArray [\<lparr>entry_id = Some ''sub_1'', entry_data = [(''name'', ''Ana'')], submittedAt = Some ''2026-01-01''\<rparr>, \<lparr>entry_id = Some ''sub_2'', entry_data = [(''name'', ''Bo'')], submittedAt = Some ''2026-01-02''\<rparr>]) = json_resp 200 (JsArr (map entry_json ys))
     \<and> mset ys = mset [\<lparr>entry_id = Some ''sub_1'', entry_data = [(''name'', ''Ana'')], submittedAt = Some ''2026-01-01''\<rparr>, \<lparr>entry_id = Some ''sub_2'', entry_data = [(''name'', ''Bo'')], submittedAt = Some ''2026-01-02''\<rparr>]
     \<and> sorted_wrt (\<lambda>a b. submitted_key b \<le> submitted_key a) ys"
  using list_handler_sorted [of "(\<lambda>_. FArray [\<lparr>entry_id = Some ''sub_1'', entry_data = [(''name'', ''Ana'')], submittedAt = Some ''2026-01-01''\<rparr>, \<lparr>entry_id = Some ''sub_2'', entry_data = [(''name'', ''Bo'')], submittedAt = Some ''2026-01-02''\<rparr>])" "''applications.json''"] by auto

text \<open>When the file's timestamps strictly increase in file order, as appends with a
  forward clock make them, the list handler answers the records newest first: records
  written at \<open>t1 < t2 < t3\<close> are listed as \<open>[t3, t2, t1]\<close>.\<close>

theorem list_handler_newest_first:
  assumes "loadJSON (st fn) = Inr xs" and "sorted_wrt (\<lambda>a b. submitted_key a < submitted_key b) xs"
  shows "list_handler fn st = json_resp 200 (JsArr (map entry_json (rev xs)))"
proof -
  have strict: "sorted_wrt (<) (map submitted_key xs)" using assms(2) by (simp add: sorted_wrt_map)
  then have "sorted (map submitted_key xs)" by (simp add: strict_sorted_iff)
  then have "sort_key submitted_key xs = xs" by (rule sort_key_id_if_sorted)
  moreover have "inj_on submitted_key (set xs)"
    using strict by (simp add: strict_sorted_iff distinct_map)
  ultimately have "sort_key submitted_key (rev xs) = xs"
    using sort_key_inj_key_eq [of "rev xs" xs submitted_key] \<open>sorted (map submitted_key xs)\<close> by simp
  then show ?thesis using assms(1) by (simp add: list_handler_def submitted_desc_eq sort_by_desc_eq_sort_key)
qed

theorem list_handler_newest_first_witness:
  "list_handler ''applications.json'' (\<lambda>_. FArray [\<lparr>entry_id = Some ''sub_1'', entry_data = [(''name'', ''Ana'')], submittedAt = Some ''2026-01-01''\<rparr>, \<lparr>entry_id = Some ''sub_2'', entry_data = [(''name'', ''Bo'')], submittedAt = Some ''2026-01-02''\<rparr>]) = json_resp 200 (JsArr (map entry_json (rev [\<lparr>entry_id = Some ''sub_1'', entry_data = [(''name'', ''Ana'')], submittedAt = Some ''2026-01-01''\<rparr>, \<lparr>entry_id = Some ''sub_2'', entry_data = [(''name'', ''Bo'')], submittedAt = Some ''2026-01-02''\<rparr>])))"
  by (rule list_handler_newest_first) (auto simp: submitted_key_def)

text \<open>The listing is the library's stable sort by timestamp of the reversed file,
  reversed: the comparator-based sort of the handler is equivalent to \<open>sort_key\<close>.\<close>

lemma list_handler_sort_key:
  assumes "loadJSON (st fn) = Inr xs"
  shows "list_handler fn st = json_resp 200 (JsArr (map entry_json (rev (sort_key submitted_key (rev xs)))))"
  using assms by (simp add: list_handler_def submitted_desc_eq sort_by_desc_eq_sort_key)

text \<open>C17. The dashboard reports, for each file, its length as \<open>total\<close>, the number of
  records stamped with today's date as \<open>today\<close>, a \<open>thisWeek\<close> between the two,
  and the sum of the totals as \<open>totalRequests\<close>, whenever the ISO date of a week ago
  is before today's date.\<close>

theorem dashboard_counts:
  assumes "loadJSON (st APPLICATIONS) = Inr apps" and "loadJSON (st BOOKINGS) = Inr books"
    and "length today \<le> length week_ago" and "take (length today) week_ago < today"
  shows "\<exists>ta wa tb wb. dashboard_handler today week_ago st = json_resp 200 (JsObj
      [(''applications'', JsObj [(''total'', JsNum (int (length apps))), (''today'', JsNum ta), (''thisWeek'', JsNum wa)]),
       (''bookings'', JsObj [(''total'', JsNum (int (length books))), (''today'', JsNum tb), (''thisWeek'', JsNum wb)]),
       (''totalRequests'', JsNum (int (length apps) + int (length books)))])
    \<and> ta = int (length (filter (is_today today) apps)) \<and> tb = int (length (filter (is_today today) books))
    \<and> 0 \<le> ta \<and> ta \<le> wa \<and> wa \<le> int (length apps) \<and> 0 \<le> tb \<and> tb \<le> wb \<and> wb \<le> int (length books)"
proof -
  let ?ta = "int (length (filter (is_today today) apps))"
  let ?wa = "int (length (filter (in_week week_ago) apps))"
  let ?tb = "int (length (filter (is_today today) books))"
  let ?wb = "int (length (filter (in_week week_ago) books))"
  have "?ta \<le> ?wa" "?tb \<le> ?wb" using today_le_week [OF assms(3,4)] by simp_all
  moreover have "?wa \<le> int (length apps)" "?wb \<le> int (length books)" by simp_all
  ultimately show ?thesis using assms(1,2)
    by (intro exI [of _ ?ta] exI [of _ ?wa] exI [of _ ?tb] exI [of _ ?wb])
      (simp add: dashboard_handler_def counts_json_def)
qed

theorem dashboard_counts_witness:
  "\<exists>ta wa tb wb. dashboard_handler ''2026-01-02'' ''2025-12-26T00:00:00.000Z'' (\<lambda>_. FArray [\<lparr>entry_id = Some ''sub_1'', entry_data = [(''name'', ''Ana'')], submittedAt = Some ''2026-01-01''\<rparr>, \<lparr>entry_id = Some ''sub_2'', entry_data = [(''name'', ''Bo'')], submittedAt = Some ''2026-01-02''\<rparr>]) = json_resp 200 (JsObj
      [(''applications'', JsObj [(''total'', JsNum (int (length [\<lparr>entry_id = Some ''sub_1'', entry_data = [(''name'', ''Ana'')], submittedAt = Some ''2026-01-01''\<rparr>, \<lparr>entry_id = Some ''sub_2'', entry_data = [(''name'', ''Bo'')], submittedAt = Some ''2026-01-02''\<rparr>]))), (''today'', JsNum ta), (''thisWeek'', JsNum wa)]),
       (''bookings'', JsObj [(''total'', JsNum (int (length [\<lparr>entry_id = Some ''sub_1'', entry_data = [(''name'', ''Ana'')], submittedAt = Some ''2026-01-01''\<rparr>, \<lparr>entry_id = Some ''sub_2'', entry_data = [(''name'', ''Bo'')], submittedAt = Some ''2026-01-02''\<rparr>]))), (''today'', JsNum tb), (''thisWeek'', JsNum wb)]),
       (''totalRequests'', JsNum (int (length [\<lparr>entry_id = Some ''sub_1'', entry_data = [(''name'', ''Ana'')], submittedAt = Some ''2026-01-01''\<rparr>, \<lparr>entry_id = Some ''sub_2'', entry_data = [(''name'', ''Bo'')], submittedAt = Some ''2026-01-02''\<rparr>]) + int (length [\<lparr>entry_id = Some ''sub_1'', entry_data = [(''name'', ''Ana'')], submittedAt = Some ''2026-01-01''\<rparr>, \<lparr>entry_id = Some ''sub_2'', entry_data = [(''name'', ''Bo'')], submittedAt = Some ''2026-01-02''\<rparr>])))])
    \<and> ta = int (length (filter (is_today ''2026-01-02'') [\<lparr>entry_id = Some ''sub_1'', entry_data = [(''name'', ''Ana'')], submittedAt = Some ''2026-01-01''\<rparr>, \<lparr>entry_id = Some ''sub_2'', entry_data = [(''name'', ''Bo'')], submittedAt = Some ''2026-01-02''\<rparr>]))
    \<and> tb = int (length (filter (is_today ''2026-01-02'') [\<lparr>entry_id = Some ''sub_1'', entry_data = [(''name'', ''Ana'')], submittedAt = Some ''2026-01-01''\<rparr>, \<lparr>entry_id = Some ''sub_2'', entry_data = [(''name'', ''Bo'')], submittedAt = Some ''2026-01-02''\<rparr>]))
    \<and> 0 \<le> ta \<and> ta \<le> wa \<and> wa \<le> int (length [\<lparr>entry_id = Some ''sub_1'', entry_data = [(''name'', ''Ana'')], submittedAt = Some ''2026-01-01''\<rparr>, \<lparr>entry_id = Some ''sub_2'', entry_data = [(''name'', ''Bo'')], submittedAt = Some ''2026-01-02''\<rparr>])
    \<and> 0 \<le> tb \<and> tb \<le> wb \<and> wb \<le> int (length [\<lparr>entry_id = Some ''sub_1'', entry_data = [(''name'', ''Ana'')], submittedAt = Some ''2026-01-01''\<rparr>, \<lparr>entry_id = Some ''sub_2'', entry_data = [(''name'', ''Bo'')], submittedAt = Some ''2026-01-02''\<rparr>])"
  by (rule dashboard_counts) (simp_all add: less_char_def)

text \<open>C18. A file that parses to something other than an array makes every handler that
  reads it fail with a \<open>TypeError\<close> (a 500 response), and the file is not written.\<close>

theorem non_array_file_error:
  assumes "st fn = FOther"
  shows "list_handler fn st = error_resp \<and> saveSubmission fn d i t st = Inl TypeError
    \<and> delete_handler fn pid st = (error_resp, st)"
  using assms by (simp add: list_handler_def saveSubmission_def delete_handler_def)

theorem non_array_file_error_witness:
  "list_handler ''bookings.json'' (\<lambda>_. FOther) = error_resp
   \<and> saveSubmission ''bookings.json'' [] ''sub_1'' ''t'' (\<lambda>_. FOther) = Inl TypeError
   \<and> delete_handler ''bookings.json'' ''sub_1'' (\<lambda>_. FOther) = (error_resp, \<lambda>_. FOther)"
  by (rule non_array_file_error) simp

text \<open>C19. An absent or unparsable file reads as the empty list: it is listed as
  \<open>[]\<close>, and saving into it writes a one-record array, discarding what was there.\<close>

theorem unreadable_file_empty:
  assumes "st fn = FAbsent \<or> st fn = FCorrupt"
  shows "list_handler fn st = json_resp 200 (JsArr [])
    \<and> saveSubmission fn d i t st = Inr (\<lparr>entry_id = Some i, entry_data = d, submittedAt = Some t\<rparr>,
         st(fn := FArray [\<lparr>entry_id = Some i, entry_data = d, submittedAt = Some t\<rparr>]))"
  using assms by (auto simp: list_handler_def saveSubmission_def Let_def)

theorem unreadable_file_empty_witness:
  "list_handler ''bookings.json'' (\<lambda>_. FCorrupt) = json_resp 200 (JsArr [])
   \<and> saveSubmission ''bookings.json'' [] ''sub_1'' ''t'' (\<lambda>_. FCorrupt)
       = Inr (\<lparr>entry_id = Some ''sub_1'', entry_data = [], submittedAt = Some ''t''\<rparr>,
              (\<lambda>_. FCorrupt)(''bookings.json'' := FArray [\<lparr>entry_id = Some ''sub_1'', entry_data = [], submittedAt = Some ''t''\<rparr>]))"
  by (rule unreadable_file_empty) simp

text \<open>C20. Ids are not unique: two saves in the same millisecond whose random draws agree
  on the four base-36 digits \<open>genId\<close> keeps leave two records with the same id.\<close>

theorem same_tick_duplicate_id:
  assumes "saveSubmission fn d1 (genId ''sub'' now r1) t1 st = Inr (e1, st1)"
    and "saveSubmission fn d2 (genId ''sub'' now r2) t2 st1 = Inr (e2, st2)"
    and "take 4 (drop 2 r1) = take 4 (drop 2 r2)"
  shows "\<exists>xs. loadJSON (st2 fn) = Inr xs \<and> \<not> distinct (map entry_id xs)"
proof -
  obtain xs where xs: "loadJSON (st fn) = Inr xs"
    using assms(1) by (cases "loadJSON (st fn)") (auto simp: saveSubmission_def)
  then have e1: "e1 = \<lparr>entry_id = Some (genId ''sub'' now r1), entry_data = d1, submittedAt = Some t1\<rparr>"
    and st1: "st1 = st(fn := FArray (xs @ [e1]))"
    using assms(1) by (auto simp: saveSubmission_def Let_def)
  then have "loadJSON (st1 fn) = Inr (xs @ [e1])" by simp
  then have e2: "entry_id e2 = Some (genId ''sub'' now r2)" and st2: "st2 fn = FArray (xs @ [e1, e2])"
    using assms(2) by (auto simp: saveSubmission_def Let_def)
  have "genId ''sub'' now r1 = genId ''sub'' now r2" using assms(3) by (simp add: genId_def)
  with e1 e2 have "entry_id e1 = entry_id e2" by simp
  then have "\<not> distinct (map entry_id (xs @ [e1, e2]))" by simp
  with st2 show ?thesis by simp
qed

theorem same_tick_duplicate_id_witness:
  "\<exists>xs. loadJSON (((\<lambda>_. FAbsent)(''applications.json'' := FArray [\<lparr>entry_id = Some (genId ''sub'' 5 ''0.abcd12''), entry_data = [], submittedAt = Some ''t1''\<rparr>, \<lparr>entry_id = Some (genId ''sub'' 5 ''0.abcd99''), entry_data = [], submittedAt = Some ''t2''\<rparr>])) ''applications.json'') = Inr xs \<and> \<not> distinct (map entry_id xs)"
  by (rule same_tick_duplicate_id [of "''applications.json''" "[]" 5 "''0.abcd12''" "''t1''" "\<lambda>_. FAbsent"
        "\<lparr>entry_id = Some (genId ''sub'' 5 ''0.abcd12''), entry_data = [], submittedAt = Some ''t1''\<rparr>" "(\<lambda>_. FAbsent)(''applications.json'' := FArray [\<lparr>entry_id = Some (genId ''sub'' 5 ''0.abcd12''), entry_data = [], submittedAt = Some ''t1''\<rparr>])" "[]" "''0.abcd99''" "''t2''" "\<lparr>entry_id = Some (genId ''sub'' 5 ''0.abcd99''), entry_data = [], submittedAt = Some ''t2''\<rparr>" "(\<lambda>_. FAbsent)(''applications.json'' := FArray [\<lparr>entry_id = Some (genId ''sub'' 5 ''0.abcd12''), entry_data = [], submittedAt = Some ''t1''\<rparr>, \<lparr>entry_id = Some (genId ''sub'' 5 ''0.abcd99''), entry_data = [], submittedAt = Some ''t2''\<rparr>])"])
    (simp_all add: saveSubmission_def Let_def fun_upd_twist)
end
