(* ===== verification/Submissions.thy ===== *)
theory Submissions
  imports Store
begin

text \<open>
  The Submission Handlers of \<open>src/server.js\<close>: \<open>POST /api/apply\<close> (lines 238--283)
  and \<open>POST /api/book\<close> (lines 285--330). Both destructure the body, collect every
  failed validation rule (lines 240--244), build the trimmed field object with the
  optional fields defaulted to \<open>''\<close>, store it with \<open>saveSubmission\<close>, start two
  emails without awaiting them, and answer \<open>{success, message, id}\<close>. The two handlers
  differ only in the file, the optional field names and the texts, so one definition
  \<open>submission_handler\<close> takes them as a \<open>form\<close>. An exception thrown on the way
  (destructuring an undefined body, calling \<open>trim\<close> on a non-string) rejects the async
  handler, which Express~5 answers with a 500.
\<close>

subsection \<open>The email-shape pattern\<close>

text \<open>
  \<open>/^[^\s@]+@[^\s@]+\.[^\s@]+$/\<close>: \<open>email_regex\<close> is the language of the pattern
  (three non-empty runs of characters that are neither whitespace nor \<open>@\<close>, separated by
  \<open>@\<close> and a dot; the dot may be any dot after the \<open>@\<close> that leaves both sides
  non-empty); \<open>email_ok\<close> is the matcher used by the model: split at the first \<open>@\<close>
  and look for an inner dot.
\<close>

definition email_char :: "char \<Rightarrow> bool" where
  "email_char c \<longleftrightarrow> \<not> is_ws c \<and> c \<noteq> CHR ''@''"

definition email_regex :: "string \<Rightarrow> bool" where
  "email_regex s \<longleftrightarrow> (\<exists>a b c. s = a @ CHR ''@'' # b @ CHR ''.'' # c \<and> a \<noteq> [] \<and> b \<noteq> [] \<and> c \<noteq> []
     \<and> (\<forall>x\<in>set a. email_char x) \<and> (\<forall>x\<in>set b. email_char x) \<and> (\<forall>x\<in>set c. email_char x))"

definition email_ok :: "string \<Rightarrow> bool" where
  "email_ok s =
     (let a = takeWhile (\<lambda>c. c \<noteq> CHR ''@'') s; r = dropWhile (\<lambda>c. c \<noteq> CHR ''@'') s
      in case r of
           [] \<Rightarrow> False
         | _ # r' \<Rightarrow> a \<noteq> [] \<and> (\<forall>x\<in>set a. \<not> is_ws x) \<and> (\<forall>x\<in>set r'. email_char x)
                     \<and> CHR ''.'' \<in> set (tl (butlast r')))"

subsection \<open>Validation and trimming\<close>

text \<open>\<open>!v || !v.trim()\<close>: the rule fails for a falsy value or a string that is blank
  after trimming; \<open>trim\<close> throws on a truthy non-string.\<close>

definition required_missing :: "jval \<Rightarrow> bool js_result" where
  "required_missing v =
     (if \<not> js_truthy v then Inr True
      else case jv_trim v of Inl e \<Rightarrow> Inl e | Inr t \<Rightarrow> Inr (t = []))"

text \<open>\<open>email && !pattern.test(email.trim())\<close>.\<close>

definition email_invalid :: "jval \<Rightarrow> bool js_result" where
  "email_invalid v =
     (if \<not> js_truthy v then Inr False
      else case jv_trim v of Inl e \<Rightarrow> Inl e | Inr t \<Rightarrow> Inr (\<not> email_ok t))"

definition NAME_REQUIRED :: string where "NAME_REQUIRED = ''Name is required.''"
definition EMAIL_REQUIRED :: string where "EMAIL_REQUIRED = ''Email is required.''"
definition EMAIL_INVALID :: string where "EMAIL_INVALID = ''Invalid email.''"

text \<open>Lines 240--243: the three checks in order, each pushing its message.\<close>

definition validate :: "(string \<Rightarrow> jval) \<Rightarrow> string list js_result" where
  "validate b =
     (case required_missing (b ''name'') of
        Inl e \<Rightarrow> Inl e
      | Inr n \<Rightarrow>
          (case required_missing (b ''email'') of
             Inl e \<Rightarrow> Inl e
           | Inr m \<Rightarrow>
               (case email_invalid (b ''email'') of
                  Inl e \<Rightarrow> Inl e
                | Inr i \<Rightarrow>
                    Inr ((if n then [NAME_REQUIRED] else []) @ (if m then [EMAIL_REQUIRED] else [])
                         @ (if i then [EMAIL_INVALID] else [])))))"

text \<open>\<open>(v || '').trim()\<close> for an optional field.\<close>

definition opt_trim :: "jval \<Rightarrow> string js_result" where
  "opt_trim v = jv_trim (js_or v (JStr []))"

fun trim_fields :: "(string \<Rightarrow> jval) \<Rightarrow> string list \<Rightarrow> (string \<times> string) list js_result" where
  "trim_fields b [] = Inr []"
| "trim_fields b (k # ks) =
     (case opt_trim (b k) of
        Inl e \<Rightarrow> Inl e
      | Inr v \<Rightarrow> (case trim_fields b ks of Inl e \<Rightarrow> Inl e | Inr r \<Rightarrow> Inr ((k, v) # r)))"

text \<open>The object \<open>trimmed\<close>: \<open>name\<close> and \<open>email\<close> trimmed, then the optional fields.\<close>

definition trimmed_fields :: "(string \<Rightarrow> jval) \<Rightarrow> string list \<Rightarrow> (string \<times> string) list js_result" where
  "trimmed_fields b optional =
     (case (jv_trim (b ''name''), jv_trim (b ''email''), trim_fields b optional) of
        (Inr n, Inr e, Inr r) \<Rightarrow> Inr ((''name'', n) # (''email'', e) # r)
      | (Inl err, _, _) \<Rightarrow> Inl err
      | (_, Inl err, _) \<Rightarrow> Inl err
      | (_, _, Inl err) \<Rightarrow> Inl err)"

subsection \<open>The handlers\<close>

text \<open>
  The email transport as the handlers see it: \<open>transporter\<close> is set or \<open>null\<close>, and
  \<open>NOTIFY_EMAIL\<close> receives the notifications. A dispatched email is its recipient and
  subject; \<open>sendConfirmation\<close> and \<open>sendNotification\<close> send nothing without a
  transporter, and their outcome is only logged.
\<close>

record mail_cfg =
  transporter_ready :: bool
  notify_email :: string

datatype mail = Mail string string

definition sendNotification :: "mail_cfg \<Rightarrow> string \<Rightarrow> mail list" where
  "sendNotification mc subject = (if transporter_ready mc then [Mail (notify_email mc) subject] else [])"

definition sendConfirmation :: "mail_cfg \<Rightarrow> string \<Rightarrow> string \<Rightarrow> mail list" where
  "sendConfirmation mc to_email subject = (if transporter_ready mc then [Mail to_email subject] else [])"

text \<open>
  What the two \<open>async\<close> functions do once started (lines 63--97). The outcome of
  \<open>transporter.sendMail\<close> for each mail is an input: delivered, or an error with
  nodemailer's \<open>message\<close>, \<open>response\<close> and \<open>responseCode\<close>. The result is how the
  function's promise settles and the console lines it writes. The handlers start both
  without \<open>await\<close> (lines 254, 270, 301, 316), so a rejection there would be an
  unhandled one, which ends a Node process.
\<close>

record smtp_error =
  err_message :: string
  err_response :: "string option"
  err_code :: "nat option"

datatype send_outcome = Delivered | SendFailed smtp_error

datatype settlement = Resolved | Rejected smtp_error

datatype log_line = LogInfo string | LogWarn string | LogError string

definition ENVELOPE :: string where "ENVELOPE = [CHR 0xE2, CHR 0x9C, CHR 0x89]"

definition log_prefix :: string where "log_prefix = ''  '' @ ENVELOPE @ ''  ''"

text \<open>\<open>err.response ? `${err.message} | ${err.response}` : err.message\<close>.\<close>

definition err_text :: "smtp_error \<Rightarrow> string" where
  "err_text e =
     (case err_response e of
        Some r \<Rightarrow> if r = [] then err_message e else err_message e @ '' | '' @ r
      | None \<Rightarrow> err_message e)"

definition runNotification :: "mail_cfg \<Rightarrow> (mail \<Rightarrow> send_outcome) \<Rightarrow> string \<Rightarrow> settlement \<times> log_line list" where
  "runNotification mc out subject =
     (if \<not> transporter_ready mc then (Resolved, [LogWarn (log_prefix @ ''Skipped (no transporter): '' @ subject)])
      else case out (Mail (notify_email mc) subject) of
             Delivered \<Rightarrow> (Resolved, [LogInfo (log_prefix @ ''Notification sent: '' @ subject)])
           | SendFailed e \<Rightarrow>
               (Resolved, LogError (log_prefix @ ''Failed to send notification: '' @ err_text e)
                  # (case err_code e of
                       Some c \<Rightarrow> if c = 0 then [] else [LogError (log_prefix @ ''Code: '' @ to_radix 10 c)]
                     | None \<Rightarrow> [])))"

definition runConfirmation ::
  "mail_cfg \<Rightarrow> (mail \<Rightarrow> send_outcome) \<Rightarrow> string \<Rightarrow> string \<Rightarrow> settlement \<times> log_line list" where
  "runConfirmation mc out to_email subject =
     (if \<not> transporter_ready mc then (Resolved, [])
      else case out (Mail to_email subject) of
             Delivered \<Rightarrow> (Resolved, [LogInfo (log_prefix @ ''Confirmation sent to: '' @ to_email)])
           | SendFailed e \<Rightarrow>
               (Resolved, [LogError (log_prefix @ ''Failed to send confirmation to '' @ to_email @ '' : '' @ err_text e)]))"

text \<open>What distinguishes the two forms.\<close>

record form =
  form_file :: string
  form_optional :: "string list"
  notify_prefix :: string
  confirm_subject :: string
  success_message :: string

definition EM_DASH :: string where "EM_DASH = [CHR 0xE2, CHR 0x80, CHR 0x94]"

definition APPLY_FORM :: form where
  "APPLY_FORM = \<lparr>form_file = APPLICATIONS, form_optional = [''platforms'', ''audience'', ''message''],
     notify_prefix = ''New Application: '',
     confirm_subject = ''We got your application '' @ EM_DASH @ '' Embersome'',
     success_message = ''Application received! We'' @ [CHR 0x27] @ ''ll be in touch within 48 hours.''\<rparr>"

definition BOOK_FORM :: form where
  "BOOK_FORM = \<lparr>form_file = BOOKINGS, form_optional = [''preferredTime'', ''topic''],
     notify_prefix = ''New Call Request: '',
     confirm_subject = ''Call request received '' @ EM_DASH @ '' Embersome'',
     success_message = ''Call request received! We'' @ [CHR 0x27] @ ''ll confirm a time via email.''\<rparr>"

text \<open>
  One request: \<open>new_id\<close> is what \<open>genId('sub')\<close> returns and \<open>now_iso\<close> the
  timestamp; the result is the response, the new store and the emails started.
\<close>

definition submission_handler ::
  "form \<Rightarrow> mail_cfg \<Rightarrow> request \<Rightarrow> string \<Rightarrow> string \<Rightarrow> store \<Rightarrow> response \<times> store \<times> mail list" where
  "submission_handler f mc req new_id now_iso st =
     (case body req of
        None \<Rightarrow> (error_resp, st, [])
      | Some b \<Rightarrow>
          (case validate b of
             Inl e \<Rightarrow> (error_resp, st, [])
           | Inr errs \<Rightarrow>
               if errs \<noteq> [] then
                 (json_resp 400 (JsObj [(''success'', JsBool False), (''errors'', JsArr (map JsStr errs))]), st, [])
               else
                 (case trimmed_fields b (form_optional f) of
                    Inl e \<Rightarrow> (error_resp, st, [])
                  | Inr flds \<Rightarrow>
                      (case saveSubmission (form_file f) flds new_id now_iso st of
                         Inl e \<Rightarrow> (error_resp, st, [])
                       | Inr (entry, st') \<Rightarrow>
                           (json_resp 200 (JsObj ([(''success'', JsBool True), (''message'', JsStr (success_message f))]
                               @ (case entry_id entry of None \<Rightarrow> [] | Some i \<Rightarrow> [(''id'', JsStr i)]))),
                            st',
                            sendNotification mc (notify_prefix f @ the (map_of flds ''name''))
                              @ sendConfirmation mc (the (map_of flds ''email'')) (confirm_subject f))))))"

definition apply_handler :: "mail_cfg \<Rightarrow> request \<Rightarrow> string \<Rightarrow> string \<Rightarrow> store \<Rightarrow> response \<times> store \<times> mail list" where
  "apply_handler = submission_handler APPLY_FORM"

definition book_handler :: "mail_cfg \<Rightarrow> request \<Rightarrow> string \<Rightarrow> string \<Rightarrow> store \<Rightarrow> response \<times> store \<times> mail list" where
  "book_handler = submission_handler BOOK_FORM"

subsection \<open>Helper lemmas\<close>

lemma dot_inside_iff:
  "CHR ''.'' \<in> set (tl (butlast r)) \<longleftrightarrow> (\<exists>b c. r = b @ CHR ''.'' # c \<and> b \<noteq> [] \<and> c \<noteq> [])"
proof
  assume "CHR ''.'' \<in> set (tl (butlast r))"
  then obtain p q where pq: "tl (butlast r) = p @ CHR ''.'' # q" by (meson split_list)
  then have "butlast r \<noteq> []" by auto
  then obtain x where x: "butlast r = x # p @ CHR ''.'' # q" using pq by (cases "butlast r") auto
  then have "r \<noteq> []" by auto
  then have "r = butlast r @ [last r]" by simp
  with x have "r = (x # p) @ CHR ''.'' # (q @ [last r])" by simp
  then show "\<exists>b c. r = b @ CHR ''.'' # c \<and> b \<noteq> [] \<and> c \<noteq> []" by blast
next
  assume "\<exists>b c. r = b @ CHR ''.'' # c \<and> b \<noteq> [] \<and> c \<noteq> []"
  then obtain b c where r: "r = b @ CHR ''.'' # c" and "b \<noteq> []" "c \<noteq> []" by blast
  then obtain x b' where b: "b = x # b'" by (cases b) auto
  obtain c' y where c: "c = c' @ [y]" using \<open>c \<noteq> []\<close> by (cases c rule: rev_cases) auto
  have "tl (butlast r) = b' @ CHR ''.'' # c'" using r b c by (simp add: butlast_append)
  then show "CHR ''.'' \<in> set (tl (butlast r))" by simp
qed

lemma dropWhile_neq_Cons: "dropWhile (\<lambda>c. c \<noteq> x) s = d # r \<Longrightarrow> d = x"
  by (induction s) (auto split: if_splits)

lemma str_trim_Nil [simp]: "str_trim [] = []"
  by (simp add: str_trim_def)

lemma jv_trim_Inr: "jv_trim v = Inr t \<longleftrightarrow> (\<exists>s. v = JStr s \<and> t = str_trim s)"
  by (cases v) auto

lemma opt_trim_Inr: "opt_trim v = Inr t \<longleftrightarrow> (\<not> js_truthy v \<and> t = []) \<or> (\<exists>s. v = JStr s \<and> s \<noteq> [] \<and> t = str_trim s)"
  by (cases v) (auto simp: opt_trim_def js_or_def)

lemma trim_fields_Inr:
  "trim_fields b ks = Inr r \<Longrightarrow> map fst r = ks \<and> (\<forall>(k, v)\<in>set r. str_trim v = v)"
proof (induction ks arbitrary: r)
  case Nil
  then show ?case by simp
next
  case (Cons k ks)
  then obtain v r' where "opt_trim (b k) = Inr v" "trim_fields b ks = Inr r'" "r = (k, v) # r'"
    by (auto split: sum.splits)
  with Cons.IH show ?case by (auto simp: opt_trim_Inr str_trim_idem)
qed

lemma trim_fields_ok:
  "(\<forall>k\<in>set ks. \<not> js_truthy (b k) \<or> (\<exists>s. b k = JStr s)) \<Longrightarrow>
   trim_fields b ks = Inr (map (\<lambda>k. (k, case b k of JStr s \<Rightarrow> str_trim s | _ \<Rightarrow> [])) ks)"
proof (induction ks)
  case Nil
  then show ?case by simp
next
  case (Cons k ks)
  have "opt_trim (b k) = Inr (case b k of JStr s \<Rightarrow> str_trim s | _ \<Rightarrow> [])"
    using Cons.prems by (cases "b k") (auto simp: opt_trim_def js_or_def)
  with Cons show ?case by simp
qed

lemma trimmed_fields_Inr:
  "trimmed_fields b opt = Inr flds \<Longrightarrow> map fst flds = ''name'' # ''email'' # opt \<and> (\<forall>(k, v)\<in>set flds. str_trim v = v)"
  by (auto simp: trimmed_fields_def jv_trim_Inr str_trim_idem split: sum.splits dest!: trim_fields_Inr)

lemma required_missing_Inr:
  "required_missing v = Inr m \<longleftrightarrow> (\<not> js_truthy v \<and> m) \<or> (\<exists>s. v = JStr s \<and> s \<noteq> [] \<and> m = (str_trim s = []))"
  by (cases v) (auto simp: required_missing_def)

lemma email_invalid_Inr:
  "email_invalid v = Inr i \<longleftrightarrow> (\<not> js_truthy v \<and> \<not> i) \<or> (\<exists>s. v = JStr s \<and> s \<noteq> [] \<and> i = (\<not> email_ok (str_trim s)))"
  by (cases v) (auto simp: email_invalid_def)

lemma email_ok_nonempty: "email_ok s \<Longrightarrow> s \<noteq> []"
  by (auto simp: email_ok_def)

lemma validate_ok:
  assumes "b ''name'' = JStr n" "b ''email'' = JStr e" "str_trim n \<noteq> []" "email_ok (str_trim e)"
  shows "validate b = Inr []"
proof -
  have "str_trim e \<noteq> []" using assms(4) by (rule email_ok_nonempty)
  then have "n \<noteq> []" "e \<noteq> []" using assms(3) by auto
  then show ?thesis using assms by (simp add: validate_def required_missing_def email_invalid_def \<open>str_trim e \<noteq> []\<close>)
qed

subsection \<open>Properties of the Submission Handlers\<close>

text \<open>C21. Validation reports every failed rule, each once: \<open>Name is required.\<close> exactly
  when the name is falsy or blank after trimming, \<open>Email is required.\<close> likewise for
  the email, and \<open>Invalid email.\<close> exactly when the email is a non-empty string whose
  trimmed form does not match the pattern (so a blank email gets both email messages).\<close>

theorem validate_reports_all:
  assumes "validate b = Inr errs"
  shows "(NAME_REQUIRED \<in> set errs \<longleftrightarrow> \<not> js_truthy (b ''name'') \<or> (\<exists>s. b ''name'' = JStr s \<and> str_trim s = []))
    \<and> (EMAIL_REQUIRED \<in> set errs \<longleftrightarrow> \<not> js_truthy (b ''email'') \<or> (\<exists>s. b ''email'' = JStr s \<and> str_trim s = []))
    \<and> (EMAIL_INVALID \<in> set errs \<longleftrightarrow> (\<exists>s. b ''email'' = JStr s \<and> s \<noteq> [] \<and> \<not> email_ok (str_trim s)))
    \<and> distinct errs"
  using assms
  by (auto simp: validate_def required_missing_Inr email_invalid_Inr NAME_REQUIRED_def EMAIL_REQUIRED_def EMAIL_INVALID_def
      split: sum.splits if_splits)

theorem validate_reports_all_witness:
  "validate (\<lambda>k. if k = ''email'' then JStr '' '' else JUndefined) = Inr [NAME_REQUIRED, EMAIL_REQUIRED, EMAIL_INVALID]
   \<and> distinct [NAME_REQUIRED, EMAIL_REQUIRED, EMAIL_INVALID]"
proof -
  have v: "validate (\<lambda>k. if k = ''email'' then JStr '' '' else JUndefined) = Inr [NAME_REQUIRED, EMAIL_REQUIRED, EMAIL_INVALID]"
    by (simp add: validate_def required_missing_def email_invalid_def str_trim_def is_ws_def email_ok_def)
  show ?thesis using v validate_reports_all [OF v] by blast
qed

text \<open>C22. A request whose name is a non-blank string, whose email is a string that
  matches the pattern after trimming, and whose optional fields are strings or absent is
  accepted: it answers 200 with the success message and the new id, appends one record
  with the trimmed fields (absent ones as \<open>''\<close>) to the form's file, and starts the
  notification and confirmation emails.\<close>

theorem submission_valid_stores:
  assumes "body req = Some b" and "b ''name'' = JStr n" and "b ''email'' = JStr e"
    and "str_trim n \<noteq> []" and "email_ok (str_trim e)"
    and "\<forall>k\<in>set (form_optional f). \<not> js_truthy (b k) \<or> (\<exists>s. b k = JStr s)"
    and "loadJSON (st (form_file f)) = Inr xs"
  shows "submission_handler f mc req i t st =
    (json_resp 200 (JsObj [(''success'', JsBool True), (''message'', JsStr (success_message f)), (''id'', JsStr i)]),
     st(form_file f := FArray (xs @ [\<lparr>entry_id = Some i,
        entry_data = (''name'', str_trim n) # (''email'', str_trim e)
          # map (\<lambda>k. (k, case b k of JStr s \<Rightarrow> str_trim s | _ \<Rightarrow> [])) (form_optional f),
        submittedAt = Some t\<rparr>])),
     sendNotification mc (notify_prefix f @ str_trim n) @ sendConfirmation mc (str_trim e) (confirm_subject f))"
proof -
  have v: "validate b = Inr []" using assms(2-5) by (rule validate_ok)
  have tf: "trimmed_fields b (form_optional f) = Inr ((''name'', str_trim n) # (''email'', str_trim e)
          # map (\<lambda>k. (k, case b k of JStr s \<Rightarrow> str_trim s | _ \<Rightarrow> [])) (form_optional f))"
    using assms(2,3) trim_fields_ok [OF assms(6)] by (simp add: trimmed_fields_def)
  show ?thesis using assms(1,7) v tf by (simp add: submission_handler_def saveSubmission_def Let_def)
qed

theorem submission_valid_stores_witness:
  "apply_handler \<lparr>transporter_ready = False, notify_email = ''ops@x.com''\<rparr> \<lparr>req_method = POST, path = ''/api/apply'', cookie_header = None, authorization = None, body = Some (\<lambda>k. if k = ''name'' then JStr '' Ana '' else if k = ''email'' then JStr ''ana@x.com'' else JUndefined)\<rparr> ''sub_1'' ''2026-01-01T00:00:00.000Z'' (\<lambda>_. FAbsent) =
    (json_resp 200 (JsObj [(''success'', JsBool True), (''message'', JsStr (success_message APPLY_FORM)), (''id'', JsStr ''sub_1'')]),
     (\<lambda>_. FAbsent)(APPLICATIONS := FArray [\<lparr>entry_id = Some ''sub_1'',
        entry_data = [(''name'', ''Ana''), (''email'', ''ana@x.com''), (''platforms'', []), (''audience'', []), (''message'', [])],
        submittedAt = Some ''2026-01-01T00:00:00.000Z''\<rparr>]), [])"
  using submission_valid_stores [of "\<lparr>req_method = POST, path = ''/api/apply'', cookie_header = None, authorization = None, body = Some (\<lambda>k. if k = ''name'' then JStr '' Ana '' else if k = ''email'' then JStr ''ana@x.com'' else JUndefined)\<rparr>" "(\<lambda>k. if k = ''name'' then JStr '' Ana '' else if k = ''email'' then JStr ''ana@x.com'' else JUndefined)" "'' Ana ''" "''ana@x.com''" APPLY_FORM
      "\<lambda>_. FAbsent" "[]" "\<lparr>transporter_ready = False, notify_email = ''ops@x.com''\<rparr>" "''sub_1''" "''2026-01-01T00:00:00.000Z''"]
  by (simp add: apply_handler_def APPLY_FORM_def str_trim_def is_ws_def email_ok_def email_char_def
      sendNotification_def sendConfirmation_def)

text \<open>The matcher \<open>email_ok\<close> accepts exactly the language of the pattern
  \<open>/^[^\s@]+@[^\s@]+\.[^\s@]+$/\<close>.\<close>

theorem email_ok_iff_regex: "email_ok s \<longleftrightarrow> email_regex s"
proof
  assume ok: "email_ok s"
  let ?a = "takeWhile (\<lambda>c. c \<noteq> CHR ''@'') s"
  obtain d r' where r: "dropWhile (\<lambda>c. c \<noteq> CHR ''@'') s = d # r'"
    using ok by (cases "dropWhile (\<lambda>c. c \<noteq> CHR ''@'') s") (auto simp: email_ok_def Let_def)
  then have d: "d = CHR ''@''" by (rule dropWhile_neq_Cons)
  have s: "s = ?a @ CHR ''@'' # r'" using r d takeWhile_dropWhile_id [of _ s] by metis
  have a: "?a \<noteq> []" "\<forall>x\<in>set ?a. email_char x"
    using ok r by (auto simp: email_ok_def Let_def email_char_def dest: set_takeWhileD)
  have r': "\<forall>x\<in>set r'. email_char x" "CHR ''.'' \<in> set (tl (butlast r'))"
    using ok r by (auto simp: email_ok_def Let_def)
  then obtain b c where "r' = b @ CHR ''.'' # c" "b \<noteq> []" "c \<noteq> []"
    using dot_inside_iff by blast
  with s a r'(1) show "email_regex s" unfolding email_regex_def by (intro exI [of _ ?a] exI [of _ b] exI [of _ c]) auto
next
  assume "email_regex s"
  then obtain a b c where s: "s = a @ CHR ''@'' # b @ CHR ''.'' # c" and ne: "a \<noteq> []" "b \<noteq> []" "c \<noteq> []"
    and ch: "\<forall>x\<in>set a. email_char x" "\<forall>x\<in>set b. email_char x" "\<forall>x\<in>set c. email_char x"
    unfolding email_regex_def by blast
  have na: "\<And>x. x \<in> set a \<Longrightarrow> x \<noteq> CHR ''@''" using ch(1) by (auto simp: email_char_def)
  have tw: "takeWhile (\<lambda>c. c \<noteq> CHR ''@'') s = a" using na s by (simp add: takeWhile_append2)
  have dw: "dropWhile (\<lambda>c. c \<noteq> CHR ''@'') s = CHR ''@'' # b @ CHR ''.'' # c" using na s by (simp add: dropWhile_append2)
  have "CHR ''.'' \<in> set (tl (butlast (b @ CHR ''.'' # c)))" using dot_inside_iff ne by blast
  moreover have "email_char (CHR ''.'')" by (simp add: email_char_def is_ws_def)
  then have "\<forall>x\<in>set (b @ CHR ''.'' # c). email_char x" using ch(2,3) by auto
  moreover have "\<forall>x\<in>set a. \<not> is_ws x" using ch(1) by (simp add: email_char_def)
  ultimately show "email_ok s" unfolding email_ok_def Let_def tw dw using ne(1) by simp
qed

text \<open>C24. A request that fails validation is answered 400 with the list of failed
  rules; nothing is stored and no email is started.\<close>

theorem submission_invalid_unchanged:
  assumes "body req = Some b" and "validate b = Inr errs" and "errs \<noteq> []"
  shows "submission_handler f mc req i t st =
    (json_resp 400 (JsObj [(''success'', JsBool False), (''errors'', JsArr (map JsStr errs))]), st, [])"
  using assms by (simp add: submission_handler_def)

theorem submission_invalid_unchanged_witness:
  "submission_handler BOOK_FORM \<lparr>transporter_ready = False, notify_email = ''ops@x.com''\<rparr> \<lparr>req_method = POST, path = ''/api/apply'', cookie_header = None, authorization = None, body = Some (\<lambda>_. JUndefined)\<rparr> ''sub_1'' ''t'' (\<lambda>_. FAbsent) =
    (json_resp 400 (JsObj [(''success'', JsBool False), (''errors'', JsArr (map JsStr [NAME_REQUIRED, EMAIL_REQUIRED]))]),
     \<lambda>_. FAbsent, [])"
  by (rule submission_invalid_unchanged [where b = "\<lambda>_. JUndefined"]) (simp_all add: validate_def required_missing_def email_invalid_def)

text \<open>C25. A truthy name that is not a string (a number, an object) makes \<open>name.trim()\<close>
  throw: the request fails with a 500, nothing is stored and no email is started.\<close>

theorem submission_type_error:
  assumes "body req = Some b" and "js_truthy (b ''name'')" and "\<forall>s. b ''name'' \<noteq> JStr s"
  shows "submission_handler f mc req i t st = (error_resp, st, [])"
proof -
  have "jv_trim (b ''name'') = Inl TypeError" using assms(3) by (cases "b ''name''") auto
  then have "validate b = Inl TypeError" using assms(2) by (simp add: validate_def required_missing_def)
  then show ?thesis using assms(1) by (simp add: submission_handler_def)
qed

theorem submission_type_error_witness:
  "submission_handler APPLY_FORM \<lparr>transporter_ready = False, notify_email = ''ops@x.com''\<rparr> \<lparr>req_method = POST, path = ''/api/apply'', cookie_header = None, authorization = None, body = Some (\<lambda>_. JNum 5)\<rparr> ''sub_1'' ''t'' (\<lambda>_. FAbsent) =
    (error_resp, \<lambda>_. FAbsent, [])"
  by (rule submission_type_error [where b = "\<lambda>_. JNum 5"]) simp_all

text \<open>The response and the stored records do not depend on the email transport; only
  the list of started emails does.\<close>

lemma fire_and_forget:
  "fst (submission_handler f mc1 req i t st) = fst (submission_handler f mc2 req i t st)
   \<and> fst (snd (submission_handler f mc1 req i t st)) = fst (snd (submission_handler f mc2 req i t st))"
  by (simp add: submission_handler_def split: option.splits sum.splits prod.splits)

text \<open>
  C26. Email failures are only logged: whatever \<open>sendMail\<close> does with each mail,
  \<open>sendNotification\<close> and \<open>sendConfirmation\<close> settle by resolving, never by
  rejecting, so the handlers' un-awaited calls cannot leave an unhandled rejection; and
  a failed delivery writes the error line with nodemailer's message.
\<close>

theorem sends_never_reject:
  "fst (runNotification mc out subj) = Resolved \<and> fst (runConfirmation mc out rcpt subj) = Resolved
   \<and> (transporter_ready mc \<and> out (Mail (notify_email mc) subj) = SendFailed e \<longrightarrow>
        hd (snd (runNotification mc out subj)) = LogError (log_prefix @ ''Failed to send notification: '' @ err_text e))
   \<and> (transporter_ready mc \<and> out (Mail rcpt subj) = SendFailed e \<longrightarrow>
        snd (runConfirmation mc out rcpt subj) =
          [LogError (log_prefix @ ''Failed to send confirmation to '' @ rcpt @ '' : '' @ err_text e)])"
  by (auto simp: runNotification_def runConfirmation_def split: send_outcome.splits option.splits)

theorem sends_never_reject_witness:
  "fst (runNotification \<lparr>transporter_ready = True, notify_email = ''ops@x.com''\<rparr>
      (\<lambda>_. SendFailed \<lparr>err_message = ''Invalid login'', err_response = Some ''535 5.7.8'', err_code = Some 535\<rparr>) ''New'') = Resolved
   \<and> hd (snd (runNotification \<lparr>transporter_ready = True, notify_email = ''ops@x.com''\<rparr>
      (\<lambda>_. SendFailed \<lparr>err_message = ''Invalid login'', err_response = Some ''535 5.7.8'', err_code = Some 535\<rparr>) ''New''))
      = LogError (log_prefix @ ''Failed to send notification: Invalid login | 535 5.7.8'')
   \<and> snd (runConfirmation \<lparr>transporter_ready = True, notify_email = ''ops@x.com''\<rparr>
      (\<lambda>_. SendFailed \<lparr>err_message = ''Invalid login'', err_response = Some ''535 5.7.8'', err_code = Some 535\<rparr>) ''ana@x.com'' ''New'')
      = [LogError (log_prefix @ ''Failed to send confirmation to ana@x.com : Invalid login | 535 5.7.8'')]"
  using sends_never_reject [of "\<lparr>transporter_ready = True, notify_email = ''ops@x.com''\<rparr>"
      "\<lambda>_. SendFailed \<lparr>err_message = ''Invalid login'', err_response = Some ''535 5.7.8'', err_code = Some 535\<rparr>"
      "''New''" "''ana@x.com''" "\<lparr>err_message = ''Invalid login'', err_response = Some ''535 5.7.8'', err_code = Some 535\<rparr>"]
  by (simp add: err_text_def)

text \<open>Whenever a submission is answered 200, the form's file holds exactly one more
  record: it carries the new id and timestamp, exactly the keys \<open>name\<close>, \<open>email\<close> and
  the form's optional fields in that order, and only trimmed values.\<close>

theorem submission_success_record:
  assumes "loadJSON (st (form_file f)) = Inr xs" and "submission_handler f mc req i t st = (r, st', ms)"
    and "status r = 200"
  shows "\<exists>e. loadJSON (st' (form_file f)) = Inr (xs @ [e]) \<and> entry_id e = Some i \<and> submittedAt e = Some t
    \<and> map fst (entry_data e) = ''name'' # ''email'' # form_optional f
    \<and> (\<forall>(k, v)\<in>set (entry_data e). str_trim v = v)"
  using assms
  by (auto simp: submission_handler_def saveSubmission_def Let_def json_resp_def error_resp_def
      split: option.splits sum.splits if_splits dest!: trimmed_fields_Inr)

theorem submission_success_record_witness:
  "\<exists>e. loadJSON (fst (snd (apply_handler \<lparr>transporter_ready = False, notify_email = ''ops@x.com''\<rparr> \<lparr>req_method = POST, path = ''/api/apply'', cookie_header = None, authorization = None, body = Some (\<lambda>k. if k = ''name'' then JStr '' Ana '' else if k = ''email'' then JStr ''ana@x.com'' else JUndefined)\<rparr> ''sub_1'' ''t'' (\<lambda>_. FAbsent))) (form_file APPLY_FORM)) = Inr ([] @ [e])
    \<and> entry_id e = Some ''sub_1'' \<and> submittedAt e = Some ''t''
    \<and> map fst (entry_data e) = ''name'' # ''email'' # form_optional APPLY_FORM"
proof -
  let ?r = "apply_handler \<lparr>transporter_ready = False, notify_email = ''ops@x.com''\<rparr> \<lparr>req_method = POST, path = ''/api/apply'', cookie_header = None, authorization = None, body = Some (\<lambda>k. if k = ''name'' then JStr '' Ana '' else if k = ''email'' then JStr ''ana@x.com'' else JUndefined)\<rparr> ''sub_1'' ''t'' (\<lambda>_. FAbsent)"
  have h: "submission_handler APPLY_FORM \<lparr>transporter_ready = False, notify_email = ''ops@x.com''\<rparr> \<lparr>req_method = POST, path = ''/api/apply'', cookie_header = None, authorization = None, body = Some (\<lambda>k. if k = ''name'' then JStr '' Ana '' else if k = ''email'' then JStr ''ana@x.com'' else JUndefined)\<rparr> ''sub_1'' ''t'' (\<lambda>_. FAbsent)
      = (fst ?r, fst (snd ?r), snd (snd ?r))" by (simp add: apply_handler_def)
  have s: "status (fst ?r) = 200"
    by (simp add: apply_handler_def APPLY_FORM_def submission_handler_def validate_def required_missing_def
        email_invalid_def trimmed_fields_def opt_trim_def js_or_def saveSubmission_def Let_def json_resp_def
        str_trim_def is_ws_def email_ok_def email_char_def)
  have "loadJSON ((\<lambda>_. FAbsent) (form_file APPLY_FORM)) = Inr []" by simp
  from submission_success_record [OF this h s] show ?thesis by (auto simp: apply_handler_def)
qed

end
