(* ===== verification/Server.thy ===== *)
theory Server
  imports Auth Submissions
begin

text \<open>
  The request pipeline of \<open>src/server.js\<close>: Express tries its middleware and routes in
  the order they are registered (lines 100--428) and the first that answers wins.
  \<open>serve\<close> composes the components: the static file server (lines 104--113), the auth
  routes, the login page, the guarded admin pages (lines 194--202), the public form
  routes, \<open>app.use('/api/admin', requireAdmin)\<close> (line 335), the admin API
  (lines 344--423) and the catch-all (line 426). The server's state is the session map
  and the data directory; what a request reads from the environment (the clock, its ISO
  forms, the random token and digits, the outcome of a test email) is an \<open>env\<close>.
  Paths are matched exactly (no percent-decoding, trailing slash or case folding).
\<close>

record server_state =
  active_sessions :: sessions
  files :: store

record server_cfg =
  cfg_auth :: config
  cfg_mail :: mail_cfg
  public_files :: "string list"   \<comment> \<open>the files under \<open>public/\<close>\<close>
  smtp_configured :: bool         \<comment> \<open>\<open>SMTP_CONFIGURED\<close>\<close>
  email_error :: "string option"  \<comment> \<open>\<open>emailError\<close>\<close>

record env =
  clock :: ms                     \<comment> \<open>\<open>Date.now()\<close>\<close>
  clock_iso :: string             \<comment> \<open>\<open>new Date().toISOString()\<close>\<close>
  today_iso :: string             \<comment> \<open>its first 10 characters, as the dashboard takes them\<close>
  week_ago_iso :: string          \<comment> \<open>\<open>new Date(Date.now() - 7 days).toISOString()\<close>\<close>
  new_token :: string             \<comment> \<open>\<open>crypto.randomBytes(32).toString('hex')\<close>\<close>
  random36 :: string              \<comment> \<open>\<open>Math.random().toString(36)\<close>\<close>
  send_error :: "string option"   \<comment> \<open>the error message of the test email, if it fails\<close>

definition not_found_resp :: response where
  "not_found_resp = \<lparr>status = 404, set_cookie = None, payload = PError\<rparr>"

text \<open>
  \<open>express.static('public', {index: 'index.html', extensions: ['html']})\<close> for a
  GET or HEAD: \<open>/\<close> is the index file, \<open>/name\<close> the file \<open>name\<close>, or failing that
  \<open>name.html\<close>; anything else falls through. Its \<open>setHeaders\<close> callback does nothing.
\<close>

definition static_lookup :: "string list \<Rightarrow> string \<Rightarrow> string option" where
  "static_lookup fs p =
     (if p = ''/'' then (if ''index.html'' \<in> set fs then Some ''index.html'' else None)
      else case p of
             c # name \<Rightarrow>
               if c = CHR ''/'' \<and> name \<in> set fs then Some name
               else if c = CHR ''/'' \<and> name @ ''.html'' \<in> set fs then Some (name @ ''.html'')
               else None
           | [] \<Rightarrow> None)"

text \<open>\<open>res.sendFile(path.join(__dirname, 'public', f))\<close>: 404 when the file is missing.\<close>

definition send_file :: "server_cfg \<Rightarrow> string \<Rightarrow> response" where
  "send_file c f = (if f \<in> set (public_files c) then file_resp f else not_found_resp)"

text \<open>
  \<open>app.use(prefix, mw)\<close> matches the prefix itself and every path below it, and hands
  the middleware \<open>req.path\<close> with the prefix removed (\<open>/\<close> when nothing is left).
\<close>

definition mount_strip :: "string \<Rightarrow> string \<Rightarrow> string option" where
  "mount_strip prefix p =
     (if p = prefix then Some ''/''
      else if starts_with p (prefix @ ''/'') then Some (drop (length prefix) p) else None)"

text \<open>A route \<open>prefix:id\<close>: one non-empty path segment after the prefix.\<close>

definition route_param :: "string \<Rightarrow> string \<Rightarrow> string option" where
  "route_param prefix p =
     (if starts_with p prefix \<and> drop (length prefix) p \<noteq> [] \<and> CHR ''/'' \<notin> set (drop (length prefix) p)
      then Some (drop (length prefix) p) else None)"

definition is_get :: "request \<Rightarrow> bool" where
  "is_get req \<longleftrightarrow> req_method req = GET \<or> req_method req = HEAD"

text \<open>\<open>GET /api/admin/email-test\<close> (lines 398--423).\<close>

definition email_test :: "server_cfg \<Rightarrow> env \<Rightarrow> response" where
  "email_test c e =
     (if \<not> smtp_configured c then
        json_resp 200 (JsObj [(''ok'', JsBool False), (''message'', JsStr
          ''SMTP not configured. Set SMTP_USER and SMTP_PASS (Gmail App Password) in Environment.'')])
      else if \<not> transporter_ready (cfg_mail c) then
        json_resp 200 (JsObj [(''ok'', JsBool False), (''message'', JsStr
          (case email_error c of
             Some err \<Rightarrow> ''Connection failed: '' @ err
           | None \<Rightarrow> ''Transporter not ready yet. Wait a few seconds and try again.''))])
      else case send_error e of
             None \<Rightarrow> json_resp 200 (JsObj [(''ok'', JsBool True),
                       (''message'', JsStr (''Test email sent to '' @ notify_email (cfg_mail c)))])
           | Some msg \<Rightarrow> json_resp 500 (JsObj [(''ok'', JsBool False), (''message'', JsStr msg)]))"

text \<open>A handler's effect on one part of the state, lifted to the whole state.\<close>

definition on_sessions :: "(sessions \<Rightarrow> response \<times> sessions) \<Rightarrow> server_state \<Rightarrow> response \<times> server_state \<times> mail list" where
  "on_sessions h s = (let (r, ss') = h (active_sessions s) in (r, s\<lparr>active_sessions := ss'\<rparr>, []))"

definition on_files :: "(store \<Rightarrow> response \<times> store \<times> mail list) \<Rightarrow> server_state \<Rightarrow> response \<times> server_state \<times> mail list" where
  "on_files h s = (let (r, st', ms) = h (files s) in (r, s\<lparr>files := st'\<rparr>, ms))"

text \<open>The catch-all \<open>app.get('/{*splat}')\<close>, then Express's 404.\<close>

definition fallback :: "server_cfg \<Rightarrow> request \<Rightarrow> server_state \<Rightarrow> response \<times> server_state \<times> mail list" where
  "fallback c req s = (if is_get req then (send_file c ''index.html'', s, []) else (not_found_resp, s, []))"

text \<open>The routes behind the \<open>/api/admin\<close> guard, once it has called \<open>next()\<close>.\<close>

definition admin_routes :: "server_cfg \<Rightarrow> env \<Rightarrow> request \<Rightarrow> server_state \<Rightarrow> response \<times> server_state \<times> mail list" where
  "admin_routes c e req s =
     (let p = path req in
      if is_get req \<and> p = ''/api/admin/dashboard'' then
        (dashboard_handler (today_iso e) (week_ago_iso e) (files s), s, [])
      else if is_get req \<and> p = ''/api/admin/applications'' then (list_handler APPLICATIONS (files s), s, [])
      else if is_get req \<and> p = ''/api/admin/bookings'' then (list_handler BOOKINGS (files s), s, [])
      else if req_method req = DELETE \<and> route_param ''/api/admin/applications/'' p \<noteq> None then
        on_files (\<lambda>st. let (r, st') = delete_handler APPLICATIONS (the (route_param ''/api/admin/applications/'' p)) st
                      in (r, st', [])) s
      else if req_method req = DELETE \<and> route_param ''/api/admin/bookings/'' p \<noteq> None then
        on_files (\<lambda>st. let (r, st') = delete_handler BOOKINGS (the (route_param ''/api/admin/bookings/'' p)) st
                      in (r, st', [])) s
      else if is_get req \<and> p = ''/api/admin/email-test'' then (email_test c e, s, [])
      else fallback c req s)"

text \<open>The guarded page routes \<open>/admin\<close>, \<open>/admin.css\<close>, \<open>/admin.js\<close>.\<close>

definition admin_page :: "string \<Rightarrow> string option" where
  "admin_page p =
     (if p = ''/admin'' then Some ''admin.html'' else if p = ''/admin.css'' then Some ''admin.css''
      else if p = ''/admin.js'' then Some ''admin.js'' else None)"

definition serve :: "server_cfg \<Rightarrow> env \<Rightarrow> request \<Rightarrow> server_state \<Rightarrow> response \<times> server_state \<times> mail list" where
  "serve c e req s =
     (let p = path req; m = req_method req;
          new_id = genId ''sub'' (nat (clock e)) (random36 e)
      in case (if is_get req then static_lookup (public_files c) p else None) of
           Some f \<Rightarrow> (file_resp f, s, [])
         | None \<Rightarrow>
      if m = POST \<and> p = ''/api/auth/login'' then
        on_sessions (login (cfg_auth c) req (new_token e) (clock e) (clock e)) s
      else if m = POST \<and> p = ''/api/auth/logout'' then on_sessions (logout req) s
      else if is_get req \<and> p = ''/api/auth/check'' then on_sessions (auth_check req (clock e)) s
      else if is_get req \<and> p = ''/login'' then (send_file c ''login.html'', s, [])
      else if is_get req \<and> admin_page p \<noteq> None then
        (case requireAdmin p req (clock e) (active_sessions s) of
           (Pass, ss') \<Rightarrow> (send_file c (the (admin_page p)), s\<lparr>active_sessions := ss'\<rparr>, [])
         | (Deny r, ss') \<Rightarrow> (r, s\<lparr>active_sessions := ss'\<rparr>, []))
      else if m = POST \<and> p = ''/api/apply'' then
        on_files (apply_handler (cfg_mail c) req new_id (clock_iso e)) s
      else if m = POST \<and> p = ''/api/book'' then
        on_files (book_handler (cfg_mail c) req new_id (clock_iso e)) s
      else case mount_strip ''/api/admin'' p of
             Some sub \<Rightarrow>
               (case requireAdmin sub req (clock e) (active_sessions s) of
                  (Deny r, ss') \<Rightarrow> (r, s\<lparr>active_sessions := ss'\<rparr>, [])
                | (Pass, ss') \<Rightarrow> admin_routes c e req (s\<lparr>active_sessions := ss'\<rparr>))
           | None \<Rightarrow> fallback c req s)"

text \<open>
  The safety property of the data files: every file that could be read still can, and
  holds at least the records it held.
\<close>

definition keeps_records :: "store \<Rightarrow> store \<Rightarrow> bool" where
  "keeps_records st st' \<longleftrightarrow>
     (\<forall>fn xs. loadJSON (st fn) = Inr xs \<longrightarrow> (\<exists>ys. loadJSON (st' fn) = Inr ys \<and> set xs \<subseteq> set ys))"

text \<open>A sequence of requests, each with its environment, from a start state.\<close>

fun serve_all :: "server_cfg \<Rightarrow> (env \<times> request) list \<Rightarrow> server_state \<Rightarrow> response list \<times> server_state" where
  "serve_all c [] s = ([], s)"
| "serve_all c ((e, req) # rs) s =
     (let (r, s', _) = serve c e req s; (rs', s'') = serve_all c rs s' in (r # rs', s''))"


text \<open>
  Concrete inputs for the witnesses of this and the later theories: a configuration, an
  environment at a given clock reading, requests and the empty start state.
\<close>

definition demo_cfg :: server_cfg where
  "demo_cfg = \<lparr>cfg_auth = \<lparr>admin_password = ''pw''\<rparr>,
     cfg_mail = \<lparr>transporter_ready = False, notify_email = ''team@example.com''\<rparr>,
     public_files = [''index.html'', ''login.html'', ''admin.html'', ''admin.js''],
     smtp_configured = False, email_error = None\<rparr>"

definition demo_env :: "ms \<Rightarrow> env" where
  "demo_env t = \<lparr>clock = t, clock_iso = ''2026-01-01T00:00:00.000Z'', today_iso = ''2026-01-01'',
     week_ago_iso = ''2025-12-25T00:00:00.000Z'', new_token = replicate 64 (CHR ''a''),
     random36 = ''0.k3j9x2'', send_error = None\<rparr>"

definition demo_req :: "http_method \<Rightarrow> string \<Rightarrow> string option \<Rightarrow> (string \<Rightarrow> jval) option \<Rightarrow> request" where
  "demo_req m p ck b = \<lparr>req_method = m, path = p, cookie_header = ck, authorization = None, body = b\<rparr>"

definition demo_state :: server_state where
  "demo_state = \<lparr>active_sessions = Map.empty, files = (\<lambda>_. FAbsent)\<rparr>"

lemma serve_static:
  assumes "is_get req" and "static_lookup (public_files c) (path req) = Some f"
  shows "serve c e req s = (file_resp f, s, [])"
  using assms by (simp add: serve_def Let_def)

lemma mount_strip_prefix: "mount_strip pre p = Some sub \<Longrightarrow> \<exists>q. p = pre @ q"
proof (cases "p = pre")
  case True
  then show ?thesis by simp
next
  case False
  assume "mount_strip pre p = Some sub"
  with False have "take (length (pre @ ''/'')) p = pre @ ''/''" by (simp add: mount_strip_def starts_with_def split: if_splits)
  then have "p = (pre @ ''/'') @ drop (length (pre @ ''/'')) p" by (metis append_take_drop_id)
  then show ?thesis by (metis append.assoc)
qed

lemma static_lookup_slash:
  assumes "\<forall>f\<in>set fs. CHR ''/'' \<notin> set f" and "p \<noteq> ''/''" and "CHR ''/'' \<in> set (tl p)"
  shows "static_lookup fs p = None"
  using assms by (cases p) (auto simp: static_lookup_def)

lemma admin_prefix_not_other_routes:
  assumes "p = ''/api/admin'' @ q"
  shows "p \<noteq> ''/api/auth/login'' \<and> p \<noteq> ''/api/auth/logout'' \<and> p \<noteq> ''/api/auth/check'' \<and> p \<noteq> ''/login''
    \<and> admin_page p = None \<and> p \<noteq> ''/api/apply'' \<and> p \<noteq> ''/api/book'' \<and> p \<noteq> ''/''
    \<and> CHR ''/'' \<in> set (tl p)"
  using assms by (auto simp: admin_page_def)

lemma serve_under_admin:
  assumes "\<forall>f\<in>set (public_files c). CHR ''/'' \<notin> set f"
    and "mount_strip ''/api/admin'' (path req) = Some sub"
  shows "serve c e req s =
    (case requireAdmin sub req (clock e) (active_sessions s) of
       (Deny r, ss') \<Rightarrow> (r, s\<lparr>active_sessions := ss'\<rparr>, [])
     | (Pass, ss') \<Rightarrow> admin_routes c e req (s\<lparr>active_sessions := ss'\<rparr>))"
proof -
  obtain q where t: "path req = ''/api/admin'' @ q" using mount_strip_prefix [OF assms(2)] by blast
  note np = admin_prefix_not_other_routes [OF t]
  have "static_lookup (public_files c) (path req) = None"
    using np by (intro static_lookup_slash [OF assms(1)]) auto
  with np assms(2) show ?thesis by (simp add: serve_def Let_def)
qed

lemma serve_post_login:
  "req_method r = POST \<Longrightarrow> path r = ''/api/auth/login'' \<Longrightarrow>
   serve c e r s = on_sessions (login (cfg_auth c) r (new_token e) (clock e) (clock e)) s"
  by (simp add: serve_def Let_def is_get_def)

lemma serve_post_apply:
  "req_method r = POST \<Longrightarrow> path r = ''/api/apply'' \<Longrightarrow>
   serve c e r s = on_files (apply_handler (cfg_mail c) r (genId ''sub'' (nat (clock e)) (random36 e)) (clock_iso e)) s"
  by (simp add: serve_def Let_def is_get_def)

lemma serve_post_book:
  "req_method r = POST \<Longrightarrow> path r = ''/api/book'' \<Longrightarrow>
   serve c e r s = on_files (book_handler (cfg_mail c) r (genId ''sub'' (nat (clock e)) (random36 e)) (clock_iso e)) s"
  by (simp add: serve_def Let_def is_get_def)

text \<open>
  C28. A request under \<open>/api/admin\<close> without a valid session is redirected to \<open>/login\<close>
  instead of answered with 401, since \<open>requireAdmin\<close> sees the path with the mount prefix
  stripped, which never starts with \<open>/api/\<close>; the data files are not touched.
\<close>

theorem admin_api_unauthenticated_redirects:
  assumes "\<forall>f\<in>set (public_files c). CHR ''/'' \<notin> set f"
    and "mount_strip ''/api/admin'' (path req) = Some sub" and "\<not> starts_with sub ''/api/''"
    and "\<not> fst (isValidSession (getTokenFromReq req) (clock e) (active_sessions s))"
  shows "fst (serve c e req s) = redirect_resp ''/login'' \<and> files (fst (snd (serve c e req s))) = files s"
  using assms serve_under_admin [OF assms(1,2), of e s]
  by (auto simp: requireAdmin_def split: prod.splits)

text \<open>
  C29. The static file server runs before the admin guard: a GET of \<open>/f\<close> for any file
  \<open>f\<close> under \<open>public/\<close> (\<open>admin.html\<close>, \<open>admin.js\<close>, \<open>admin.css\<close> included) is answered
  with the file, whatever the session, and changes nothing.
\<close>

theorem admin_files_unguarded:
  assumes "is_get req" and "path req = ''/'' @ f" and "f \<in> set (public_files c)" and "f \<noteq> []"
  shows "serve c e req s = (file_resp f, s, [])"
  using assms by (intro serve_static) (auto simp: static_lookup_def)

lemma keeps_records_refl: "keeps_records st st"
  by (auto simp: keeps_records_def)

lemma saveSubmission_keeps: "saveSubmission fn d i t st = Inr (e, st') \<Longrightarrow> keeps_records st st'"
  by (auto simp: keeps_records_def saveSubmission_def Let_def split: sum.splits)

lemma submission_handler_keeps: "keeps_records st (fst (snd (submission_handler f mc req i t st)))"
  by (auto simp: submission_handler_def keeps_records_refl saveSubmission_keeps split: option.splits sum.splits prod.splits)

lemma requireAdmin_invalid:
  "\<not> fst (isValidSession (getTokenFromReq req) now ss) \<Longrightarrow> \<exists>r. fst (requireAdmin p req now ss) = Deny r"
  by (auto simp: requireAdmin_def split: prod.splits)

lemma on_sessions_files [simp]: "files (fst (snd (on_sessions h s))) = files s"
  by (simp add: on_sessions_def split: prod.splits)

lemma on_files_files [simp]: "files (fst (snd (on_files h s))) = fst (snd (h (files s)))"
  by (simp add: on_files_def split: prod.splits)

lemma fallback_files [simp]: "files (fst (snd (fallback c req s))) = files s"
  by (simp add: fallback_def)

lemma deny_files:
  "fst (requireAdmin p req now ss) = Deny r \<Longrightarrow>
   files (fst (snd (case requireAdmin p req now ss of (Deny r, ss') \<Rightarrow> (r, s\<lparr>active_sessions := ss'\<rparr>, [])
                    | (Pass, ss') \<Rightarrow> admin_routes c e req (s\<lparr>active_sessions := ss'\<rparr>)))) = files s"
  by (cases "requireAdmin p req now ss") simp

lemma deny_files_page:
  "files (fst (snd (case g of (Pass, ss') \<Rightarrow> (x::response, s\<lparr>active_sessions := ss'\<rparr>, ([]::mail list))
                    | (Deny r, ss') \<Rightarrow> (r, s\<lparr>active_sessions := ss'\<rparr>, [])))) = files s"
  by (cases g; cases "fst g") auto

lemma unauthenticated_keeps_records:
  assumes "\<not> fst (isValidSession (getTokenFromReq req) (clock e) (active_sessions s))"
  shows "keeps_records (files s) (files (fst (snd (serve c e req s))))"
proof -
  have deny: "\<And>p. \<exists>r. fst (requireAdmin p req (clock e) (active_sessions s)) = Deny r"
    using assms by (rule requireAdmin_invalid)
  have mount: "keeps_records (files s) (files (fst (snd (case mount_strip ''/api/admin'' (path req) of
             Some sub \<Rightarrow>
               (case requireAdmin sub req (clock e) (active_sessions s) of
                  (Deny r, ss') \<Rightarrow> (r, s\<lparr>active_sessions := ss'\<rparr>, [])
                | (Pass, ss') \<Rightarrow> admin_routes c e req (s\<lparr>active_sessions := ss'\<rparr>))
           | None \<Rightarrow> fallback c req s))))"
  proof (cases "mount_strip ''/api/admin'' (path req)")
    case (Some sub)
    with deny [of sub] show ?thesis by (auto simp: keeps_records_refl deny_files)
  qed (simp add: keeps_records_refl)
  show ?thesis
  proof (cases "if is_get req then static_lookup (public_files c) (path req) else None")
    case None
    then show ?thesis
      unfolding serve_def Let_def
      by (simp add: mount keeps_records_refl deny_files_page apply_handler_def book_handler_def
          submission_handler_keeps del: if_image_distrib)
  qed (simp add: serve_def keeps_records_refl)
qed

text \<open>
  C30. A request that carries no valid session never removes a stored record: every
  readable data file is still readable afterwards and still holds every record it held.
\<close>

theorem unauthenticated_never_removes:
  assumes "\<not> fst (isValidSession (getTokenFromReq req) (clock e) (active_sessions s))"
    and "loadJSON (files s fn) = Inr xs"
  shows "\<exists>ys. loadJSON (files (fst (snd (serve c e req s))) fn) = Inr ys \<and> set xs \<subseteq> set ys"
  using unauthenticated_keeps_records [OF assms(1), of c] assms(2) by (simp add: keeps_records_def)

theorem admin_api_unauthenticated_redirects_witness:
  "fst (serve \<lparr>cfg_auth = \<lparr>admin_password = ''pw''\<rparr>, cfg_mail = \<lparr>transporter_ready = False, notify_email = ''''\<rparr>,
               public_files = [''index.html''], smtp_configured = False, email_error = None\<rparr>
          \<lparr>clock = 0, clock_iso = '''', today_iso = '''', week_ago_iso = '''', new_token = '''',
           random36 = '''', send_error = None\<rparr>
          \<lparr>req_method = GET, path = ''/api/admin/applications'', cookie_header = None,
           authorization = None, body = None\<rparr>
          \<lparr>active_sessions = Map.empty, files = (\<lambda>_. FAbsent)\<rparr>) = redirect_resp ''/login''"
  by (rule conjunct1 [OF admin_api_unauthenticated_redirects [where sub = "''/applications''"]])
     (simp_all add: mount_strip_def starts_with_def getTokenFromReq_def isValidSession_def)

theorem admin_files_unguarded_witness:
  "serve \<lparr>cfg_auth = \<lparr>admin_password = ''pw''\<rparr>, cfg_mail = \<lparr>transporter_ready = False, notify_email = ''''\<rparr>,
          public_files = [''index.html'', ''admin.js''], smtp_configured = False, email_error = None\<rparr>
     \<lparr>clock = 0, clock_iso = '''', today_iso = '''', week_ago_iso = '''', new_token = '''',
      random36 = '''', send_error = None\<rparr>
     \<lparr>req_method = GET, path = ''/admin.js'', cookie_header = None, authorization = None, body = None\<rparr>
     \<lparr>active_sessions = Map.empty, files = (\<lambda>_. FAbsent)\<rparr>
   = (file_resp ''admin.js'', \<lparr>active_sessions = Map.empty, files = (\<lambda>_. FAbsent)\<rparr>, [])"
  by (rule admin_files_unguarded) (simp_all add: is_get_def)

theorem unauthenticated_never_removes_witness:
  "\<exists>ys. loadJSON (files (fst (snd (serve \<lparr>cfg_auth = \<lparr>admin_password = ''pw''\<rparr>,
          cfg_mail = \<lparr>transporter_ready = False, notify_email = ''''\<rparr>,
          public_files = [''index.html''], smtp_configured = False, email_error = None\<rparr>
     \<lparr>clock = 0, clock_iso = '''', today_iso = '''', week_ago_iso = '''', new_token = '''',
      random36 = '''', send_error = None\<rparr>
     \<lparr>req_method = DELETE, path = ''/api/admin/applications/a'', cookie_header = None,
      authorization = None, body = None\<rparr>
     \<lparr>active_sessions = Map.empty,
      files = (\<lambda>_. FArray [\<lparr>entry_id = Some ''a'', entry_data = [], submittedAt = None\<rparr>])\<rparr>)))
       APPLICATIONS) = Inr ys
     \<and> set [\<lparr>entry_id = Some ''a'', entry_data = [], submittedAt = None\<rparr>] \<subseteq> set ys"
  by (rule unauthenticated_never_removes) (simp_all add: getTokenFromReq_def isValidSession_def)

end
