(* ===== verification/EnvConfig.thy ===== *)
theory EnvConfig
  imports Server
begin

text \<open>
  Start-up of \<open>src/server.js\<close>: the hand-written \<open>.env\<close> loader (lines 6--19), the
  settings read from \<open>process.env\<close> (lines 22, 34--37, 117) and the email transporter
  with its one-shot \<open>verify()\<close> (lines 32--61). \<open>process.env\<close> is a map from names to
  strings; the file is its text, or \<open>None\<close> when it does not exist. The loader's
  result and the outcome of \<open>verify()\<close> determine the \<open>server_cfg\<close> that \<open>Server\<close>
  takes as a parameter.
\<close>

type_synonym proc_env = "string \<rightharpoonup> string"

subsection \<open>The loader\<close>

text \<open>\<open>s.indexOf(c)\<close>: the first position of \<open>c\<close>, or \<open>-1\<close>.\<close>

definition js_indexOf :: "char \<Rightarrow> string \<Rightarrow> int" where
  "js_indexOf c s = (if c \<in> set s then int (length (takeWhile (\<lambda>x. x \<noteq> c) s)) else -1)"

text \<open>One line (lines 10--17): trimmed; blank lines and comments are skipped; a line
  with an \<open>=\<close> after at least one character is a trimmed key and value.\<close>

definition env_line :: "string \<Rightarrow> (string \<times> string) option" where
  "env_line line =
     (let l = str_trim line
      in if l = [] \<or> starts_with l ''#'' then None
         else let idx = js_indexOf CHR ''='' l
              in if idx > 0 then Some (str_trim (take (nat idx) l), str_trim (drop (nat idx + 1) l))
                 else None)"

text \<open>\<open>!process.env[key]\<close>: unset or the empty string.\<close>

definition env_truthy :: "string option \<Rightarrow> bool" where
  "env_truthy v \<longleftrightarrow> (case v of None \<Rightarrow> False | Some s \<Rightarrow> s \<noteq> [])"

definition env_assign :: "proc_env \<Rightarrow> string \<times> string \<Rightarrow> proc_env" where
  "env_assign env kv = (if env_truthy (env (fst kv)) then env else env(fst kv \<mapsto> snd kv))"

definition env_pairs :: "string \<Rightarrow> (string \<times> string) list" where
  "env_pairs txt = List.map_filter env_line (split_on (CHR 0x0A) txt)"

definition load_env :: "string option \<Rightarrow> proc_env \<Rightarrow> proc_env" where
  "load_env file env = (case file of None \<Rightarrow> env | Some txt \<Rightarrow> foldl env_assign env (env_pairs txt))"

subsection \<open>Settings\<close>

text \<open>\<open>process.env.K || d\<close>.\<close>

definition env_or :: "proc_env \<Rightarrow> string \<Rightarrow> string \<Rightarrow> string" where
  "env_or env k d = (if env_truthy (env k) then the (env k) else d)"

definition SMTP_USER :: "proc_env \<Rightarrow> string" where
  "SMTP_USER env = env_or env ''SMTP_USER'' []"

text \<open>\<open>(process.env.SMTP_PASS || '').trim().replace(/\s/g, '')\<close>.\<close>

definition SMTP_PASS :: "proc_env \<Rightarrow> string" where
  "SMTP_PASS env = filter (\<lambda>c. \<not> is_ws c) (str_trim (env_or env ''SMTP_PASS'' []))"

definition NOTIFY_EMAIL :: "proc_env \<Rightarrow> string" where
  "NOTIFY_EMAIL env = env_or env ''NOTIFY_EMAIL'' (SMTP_USER env)"

definition SMTP_CONFIGURED :: "proc_env \<Rightarrow> bool" where
  "SMTP_CONFIGURED env \<longleftrightarrow>
     SMTP_USER env \<noteq> [] \<and> SMTP_PASS env \<noteq> [] \<and> SMTP_PASS env \<noteq> ''YOUR_APP_PASSWORD_HERE''"

definition ADMIN_PASSWORD :: "proc_env \<Rightarrow> string" where
  "ADMIN_PASSWORD env = env_or env ''ADMIN_PASSWORD'' ''embersome2026''"

subsection \<open>The transporter\<close>

text \<open>
  \<open>transporter\<close> is created when SMTP is configured and set back to \<open>null\<close> when
  \<open>verify()\<close> fails, which also records \<open>emailError\<close>; a success clears the error.
  \<open>verify()\<close> runs once, at start-up, and is never retried.
\<close>

record mailer =
  transporter :: bool
  emailError :: "string option"

datatype verify_outcome = VerifyOk | VerifyFail string

definition mailer_init :: "proc_env \<Rightarrow> mailer" where
  "mailer_init env = \<lparr>transporter = SMTP_CONFIGURED env, emailError = None\<rparr>"

fun verify_done :: "verify_outcome \<Rightarrow> mailer \<Rightarrow> mailer" where
  "verify_done VerifyOk m = m\<lparr>emailError := None\<rparr>"
| "verify_done (VerifyFail msg) m = \<lparr>transporter = False, emailError = Some msg\<rparr>"

text \<open>The mailer once start-up is over: \<open>None\<close> while \<open>verify()\<close> is still pending.\<close>

definition mailer_start :: "proc_env \<Rightarrow> verify_outcome option \<Rightarrow> mailer" where
  "mailer_start env v =
     (if SMTP_CONFIGURED env then (case v of None \<Rightarrow> mailer_init env | Some r \<Rightarrow> verify_done r (mailer_init env))
      else mailer_init env)"

definition server_cfg_of :: "proc_env \<Rightarrow> mailer \<Rightarrow> string list \<Rightarrow> server_cfg" where
  "server_cfg_of env m pub =
     \<lparr>cfg_auth = \<lparr>admin_password = ADMIN_PASSWORD env\<rparr>,
      cfg_mail = \<lparr>transporter_ready = transporter m, notify_email = NOTIFY_EMAIL env\<rparr>,
      public_files = pub, smtp_configured = SMTP_CONFIGURED env, email_error = emailError m\<rparr>"

text \<open>The whole start-up: load the file into the process environment, create the
  transporter, and settle \<open>verify()\<close>.\<close>

definition startup :: "string option \<Rightarrow> proc_env \<Rightarrow> verify_outcome option \<Rightarrow> string list \<Rightarrow> server_cfg" where
  "startup file penv v pub =
     (let env = load_env file penv in server_cfg_of env (mailer_start env v) pub)"

text \<open>The values the file gives a name, in file order.\<close>

definition env_values :: "string \<Rightarrow> (string \<times> string) list \<Rightarrow> string list" where
  "env_values k kvs = map snd (filter (\<lambda>kv. fst kv = k) kvs)"

subsection \<open>Lemmas on the loader\<close>

lemma env_truthy_Some [simp]: "env_truthy (Some s) \<longleftrightarrow> s \<noteq> []"
  by (simp add: env_truthy_def)

lemma env_truthy_None [simp]: "\<not> env_truthy None"
  by (simp add: env_truthy_def)

text \<open>What a sequence of assignments leaves in one variable: its old value if that was
  set, else the first non-empty value assigned, else \<open>''\<close> if any was assigned.\<close>

lemma foldl_env_assign:
  "foldl env_assign e kvs k =
     (if env_truthy (e k) then e k
      else case find (\<lambda>v. v \<noteq> []) (env_values k kvs) of
             Some v \<Rightarrow> Some v
           | None \<Rightarrow> if env_values k kvs = [] then e k else Some [])"
proof (induction kvs arbitrary: e)
  case Nil
  then show ?case by (simp add: env_values_def split: option.splits)
next
  case (Cons kv kvs)
  obtain k' v where kv: "kv = (k', v)" by fastforce
  show ?case
  proof (cases "k' = k")
    case False
    then show ?thesis
      using Cons.IH [of "env_assign e kv"] by (simp add: kv env_assign_def env_values_def)
  next
    case True
    then show ?thesis
      using Cons.IH [of "env_assign e kv"]
      by (auto simp: kv env_assign_def env_values_def split: option.splits)
  qed
qed

lemma foldl_env_assign_idem: "foldl env_assign (foldl env_assign e kvs) kvs = foldl env_assign e kvs"
proof
  fix k
  show "foldl env_assign (foldl env_assign e kvs) kvs k = foldl env_assign e kvs k"
    using foldl_env_assign [of e kvs k] foldl_env_assign [of "foldl env_assign e kvs" kvs k]
    by (auto split: option.splits if_splits)
qed

lemma load_env_idem: "load_env f (load_env f env) = load_env f env"
  by (simp add: load_env_def foldl_env_assign_idem split: option.splits)

lemma load_env_keeps: "env_truthy (env k) \<Longrightarrow> load_env f env k = env k"
  by (simp add: load_env_def foldl_env_assign split: option.splits)

subsection \<open>Lemmas on the transporter\<close>

lemma mailer_start_inv:
  "(transporter (mailer_start env v) \<longrightarrow> SMTP_CONFIGURED env) \<and>
   (emailError (mailer_start env v) \<noteq> None \<longrightarrow> \<not> transporter (mailer_start env v))"
proof (cases v)
  case (Some r)
  then show ?thesis by (cases r) (auto simp: mailer_start_def mailer_init_def)
qed (auto simp: mailer_start_def mailer_init_def)

lemma verify_fail_silences:
  assumes "SMTP_CONFIGURED env"
  shows "cfg_mail (server_cfg_of env (mailer_start env (Some (VerifyFail msg))) pub) =
           \<lparr>transporter_ready = False, notify_email = NOTIFY_EMAIL env\<rparr>
    \<and> email_test (server_cfg_of env (mailer_start env (Some (VerifyFail msg))) pub) e =
        json_resp 200 (JsObj [(''ok'', JsBool False), (''message'', JsStr (''Connection failed: '' @ msg))])"
  using assms by (simp add: server_cfg_of_def mailer_start_def mailer_init_def email_test_def)

subsection \<open>Properties of start-up\<close>

text \<open>
  C33. Loading a \<open>.env\<close> file never changes a variable the process environment already
  sets to a non-empty string; otherwise the variable gets the first non-empty value the
  file assigns it, or \<open>''\<close> when the file only assigns it empty values, and is left as it
  was when the file does not mention it.
\<close>

theorem load_env_value:
  "load_env (Some txt) env k =
     (if env_truthy (env k) then env k
      else case find (\<lambda>v. v \<noteq> []) (env_values k (env_pairs txt)) of
             Some v \<Rightarrow> Some v
           | None \<Rightarrow> if env_values k (env_pairs txt) = [] then env k else Some [])"
  by (simp add: load_env_def foldl_env_assign)

end
