(* ===== verification/ClientForms.thy ===== *)
theory ClientForms
  imports Server
begin

text \<open>
  The form code of the landing page, \<open>src/public/script.js\<close> lines 231--363: the
  client-side checks made before the \<open>fetch\<close>, the JSON body it sends, and how it
  turns the server's answer into the feedback line under the form. The values of the
  inputs are strings (\<open>(string \<Rightarrow> string)\<close>, by field name); the request goes to
  \<open>Server.serve\<close>, so the client and the server compose into one round trip.
\<close>

subsection \<open>Client-side validation\<close>

text \<open>\<open>isValidEmail\<close> (lines 242--244) tests the same regular expression literal as the
  server (\<open>server.js\<close> line 243), but on the untrimmed value.\<close>

definition isValidEmail :: "string \<Rightarrow> bool" where
  "isValidEmail s = email_ok s"

text \<open>The \<open>data\<close> object of each form: its keys, in the order the literal lists them.\<close>

definition APPLY_FIELDS :: "string list" where
  "APPLY_FIELDS = [''name'', ''email'', ''platforms'', ''audience'', ''message'']"

definition BOOK_FIELDS :: "string list" where
  "BOOK_FIELDS = [''name'', ''email'', ''preferredTime'', ''topic'']"

type_synonym form_data = "(string \<times> string) list"

definition read_form :: "string list \<Rightarrow> (string \<Rightarrow> string) \<Rightarrow> form_data" where
  "read_form ks input = map (\<lambda>k. (k, input k)) ks"

definition field :: "form_data \<Rightarrow> string \<Rightarrow> string" where
  "field d k = (case map_of d k of Some v \<Rightarrow> v | None \<Rightarrow> [])"

text \<open>The inputs that get the \<open>error\<close> class (lines 265--273).\<close>

definition client_errors :: "form_data \<Rightarrow> string list" where
  "client_errors d =
     (if str_trim (field d ''name'') = [] then [''name''] else [])
     @ (if str_trim (field d ''email'') = [] \<or> \<not> isValidEmail (field d ''email'') then [''email''] else [])"

datatype feedback = Feedback string string   \<comment> \<open>text and class of the feedback element\<close>

definition REQUIRED_FEEDBACK :: feedback where
  "REQUIRED_FEEDBACK = Feedback ''Please fill in all required fields.'' ''error''"

definition NETWORK_FEEDBACK :: feedback where
  "NETWORK_FEEDBACK = Feedback ''Network error. Please try again.'' ''error''"

text \<open>\<open>JSON.stringify(data)\<close> parsed by \<open>express.json()\<close>: every field a string.\<close>

definition body_of :: "form_data \<Rightarrow> string \<Rightarrow> jval" where
  "body_of d k = (case map_of d k of Some v \<Rightarrow> JStr v | None \<Rightarrow> JUndefined)"

definition client_request :: "string \<Rightarrow> string option \<Rightarrow> form_data \<Rightarrow> request" where
  "client_request p ck d =
     \<lparr>req_method = POST, path = p, cookie_header = ck, authorization = None, body = Some (body_of d)\<rparr>"

text \<open>The submit handler up to the \<open>fetch\<close> (lines 251--286): an invalid form shows the
  required-fields message and sends nothing.\<close>

definition client_submit :: "string \<Rightarrow> string option \<Rightarrow> form_data \<Rightarrow> feedback + request" where
  "client_submit p ck d = (if client_errors d \<noteq> [] then Inl REQUIRED_FEEDBACK else Inr (client_request p ck d))"

subsection \<open>Reading the answer\<close>

text \<open>JavaScript truthiness and \<open>String(v)\<close> of a parsed JSON value; in \<open>join\<close>, \<open>null\<close>
  becomes the empty string.\<close>

fun json_truthy :: "json \<Rightarrow> bool" where
  "json_truthy JsNull = False"
| "json_truthy (JsBool b) = b"
| "json_truthy (JsNum n) = (n \<noteq> 0)"
| "json_truthy (JsStr s) = (s \<noteq> [])"
| "json_truthy (JsArr _) = True"
| "json_truthy (JsObj _) = True"

definition int_str :: "int \<Rightarrow> string" where
  "int_str n = (if n < 0 then ''-'' @ to_radix 10 (nat (- n)) else to_radix 10 (nat n))"

fun js_str :: "json \<Rightarrow> string" where
  "js_str JsNull = ''null''"
| "js_str (JsBool b) = (if b then ''true'' else ''false'')"
| "js_str (JsNum n) = int_str n"
| "js_str (JsStr s) = s"
| "js_str (JsArr xs) = js_join '','' (map (\<lambda>x. if x = JsNull then [] else js_str x) xs)"
| "js_str (JsObj _) = ''[object Object]''"

text \<open>\<open>arr.join(sep)\<close> on a parsed JSON array.\<close>

definition arr_join :: "string \<Rightarrow> json list \<Rightarrow> string" where
  "arr_join sep xs = js_join sep (map (\<lambda>x. if x = JsNull then [] else js_str x) xs)"

text \<open>\<open>el.textContent = v\<close>: \<open>undefined\<close> and \<open>null\<close> give the empty text.\<close>

definition text_of :: "json option \<Rightarrow> string" where
  "text_of v = (case v of None \<Rightarrow> [] | Some JsNull \<Rightarrow> [] | Some j \<Rightarrow> js_str j)"

text \<open>
  Lines 287--301: \<open>res.json()\<close> rejects a body that is not JSON (the HTML of Express's
  error page), and reading a property of \<open>null\<close> or calling \<open>join\<close> on a truthy
  non-array throws; every failure lands in the \<open>catch\<close> with the network message. The
  second component says whether the form was reset.
\<close>

definition client_result :: "response \<Rightarrow> feedback \<times> bool" where
  "client_result r =
     (case payload r of
        PJson JsNull \<Rightarrow> (NETWORK_FEEDBACK, False)
      | PJson j \<Rightarrow>
          if (case json_get j ''success'' of Some v \<Rightarrow> json_truthy v | None \<Rightarrow> False)
          then (Feedback (text_of (json_get j ''message'')) ''success'', True)
          else (case json_get j ''errors'' of
                  Some (JsArr es) \<Rightarrow> (Feedback (arr_join '' '' es) ''error'', False)
                | Some v \<Rightarrow> if json_truthy v then (NETWORK_FEEDBACK, False)
                            else (Feedback ''Something went wrong.'' ''error'', False)
                | None \<Rightarrow> (Feedback ''Something went wrong.'' ''error'', False))
      | _ \<Rightarrow> (NETWORK_FEEDBACK, False))"

text \<open>Input values for the witnesses.\<close>

definition demo_inputs :: "string \<Rightarrow> string \<Rightarrow> string" where
  "demo_inputs em k = (if k = ''name'' then ''Ann'' else if k = ''email'' then em else [])"


subsection \<open>Lemmas\<close>

lemma email_ok_no_ws: "email_ok s \<Longrightarrow> \<forall>c\<in>set s. \<not> is_ws c"
proof -
  assume ok: "email_ok s"
  let ?P = "\<lambda>c. c \<noteq> CHR ''@''"
  obtain d r' where r: "dropWhile ?P s = d # r'"
    and a: "\<forall>c\<in>set (takeWhile ?P s). \<not> is_ws c" and b: "\<forall>c\<in>set r'. email_char c"
    using ok by (cases "dropWhile ?P s") (auto simp: email_ok_def Let_def)
  have d: "d = CHR ''@''" using r by (rule dropWhile_neq_Cons)
  have s: "s = takeWhile ?P s @ d # r'" using r takeWhile_dropWhile_id [of ?P s] by simp
  have "\<not> is_ws d" by (simp add: d is_ws_def)
  moreover have "\<forall>c\<in>set r'. \<not> is_ws c" using b by (simp add: email_char_def)
  ultimately show ?thesis using a s by (metis Un_iff set_ConsD set_append)
qed

lemma email_ok_trim: "email_ok s \<Longrightarrow> str_trim s = s"
  using email_ok_no_ws [of s] email_ok_nonempty [of s] by (intro str_trim_id) auto

lemma body_of_read_form:
  "body_of (read_form ks inp) k = (if k \<in> set ks then JStr (inp k) else JUndefined)"
  by (simp add: body_of_def read_form_def map_of_map_restrict)

lemma field_read_form: "k \<in> set ks \<Longrightarrow> field (read_form ks inp) k = inp k"
  by (simp add: field_def read_form_def map_of_map_restrict)

lemma client_errors_Nil:
  "client_errors d = [] \<longleftrightarrow>
   str_trim (field d ''name'') \<noteq> [] \<and> str_trim (field d ''email'') \<noteq> [] \<and> email_ok (field d ''email'')"
  by (simp add: client_errors_def isValidEmail_def)

text \<open>What a form that passes the client's checks sends: two strings the server's
  rules accept.\<close>

lemma client_valid_body:
  assumes "''name'' \<in> set ks" "''email'' \<in> set ks" "client_errors (read_form ks inp) = []"
  shows "body_of (read_form ks inp) ''name'' = JStr (inp ''name'') \<and> str_trim (inp ''name'') \<noteq> []
    \<and> body_of (read_form ks inp) ''email'' = JStr (inp ''email'') \<and> email_ok (str_trim (inp ''email''))"
  using assms email_ok_trim [of "inp ''email''"]
  by (simp add: body_of_read_form client_errors_Nil field_read_form)

lemma client_body_trims: "trim_fields (body_of (read_form ks inp)) opt =
   Inr (map (\<lambda>k. (k, case body_of (read_form ks inp) k of JStr s \<Rightarrow> str_trim s | _ \<Rightarrow> [])) opt)"
  by (rule trim_fields_ok) (simp add: body_of_read_form)

lemma client_valid_trimmed:
  assumes "''name'' \<in> set ks" "''email'' \<in> set ks" "client_errors (read_form ks inp) = []"
  shows "\<exists>flds. trimmed_fields (body_of (read_form ks inp)) opt = Inr flds"
  using client_valid_body [OF assms] by (simp add: trimmed_fields_def client_body_trims)

lemma arr_join_strs: "arr_join sep (map JsStr xs) = js_join sep xs"
  by (simp add: arr_join_def comp_def)

text \<open>A 400 answer shows every error of the server, joined with spaces; a 500 (an HTML
  error page) shows the network message.\<close>

lemma client_result_errors:
  "client_result (json_resp 400 (JsObj [(''success'', JsBool False), (''errors'', JsArr (map JsStr errs))])) =
   (Feedback (js_join '' '' errs) ''error'', False)"
  by (simp add: client_result_def json_resp_def json_get_def arr_join_strs)

lemma client_result_error_page: "client_result error_resp = (NETWORK_FEEDBACK, False)"
  by (simp add: client_result_def error_resp_def)

text \<open>
  C34. The client's checks refine the server's: a form that \<open>script.js\<close> lets through
  (name and email present, email matching the pattern) is accepted by the server's
  validation with no error, and trimming its fields never throws.
\<close>

theorem client_accepts_server_accepts:
  assumes "''name'' \<in> set ks" "''email'' \<in> set ks" "client_errors (read_form ks inp) = []"
  shows "validate (body_of (read_form ks inp)) = Inr []
    \<and> (\<forall>opt. \<exists>flds. trimmed_fields (body_of (read_form ks inp)) opt = Inr flds)"
  using client_valid_body [OF assms] client_valid_trimmed [OF assms] by (auto intro: validate_ok)

lemma submission_handler_accepts:
  assumes "body r = Some b" "validate b = Inr []" "trimmed_fields b (form_optional f) = Inr flds"
    "loadJSON (st (form_file f)) = Inr xs"
  shows "submission_handler f mc r i t st =
    (json_resp 200 (JsObj [(''success'', JsBool True), (''message'', JsStr (success_message f)), (''id'', JsStr i)]),
     st(form_file f := FArray (xs @ [\<lparr>entry_id = Some i, entry_data = flds, submittedAt = Some t\<rparr>])),
     sendNotification mc (notify_prefix f @ the (map_of flds ''name''))
       @ sendConfirmation mc (the (map_of flds ''email'')) (confirm_subject f))"
  using assms by (simp add: submission_handler_def saveSubmission_def Let_def)

lemma client_result_success:
  "client_result (json_resp n (JsObj ((''success'', JsBool True) # (''message'', JsStr m) # kvs))) =
   (Feedback m ''success'', True)"
  by (simp add: client_result_def json_resp_def json_get_def text_of_def)

lemma client_submit_Inr:
  "client_submit p ck d = Inr req \<longleftrightarrow> client_errors d = [] \<and> req = client_request p ck d"
  by (auto simp: client_submit_def)

text \<open>
  Client and server together: when the apply form passes the client's checks and
  the applications file is readable, the request the client sends makes the server
  append one record to the file, and the client shows the server's success message in
  the \<open>success\<close> style and resets the form.
\<close>

lemma client_apply_roundtrip:
  assumes "client_submit ''/api/apply'' ck (read_form APPLY_FIELDS inp) = Inr req"
    and "loadJSON (files s APPLICATIONS) = Inr xs"
  shows "client_result (fst (serve c e req s)) = (Feedback (success_message APPLY_FORM) ''success'', True)
    \<and> (\<exists>ent. files (fst (snd (serve c e req s))) APPLICATIONS = FArray (xs @ [ent]))"
proof -
  let ?d = "read_form APPLY_FIELDS inp"
  have ok: "client_errors ?d = []" and req: "req = client_request ''/api/apply'' ck ?d"
    using assms(1) by (simp_all add: client_submit_Inr)
  have ks: "''name'' \<in> set APPLY_FIELDS" "''email'' \<in> set APPLY_FIELDS" by (simp_all add: APPLY_FIELDS_def)
  have v: "validate (body_of ?d) = Inr []"
    using client_valid_body [OF ks ok] by (auto intro: validate_ok)
  obtain flds where t: "trimmed_fields (body_of ?d) (form_optional APPLY_FORM) = Inr flds"
    using client_valid_trimmed [OF ks ok] by blast
  have ff: "form_file APPLY_FORM = APPLICATIONS" by (simp add: APPLY_FORM_def)
  have b: "body req = Some (body_of ?d)" by (simp add: req client_request_def)
  note h = submission_handler_accepts [OF b v t, where st = "files s", unfolded ff, OF assms(2)]
  have p: "req_method req = POST" "path req = ''/api/apply''" by (simp_all add: req client_request_def)
  show ?thesis
    using h by (simp add: serve_post_apply [OF p] apply_handler_def on_files_def client_result_success)
qed

theorem client_accepts_server_accepts_witness:
  "validate (body_of (read_form APPLY_FIELDS (demo_inputs ''ann@example.com''))) = Inr []
   \<and> (\<forall>opt. \<exists>flds. trimmed_fields (body_of (read_form APPLY_FIELDS (demo_inputs ''ann@example.com''))) opt = Inr flds)"
proof (rule client_accepts_server_accepts)
  show "client_errors (read_form APPLY_FIELDS (demo_inputs ''ann@example.com'')) = []"
    by (simp add: client_errors_Nil field_read_form APPLY_FIELDS_def demo_inputs_def email_ok_def
        str_trim_def is_ws_def email_char_def)
qed (simp_all add: APPLY_FIELDS_def)

text \<open>The client is stricter than the server: an email typed with a leading space fails
  \<open>isValidEmail\<close>, which tests the raw value, while the server trims it first.\<close>

lemma client_rejects_padded_email:
  "client_errors (read_form APPLY_FIELDS (demo_inputs '' ann@example.com'')) = [''email'']
   \<and> validate (body_of (read_form APPLY_FIELDS (demo_inputs '' ann@example.com''))) = Inr []"
  by (simp add: client_errors_def isValidEmail_def field_read_form body_of_read_form APPLY_FIELDS_def
      demo_inputs_def email_ok_def str_trim_def is_ws_def email_char_def validate_def required_missing_def
      email_invalid_def)

end
