(* ===== verification/AdminView.thy ===== *)
theory AdminView
  imports ClientForms "HOL-Library.Sublist"
begin

text \<open>
  The admin dashboard, \<open>src/public/admin.js\<close>: the helpers \<open>timeAgo\<close>,
  \<open>formatDate\<close>, \<open>escHtml\<close> and \<open>statCard\<close>, the HTML of the overview and of the
  two tables, the URL of the delete buttons and the view the dashboard re-renders. A
  rendering is the string assigned to \<open>innerHTML\<close>; strings are UTF-8 byte lists. A
  record is the parsed JSON object the server sent (\<open>Store.entry_json\<close>), read
  property by property. The browser's date parser and \<open>toLocaleDateString\<close> are
  parameters: \<open>date_of v\<close> is \<open>new Date(v).getTime()\<close> (\<open>None\<close> for \<open>NaN\<close>).
\<close>

subsection \<open>Helpers\<close>

definition CROSS :: string where "CROSS = [CHR 0xE2, CHR 0x9C, CHR 0x95]"
definition MIDDOT :: string where "MIDDOT = [CHR 0xC2, CHR 0xB7]"
definition MAILBOX :: string where "MAILBOX = [CHR 0xF0, CHR 0x9F, CHR 0x93, CHR 0xAD]"
definition CLIPBOARD :: string where "CLIPBOARD = [CHR 0xF0, CHR 0x9F, CHR 0x93, CHR 0x8B]"
definition PHONE :: string where "PHONE = [CHR 0xF0, CHR 0x9F, CHR 0x93, CHR 0x9E]"

text \<open>\<open>timeAgo(dateStr)\<close> (lines 34--45); \<open>Math.floor\<close> of an integer quotient is \<open>div\<close>.
  An unparsable date makes every comparison false and prints \<open>Invalid Date\<close>.\<close>

definition timeAgo :: "(json \<Rightarrow> ms option) \<Rightarrow> (ms \<Rightarrow> string) \<Rightarrow> ms \<Rightarrow> json option \<Rightarrow> string" where
  "timeAgo date_of fmt now v =
     (case v of None \<Rightarrow> EM_DASH
      | Some d \<Rightarrow>
          if \<not> json_truthy d then EM_DASH
          else case date_of d of
                 None \<Rightarrow> ''Invalid Date''
               | Some t \<Rightarrow>
                   let mins = (now - t) div 60000 in
                   if mins < 1 then ''Just now''
                   else if mins < 60 then int_str mins @ ''m ago''
                   else let hrs = mins div 60 in
                        if hrs < 24 then int_str hrs @ ''h ago''
                        else let days = hrs div 24 in
                             if days < 7 then int_str days @ ''d ago'' else fmt t)"

text \<open>\<open>formatDate(dateStr)\<close> (lines 47--52).\<close>

definition formatDate :: "(json \<Rightarrow> ms option) \<Rightarrow> (ms \<Rightarrow> string) \<Rightarrow> json option \<Rightarrow> string" where
  "formatDate date_of fmt v =
     (case v of None \<Rightarrow> EM_DASH
      | Some d \<Rightarrow> if \<not> json_truthy d then EM_DASH
                  else case date_of d of None \<Rightarrow> ''Invalid Date'' | Some t \<Rightarrow> fmt t)"

text \<open>The text of a node serialised by \<open>innerHTML\<close> (HTML's escaping of a string in
  text mode): \<open>&\<close>, \<open><\<close>, \<open>>\<close> and the no-break space (bytes \<open>C2 A0\<close>) become
  entities; quotes are left as they are.\<close>

fun html_escape :: "string \<Rightarrow> string" where
  "html_escape [] = []"
| "html_escape (c # cs) =
     (if c = CHR ''&'' then ''&amp;'' @ html_escape cs
      else if c = CHR ''<'' then ''&lt;'' @ html_escape cs
      else if c = CHR ''>'' then ''&gt;'' @ html_escape cs
      else if c = CHR 0xC2 \<and> cs \<noteq> [] \<and> hd cs = CHR 0xA0 then ''&nbsp;'' @ html_escape (tl cs)
      else c # html_escape cs)"

text \<open>What the HTML tokenizer makes of such text: the four entities decoded, every
  other byte kept.\<close>

fun html_unescape :: "string \<Rightarrow> string" where
  "html_unescape [] = []"
| "html_unescape (c # cs) =
     (if c = CHR ''&'' \<and> starts_with cs ''amp;'' then CHR ''&'' # html_unescape (drop 4 cs)
      else if c = CHR ''&'' \<and> starts_with cs ''lt;'' then CHR ''<'' # html_unescape (drop 3 cs)
      else if c = CHR ''&'' \<and> starts_with cs ''gt;'' then CHR ''>'' # html_unescape (drop 3 cs)
      else if c = CHR ''&'' \<and> starts_with cs ''nbsp;'' then CHR 0xC2 # CHR 0xA0 # html_unescape (drop 5 cs)
      else c # html_unescape cs)"

text \<open>\<open>escHtml(str)\<close> (lines 54--59): \<open>''\<close> for a falsy value, otherwise the
  serialised text node of \<open>String(str)\<close>.\<close>

definition escHtml :: "json option \<Rightarrow> string" where
  "escHtml v = (case v of None \<Rightarrow> [] | Some j \<Rightarrow> if json_truthy j then html_escape (js_str j) else [])"

text \<open>\<open>'' + app.id\<close>.\<close>

definition id_text :: "json option \<Rightarrow> string" where
  "id_text v = (case v of None \<Rightarrow> ''undefined'' | Some j \<Rightarrow> js_str j)"

definition MUTED_DASH :: string where
  "MUTED_DASH = ''<span style=\"color:var(--text-dim)\">'' @ EM_DASH @ ''</span>''"

text \<open>\<open>escHtml(x) || '<span ...>--</span>'\<close>.\<close>

definition or_dash :: "string \<Rightarrow> string" where
  "or_dash s = (if s \<noteq> [] then s else MUTED_DASH)"

text \<open>\<open>statCard(label, value, sub, color)\<close> (lines 238--244).\<close>

definition statCard :: "string \<Rightarrow> string \<Rightarrow> string \<Rightarrow> string \<Rightarrow> string" where
  "statCard label value sub color =
     ''<div class=\"stat-card'' @ (if color \<noteq> [] then '' stat-card--'' @ color else []) @ ''\">'' @
     ''<div class=\"stat-card__label\">'' @ label @ ''</div>'' @
     ''<div class=\"stat-card__value\">'' @ value @ ''</div>'' @
     ''<div class=\"stat-card__sub\">'' @ sub @ ''</div></div>''"

subsection \<open>The tables\<close>

text \<open>One row of the applications table (lines 183--191) and of the bookings table
  (lines 221--228).\<close>

definition application_row :: "(json \<Rightarrow> ms option) \<Rightarrow> (ms \<Rightarrow> string) \<Rightarrow> json \<Rightarrow> string" where
  "application_row date_of fmt app =
     ''<tr data-id=\"'' @ id_text (json_get app ''id'') @ ''\">'' @
     ''<td><strong>'' @ escHtml (json_get app ''name'') @ ''</strong></td>'' @
     ''<td><a href=\"mailto:'' @ escHtml (json_get app ''email'') @ ''\" style=\"color:var(--amber)\">'' @
       escHtml (json_get app ''email'') @ ''</a></td>'' @
     ''<td>'' @ or_dash (escHtml (json_get app ''platforms'')) @ ''</td>'' @
     ''<td>'' @ or_dash (escHtml (json_get app ''audience'')) @ ''</td>'' @
     ''<td style=\"max-width:200px;white-space:normal;line-height:1.5\">'' @
       or_dash (escHtml (json_get app ''message'')) @ ''</td>'' @
     ''<td>'' @ formatDate date_of fmt (json_get app ''submittedAt'') @ ''</td>'' @
     ''<td><button class=\"delete-btn\" data-type=\"applications\" data-id=\"'' @ id_text (json_get app ''id'') @
       ''\" title=\"Delete\">'' @ CROSS @ ''</button></td>'' @
     ''</tr>''"

definition booking_row :: "(json \<Rightarrow> ms option) \<Rightarrow> (ms \<Rightarrow> string) \<Rightarrow> json \<Rightarrow> string" where
  "booking_row date_of fmt bk =
     ''<tr data-id=\"'' @ id_text (json_get bk ''id'') @ ''\">'' @
     ''<td><strong>'' @ escHtml (json_get bk ''name'') @ ''</strong></td>'' @
     ''<td><a href=\"mailto:'' @ escHtml (json_get bk ''email'') @ ''\" style=\"color:var(--amber)\">'' @
       escHtml (json_get bk ''email'') @ ''</a></td>'' @
     ''<td>'' @ or_dash (escHtml (json_get bk ''preferredTime'')) @ ''</td>'' @
     ''<td style=\"max-width:250px;white-space:normal;line-height:1.5\">'' @
       or_dash (escHtml (json_get bk ''topic'')) @ ''</td>'' @
     ''<td>'' @ formatDate date_of fmt (json_get bk ''submittedAt'') @ ''</td>'' @
     ''<td><button class=\"delete-btn\" data-type=\"bookings\" data-id=\"'' @ id_text (json_get bk ''id'') @
       ''\" title=\"Delete\">'' @ CROSS @ ''</button></td>'' @
     ''</tr>''"

text \<open>\<open>renderApplications\<close> (lines 165--198) and \<open>renderBookings\<close> (lines 203--235):
  the HTML for the array the server answered.\<close>

definition applications_html :: "(json \<Rightarrow> ms option) \<Rightarrow> (ms \<Rightarrow> string) \<Rightarrow> json list \<Rightarrow> string" where
  "applications_html date_of fmt apps =
     ''<div class=\"view-header\"><h1>Applications</h1><p>'' @ int_str (int (length apps)) @ '' total</p></div>'' @
     (if apps = [] then
        ''<div class=\"empty-state\"><div class=\"empty-state__icon\">'' @ CLIPBOARD @
        ''</div><h3>No applications yet</h3><p>Applications from the \"Apply\" form will appear here.</p></div>''
      else
        ''<div class=\"table-wrap\"><div class=\"table-wrap__header\"><span class=\"table-wrap__title\">All Applications</span><span class=\"table-wrap__badge\">''
        @ int_str (int (length apps)) @ ''</span></div>'' @
        ''<div class=\"table-scroll\"><table><thead><tr><th>Name</th><th>Email</th><th>Platforms</th><th>Audience</th><th>Message</th><th>Submitted</th><th></th></tr></thead><tbody>''
        @ concat (map (application_row date_of fmt) apps) @ ''</tbody></table></div></div>'')"

definition bookings_html :: "(json \<Rightarrow> ms option) \<Rightarrow> (ms \<Rightarrow> string) \<Rightarrow> json list \<Rightarrow> string" where
  "bookings_html date_of fmt books =
     ''<div class=\"view-header\"><h1>Call Bookings</h1><p>'' @ int_str (int (length books)) @ '' total</p></div>'' @
     (if books = [] then
        ''<div class=\"empty-state\"><div class=\"empty-state__icon\">'' @ PHONE @
        ''</div><h3>No call bookings yet</h3><p>Bookings from the \"Book a Call\" form will appear here.</p></div>''
      else
        ''<div class=\"table-wrap\"><div class=\"table-wrap__header\"><span class=\"table-wrap__title\">All Call Bookings</span><span class=\"table-wrap__badge\">''
        @ int_str (int (length books)) @ ''</span></div>'' @
        ''<div class=\"table-scroll\"><table><thead><tr><th>Name</th><th>Email</th><th>Preferred Time</th><th>Topic</th><th>Submitted</th><th></th></tr></thead><tbody>''
        @ concat (map (booking_row date_of fmt) books) @ ''</tbody></table></div></div>'')"

text \<open>What the view shows for the server's answer: only an array renders; for any other
  answer \<open>res.json()\<close> rejects or \<open>forEach\<close> throws and the loading screen stays
  (\<open>None\<close>).\<close>

definition list_view :: "(json list \<Rightarrow> string) \<Rightarrow> response \<Rightarrow> string option" where
  "list_view render r = (case payload r of PJson (JsArr xs) \<Rightarrow> Some (render xs) | _ \<Rightarrow> None)"

subsection \<open>The overview\<close>

text \<open>Types of JSON documents, for the shape of what the server sends: an object type
  lists its keys in order.\<close>

datatype jty = TNum | TStr | TBool | TArr jty | TObj "(string \<times> jty) list"

fun has_type :: "json \<Rightarrow> jty \<Rightarrow> bool"
  and has_fields :: "(string \<times> json) list \<Rightarrow> (string \<times> jty) list \<Rightarrow> bool"
  and has_elems :: "json list \<Rightarrow> jty \<Rightarrow> bool" where
  "has_type (JsNum _) TNum = True"
| "has_type (JsStr _) TStr = True"
| "has_type (JsBool _) TBool = True"
| "has_type (JsArr xs) (TArr t) = has_elems xs t"
| "has_type (JsObj kvs) (TObj ts) = has_fields kvs ts"
| "has_type _ _ = False"
| "has_fields [] [] = True"
| "has_fields ((k, v) # kvs) ((k', t) # ts) = (k = k' \<and> has_type v t \<and> has_fields kvs ts)"
| "has_fields _ _ = False"
| "has_elems [] t = True"
| "has_elems (x # xs) t = (has_type x t \<and> has_elems xs t)"

definition COUNTS_T :: jty where
  "COUNTS_T = TObj [(''total'', TNum), (''today'', TNum), (''thisWeek'', TNum)]"

text \<open>The shape \<open>renderOverview\<close> reads (lines 95--109).\<close>

definition DASH_T :: jty where
  "DASH_T = TObj [(''applications'', COUNTS_T), (''bookings'', COUNTS_T), (''totalRequests'', TNum)]"

record counts =
  c_total :: int
  c_today :: int
  c_week :: int

definition num_of :: "json option \<Rightarrow> int option" where
  "num_of v = (case v of Some (JsNum n) \<Rightarrow> Some n | _ \<Rightarrow> None)"

definition counts_of :: "json option \<Rightarrow> counts option" where
  "counts_of v =
     (case v of
        Some j \<Rightarrow>
          (case (num_of (json_get j ''total''), num_of (json_get j ''today''), num_of (json_get j ''thisWeek'')) of
             (Some a, Some b, Some c) \<Rightarrow> Some \<lparr>c_total = a, c_today = b, c_week = c\<rparr>
           | _ \<Rightarrow> None)
      | None \<Rightarrow> None)"

text \<open>\<open>data.applications\<close>, \<open>data.bookings\<close>, \<open>data.totalRequests\<close> when they are the
  numbers the overview adds and prints; the overview of a JSON value of another shape is
  not modelled.\<close>

definition dash_of :: "json \<Rightarrow> (counts \<times> counts \<times> int) option" where
  "dash_of j =
     (case (counts_of (json_get j ''applications''), counts_of (json_get j ''bookings''),
            num_of (json_get j ''totalRequests'')) of
        (Some a, Some b, Some t) \<Rightarrow> Some (a, b, t)
      | _ \<Rightarrow> None)"

definition EMPTY_OVERVIEW :: string where
  "EMPTY_OVERVIEW =
     ''<div class=\"empty-state\">'' @ ''<div class=\"empty-state__icon\">'' @ MAILBOX @ ''</div>'' @
     ''<h3>No requests yet</h3>'' @
     ''<p>When someone submits an application or books a call on the site, it'' @ [CHR 0x27] @
     ''ll show up here.</p>'' @ ''</div>''"

definition counts_sub :: "counts \<Rightarrow> string" where
  "counts_sub a = int_str (c_today a) @ '' today '' @ MIDDOT @ '' '' @ int_str (c_week a) @ '' this week''"

text \<open>\<open>renderOverview\<close> (lines 89--160): the stat cards, then the empty state or the
  placeholder the recent requests are loaded into.\<close>

definition overview_html :: "counts \<times> counts \<times> int \<Rightarrow> string" where
  "overview_html d =
     (case d of (a, b, tr) \<Rightarrow>
        ''<div class=\"view-header\"><h1>Overview</h1><p>Real-time request tracking</p></div>'' @
        ''<div class=\"stats-grid\">'' @
        statCard ''Total Requests'' (int_str tr) ''All time'' ''ember'' @
        statCard ''Applications'' (int_str (c_total a)) (counts_sub a) ''amber'' @
        statCard ''Call Bookings'' (int_str (c_total b)) (counts_sub b) ''blue'' @
        statCard ''Today'' (int_str (c_today a + c_today b)) ''New requests today''
          (if c_today a + c_today b > 0 then ''green'' else []) @
        ''</div>'' @
        (if tr = 0 then EMPTY_OVERVIEW
         else ''<div id=\"recentArea\"><div class=\"loading-screen\" style=\"min-height:200px\"><div class=\"loader\"></div></div></div>''))"

definition overview_view :: "response \<Rightarrow> string option" where
  "overview_view r = (case payload r of PJson j \<Rightarrow> map_option overview_html (dash_of j) | _ \<Rightarrow> None)"

text \<open>The recent requests (lines 117--153): the first five of each list the server
  sent, newest first.\<close>

definition recent_app_row :: "(json \<Rightarrow> ms option) \<Rightarrow> (ms \<Rightarrow> string) \<Rightarrow> ms \<Rightarrow> json \<Rightarrow> string" where
  "recent_app_row date_of fmt now app =
     ''<tr><td><strong>'' @ escHtml (json_get app ''name'') @ ''</strong></td>'' @
     ''<td><a href=\"mailto:'' @ escHtml (json_get app ''email'') @ ''\" style=\"color:var(--amber)\">'' @
       escHtml (json_get app ''email'') @ ''</a></td>'' @
     ''<td>'' @ or_dash (escHtml (json_get app ''platforms'')) @ ''</td>'' @
     ''<td>'' @ or_dash (escHtml (json_get app ''audience'')) @ ''</td>'' @
     ''<td>'' @ timeAgo date_of fmt now (json_get app ''submittedAt'') @ ''</td></tr>''"

definition recent_book_row :: "(json \<Rightarrow> ms option) \<Rightarrow> (ms \<Rightarrow> string) \<Rightarrow> ms \<Rightarrow> json \<Rightarrow> string" where
  "recent_book_row date_of fmt now bk =
     ''<tr><td><strong>'' @ escHtml (json_get bk ''name'') @ ''</strong></td>'' @
     ''<td><a href=\"mailto:'' @ escHtml (json_get bk ''email'') @ ''\" style=\"color:var(--amber)\">'' @
       escHtml (json_get bk ''email'') @ ''</a></td>'' @
     ''<td>'' @ or_dash (escHtml (json_get bk ''preferredTime'')) @ ''</td>'' @
     ''<td>'' @ or_dash (escHtml (json_get bk ''topic'')) @ ''</td>'' @
     ''<td>'' @ timeAgo date_of fmt now (json_get bk ''submittedAt'') @ ''</td></tr>''"

definition recent_html ::
  "(json \<Rightarrow> ms option) \<Rightarrow> (ms \<Rightarrow> string) \<Rightarrow> ms \<Rightarrow> counts \<Rightarrow> counts \<Rightarrow> json list \<Rightarrow> json list \<Rightarrow> string" where
  "recent_html date_of fmt now a b apps0 books0 =
     (let apps = take 5 apps0; books = take 5 books0 in
      (if apps \<noteq> [] then
         ''<div class=\"table-wrap\"><div class=\"table-wrap__header\"><span class=\"table-wrap__title\">Recent Applications</span><span class=\"table-wrap__badge\">''
         @ int_str (c_total a) @ '' total</span></div>'' @
         ''<div class=\"table-scroll\"><table><thead><tr><th>Name</th><th>Email</th><th>Platforms</th><th>Audience</th><th>When</th></tr></thead><tbody>''
         @ concat (map (recent_app_row date_of fmt now) apps) @ ''</tbody></table></div></div>''
       else []) @
      (if books \<noteq> [] then
         ''<div class=\"table-wrap\"><div class=\"table-wrap__header\"><span class=\"table-wrap__title\">Recent Call Bookings</span><span class=\"table-wrap__badge\">''
         @ int_str (c_total b) @ '' total</span></div>'' @
         ''<div class=\"table-scroll\"><table><thead><tr><th>Name</th><th>Email</th><th>Preferred Time</th><th>Topic</th><th>When</th></tr></thead><tbody>''
         @ concat (map (recent_book_row date_of fmt now) books) @ ''</tbody></table></div></div>''
       else []))"

subsection \<open>Navigation and deletion\<close>

text \<open>\<open>renderView(view)\<close> (lines 78--84): the API path each view fetches; an unknown
  view renders nothing.\<close>

definition view_path :: "string \<Rightarrow> string option" where
  "view_path v =
     (if v = ''overview'' then Some ''/api/admin/dashboard''
      else if v = ''applications'' then Some ''/api/admin/applications''
      else if v = ''bookings'' then Some ''/api/admin/bookings'' else None)"

text \<open>The delete button (lines 247--262): \<open>data-type\<close> and \<open>data-id\<close> of the button
  make the URL of a \<open>DELETE\<close> without a body; once it answers, the current view is
  rendered again.\<close>

definition delete_url :: "string \<Rightarrow> string \<Rightarrow> string" where
  "delete_url ty i = ''/api/admin/'' @ ty @ ''/'' @ i"

definition delete_request :: "string \<Rightarrow> string \<Rightarrow> string option \<Rightarrow> request" where
  "delete_request ty i ck =
     \<lparr>req_method = DELETE, path = delete_url ty i, cookie_header = ck, authorization = None, body = None\<rparr>"

text \<open>Inputs for the witnesses: empty data files, and an admin with the session \<open>ab\<close>.\<close>

definition demo_files :: store where
  "demo_files = (\<lambda>_. FAbsent)"

definition demo_admin_state :: server_state where
  "demo_admin_state = \<lparr>active_sessions = Map.empty(''ab'' \<mapsto> \<lparr>created = 0, expires = 10\<rparr>), files = demo_files\<rparr>"

subsection \<open>Lemmas and properties\<close>

lemma html_unescape_escape: "html_unescape (html_escape s) = s"
  by (induction s rule: html_escape.induct) (auto simp: starts_with_def neq_Nil_conv)

lemma html_escape_no_tags: "CHR ''<'' \<notin> set (html_escape s) \<and> CHR ''>'' \<notin> set (html_escape s)"
  by (induction s rule: html_escape.induct) auto

lemma html_escape_plain:
  "\<forall>c\<in>set s. c \<noteq> CHR ''&'' \<and> c \<noteq> CHR ''<'' \<and> c \<noteq> CHR ''>'' \<and> c \<noteq> CHR 0xC2 \<Longrightarrow> html_escape s = s"
  by (induction s rule: html_escape.induct) auto

lemma escHtml_JsStr: "escHtml (Some (JsStr s)) = html_escape s"
  by (cases s) (simp_all add: escHtml_def)

text \<open>
  C36. \<open>escHtml\<close> loses nothing and lets no tag through: the HTML parser reads the
  escaped text of any string back as that string, and the escaped text of any value
  contains no \<open><\<close> or \<open>>\<close>.
\<close>

theorem escHtml_roundtrip:
  "html_unescape (escHtml (Some (JsStr s))) = s
   \<and> CHR ''<'' \<notin> set (escHtml v) \<and> CHR ''>'' \<notin> set (escHtml v)"
  using html_escape_no_tags
  by (auto simp: escHtml_JsStr html_unescape_escape escHtml_def split: option.splits)

lemma escHtml_plain:
  "s \<noteq> [] \<Longrightarrow> \<forall>c\<in>set s. c \<noteq> CHR ''&'' \<and> c \<noteq> CHR ''<'' \<and> c \<noteq> CHR ''>'' \<and> c \<noteq> CHR 0xC2 \<Longrightarrow>
   escHtml (Some (JsStr s)) = s"
  by (simp add: escHtml_JsStr html_escape_plain)

text \<open>
  C37. \<open>escHtml\<close> does not escape quotes, and the applications table puts the escaped
  email inside the double-quoted \<open>href\<close> attribute: an email without \<open>&\<close>, \<open><\<close>,
  \<open>>\<close> or non-ASCII bytes appears verbatim between \<open>mailto:\<close> and the closing quote,
  so a quote in it ends the attribute and the rest of the address becomes markup of the
  admin's page. The server's email pattern allows quotes.
\<close>

theorem mailto_attribute_breakout:
  assumes "json_get app ''email'' = Some (JsStr em)" and "em \<noteq> []"
    and "\<forall>c\<in>set em. c \<noteq> CHR ''&'' \<and> c \<noteq> CHR ''<'' \<and> c \<noteq> CHR ''>'' \<and> c \<noteq> CHR 0xC2"
  shows "sublist (''<a href=\"mailto:'' @ em @ ''\" style=\"color:var(--amber)\">'') (application_row date_of fmt app)"
proof -
  have e: "escHtml (json_get app ''email'') = em" using assms by (simp add: escHtml_plain)
  have "application_row date_of fmt app =
    (''<tr data-id=\"'' @ id_text (json_get app ''id'') @ ''\">'' @
     ''<td><strong>'' @ escHtml (json_get app ''name'') @ ''</strong></td>'' @ ''<td>'')
    @ (''<a href=\"mailto:'' @ em @ ''\" style=\"color:var(--amber)\">'')
    @ (em @ ''</a></td>'' @
     ''<td>'' @ or_dash (escHtml (json_get app ''platforms'')) @ ''</td>'' @
     ''<td>'' @ or_dash (escHtml (json_get app ''audience'')) @ ''</td>'' @
     ''<td style=\"max-width:200px;white-space:normal;line-height:1.5\">'' @
       or_dash (escHtml (json_get app ''message'')) @ ''</td>'' @
     ''<td>'' @ formatDate date_of fmt (json_get app ''submittedAt'') @ ''</td>'' @
     ''<td><button class=\"delete-btn\" data-type=\"applications\" data-id=\"'' @ id_text (json_get app ''id'') @
       ''\" title=\"Delete\">'' @ CROSS @ ''</button></td>'' @
     ''</tr>'')"
    unfolding application_row_def e by simp
  then show ?thesis by (metis sublist_appendI)
qed

lemma has_type_counts_json: "has_type (counts_json t w xs) COUNTS_T"
  by (simp add: counts_json_def COUNTS_T_def)

lemma counts_of_counts_json:
  "counts_of (Some (counts_json t w xs)) =
   Some \<lparr>c_total = int (length xs), c_today = int (length (filter (is_today t) xs)),
         c_week = int (length (filter (in_week w) xs))\<rparr>"
  by (simp add: counts_of_def counts_json_def num_of_def json_get_def)

text \<open>
  C38. Whenever both data files are readable, the dashboard answers 200 with a JSON
  document of exactly the type the admin overview reads (three numeric counts per
  variant and a numeric total), and the overview built from it shows the per-file totals,
  today and 7-day counts, with the \<open>Today\<close> card the numeric sum of the two today counts.
\<close>

theorem dashboard_overview_typed:
  assumes "loadJSON (st APPLICATIONS) = Inr apps" and "loadJSON (st BOOKINGS) = Inr books"
  shows "\<exists>j. dashboard_handler t w st = json_resp 200 j \<and> has_type j DASH_T
    \<and> overview_view (dashboard_handler t w st) =
        Some (overview_html
          (\<lparr>c_total = int (length apps), c_today = int (length (filter (is_today t) apps)),
             c_week = int (length (filter (in_week w) apps))\<rparr>,
           \<lparr>c_total = int (length books), c_today = int (length (filter (is_today t) books)),
             c_week = int (length (filter (in_week w) books))\<rparr>,
           int (length apps + length books)))"
  using assms
  by (simp add: dashboard_handler_def DASH_T_def has_type_counts_json overview_view_def json_resp_def
      dash_of_def json_get_def counts_of_counts_json num_of_def)

lemma set_to_radix_digits: "2 \<le> b \<Longrightarrow> b \<le> 36 \<Longrightarrow> set (to_radix b n) \<subseteq> set RADIX_DIGITS"
proof (induction b n rule: to_radix.induct)
  case (1 b n)
  have d: "\<And>d. d < 36 \<Longrightarrow> radix_digit d \<in> set RADIX_DIGITS"
    unfolding radix_digit_def by (rule nth_mem) (simp add: RADIX_DIGITS_def)
  show ?case
  proof (cases "n < b")
    case True
    then show ?thesis using 1(2,3) d by (simp add: to_radix.simps [of b n])
  next
    case False
    then have "set (to_radix b (n div b)) \<subseteq> set RADIX_DIGITS" using 1 by simp
    moreover have "n mod b < 36" using 1(2,3) by (meson less_le_trans mod_less_divisor not_numeral_le_zero not_le_imp_less order.trans)
    ultimately show ?thesis using 1(2) False d by (simp add: to_radix.simps [of b n])
  qed
qed

lemma genId_path_segment:
  "CHR ''/'' \<notin> set rnd \<Longrightarrow> genId ''sub'' n rnd \<noteq> [] \<and> CHR ''/'' \<notin> set (genId ''sub'' n rnd)"
  using set_to_radix_digits [of 36 n] set_drop_subset [of 2 rnd] set_take_subset [of 4 "drop 2 rnd"]
  by (auto simp: genId_def RADIX_DIGITS_def)

lemma isValidSession_valid: "fst (isValidSession tok now ss) \<Longrightarrow> isValidSession tok now ss = (True, ss)"
  by (auto simp: isValidSession_def split: option.splits if_splits)

text \<open>
  The delete button of a record the server created reaches the delete route with
  that record's id: for an admin with a valid session, the request the button sends for
  an id made by \<open>genId\<close> is answered by \<open>delete_handler\<close> for the applications file and
  that id, and changes nothing but that file.
\<close>

lemma delete_button_roundtrip:
  assumes "\<forall>f\<in>set (public_files c). CHR ''/'' \<notin> set f"
    and "fst (isValidSession (getTokenFromReq (delete_request ''applications'' i ck)) (clock e) (active_sessions s))"
    and "i = genId ''sub'' n rnd" and "CHR ''/'' \<notin> set rnd"
  shows "serve c e (delete_request ''applications'' i ck) s =
    (fst (delete_handler APPLICATIONS i (files s)), s\<lparr>files := snd (delete_handler APPLICATIONS i (files s))\<rparr>, [])"
proof -
  have i: "i \<noteq> []" "CHR ''/'' \<notin> set i" using genId_path_segment [OF assms(4)] assms(3) by simp_all
  let ?r = "delete_request ''applications'' i ck"
  have m: "mount_strip ''/api/admin'' (path ?r) = Some (''/applications/'' @ i)"
    by (simp add: delete_request_def delete_url_def mount_strip_def starts_with_def)
  have g: "requireAdmin (''/applications/'' @ i) ?r (clock e) (active_sessions s) = (Pass, active_sessions s)"
    using isValidSession_valid [OF assms(2)] by (simp add: requireAdmin_def)
  have p: "route_param ''/api/admin/applications/'' (path ?r) = Some i"
    using i by (simp add: route_param_def delete_request_def delete_url_def starts_with_def)
  show ?thesis
    using serve_under_admin [OF assms(1) m, of e s] g p
    by (simp add: admin_routes_def is_get_def delete_request_def on_files_def split: prod.splits)
qed

theorem mailto_attribute_breakout_witness:
  "email_ok ''x\"onmouseover=\"alert(1)\"@e.co''
   \<and> sublist (''<a href=\"mailto:'' @ ''x\"onmouseover=\"alert(1)\"@e.co'' @ ''\" style=\"color:var(--amber)\">'')
       (application_row (\<lambda>_. None) (\<lambda>_. []) (JsObj [(''id'', JsStr ''sub_1''), (''name'', JsStr ''Eve''),
          (''email'', JsStr ''x\"onmouseover=\"alert(1)\"@e.co'')]))"
proof
  show "email_ok ''x\"onmouseover=\"alert(1)\"@e.co''"
    by (simp add: email_ok_def email_char_def is_ws_def)
  show "sublist (''<a href=\"mailto:'' @ ''x\"onmouseover=\"alert(1)\"@e.co'' @ ''\" style=\"color:var(--amber)\">'')
       (application_row (\<lambda>_. None) (\<lambda>_. []) (JsObj [(''id'', JsStr ''sub_1''), (''name'', JsStr ''Eve''),
          (''email'', JsStr ''x\"onmouseover=\"alert(1)\"@e.co'')]))"
    by (rule mailto_attribute_breakout) (simp_all add: json_get_def)
qed

theorem dashboard_overview_typed_witness:
  "\<exists>j. dashboard_handler ''2026-01-01'' ''2025-12-25'' demo_files = json_resp 200 j \<and> has_type j DASH_T
    \<and> overview_view (dashboard_handler ''2026-01-01'' ''2025-12-25'' demo_files) =
        Some (overview_html (\<lparr>c_total = 0, c_today = 0, c_week = 0\<rparr>, \<lparr>c_total = 0, c_today = 0, c_week = 0\<rparr>, 0))"
  using dashboard_overview_typed [of demo_files "[]" "[]" "''2026-01-01''" "''2025-12-25''"]
  by (simp add: demo_files_def)

end
