(* ===== verification/AdminPage.thy ===== *)
theory AdminPage
  imports AdminView
begin

text \<open>
  The dashboard page of \<open>src/public/admin.js\<close> as a state machine: the script's
  variable \<open>currentView\<close>, the sidebar's class \<open>open\<close>, the page's location, what
  \<open>#main\<close> shows, the class \<open>active\<close> of each sidebar link, and the fetches still in
  flight. Each event of the page (a click, a fetch that settles or rejects) is one step
  of \<open>dash_step\<close>; the HTML each view writes is the one of \<open>AdminView\<close>. Fetches settle
  in any order, as the browser lets them: the event names the fetch it settles.
\<close>

subsection \<open>State\<close>

text \<open>What \<open>#main\<close> holds: the loader \<open>renderView\<close> writes first, a view's HTML, or the
  overview with the element \<open>#recentArea\<close>, whose content is its own loader
  (\<open>None\<close>) until the recent requests arrive. No other view's HTML has an element with
  that id: its markup is fixed text and the data in it are escaped.\<close>

datatype main_el = Loading | Shown string | ShownRecent string "string option"

text \<open>A fetch in flight and the callback that waits for it: the auth check (lines
  15--18), the logout (23--24), the data of a view (\<open>renderOverview\<close>,
  \<open>renderApplications\<close>, \<open>renderBookings\<close>), the pair of lists the overview loads with
  \<open>Promise.all\<close> (lines 116--119, with the counts it closes over), and a deletion
  (lines 253--258).\<close>

datatype fetch = FAuthCheck | FLogout | FRender string | FRecent counts counts | FDelete string string

record dash =
  currentView :: string
  sidebar_open :: bool
  location :: "string option"   \<comment> \<open>the URL assigned to \<open>window.location.href\<close>, if any\<close>
  main_html :: main_el
  link_active :: "bool list"    \<comment> \<open>class \<open>active\<close> of each \<open>.sidebar__link\<close>\<close>
  pending :: "fetch list"

text \<open>The page's environment: the \<open>data-view\<close> of each sidebar link in document order,
  and the date functions the views use.\<close>

record dash_env =
  links :: "string list"
  date_of :: "json \<Rightarrow> ms option"
  fmt_long :: "ms \<Rightarrow> string"
  fmt_short :: "ms \<Rightarrow> string"

subsection \<open>Operations\<close>

text \<open>\<open>setActiveNav(view)\<close> (lines 62--67).\<close>

definition setActiveNav :: "dash_env \<Rightarrow> string \<Rightarrow> dash \<Rightarrow> dash" where
  "setActiveNav E v d = d\<lparr>currentView := v, link_active := map (\<lambda>l. l = v) (links E)\<rparr>"

text \<open>\<open>renderView(view)\<close> (lines 78--84): each of the three views first shows the loader
  and fetches its data; any other view does nothing.\<close>

definition renderView :: "string \<Rightarrow> dash \<Rightarrow> dash" where
  "renderView v d =
     (if view_path v = None then d
      else d\<lparr>main_html := Loading, pending := pending d @ [FRender v]\<rparr>)"

text \<open>The click on a sidebar link (lines 69--76).\<close>

definition nav_click :: "dash_env \<Rightarrow> nat \<Rightarrow> dash \<Rightarrow> dash" where
  "nav_click E i d =
     (if i < length (links E)
      then (renderView (links E ! i) (setActiveNav E (links E ! i) d))\<lparr>sidebar_open := False\<rparr>
      else d)"

text \<open>\<open>!d.authenticated\<close> on what \<open>r.json()\<close> gives: the page stays only for an object
  whose \<open>authenticated\<close> is truthy; a body that is not JSON rejects, \<open>null\<close> throws, and
  either goes to \<open>.catch\<close>, which also redirects.\<close>

definition auth_stays :: "response \<Rightarrow> bool" where
  "auth_stays r =
     (case payload r of
        PJson j \<Rightarrow> (case json_get j ''authenticated'' of Some v \<Rightarrow> json_truthy v | None \<Rightarrow> False)
      | _ \<Rightarrow> False)"

definition LOGIN_URL :: string where "LOGIN_URL = ''/login''"

text \<open>The callback of \<open>renderOverview\<close> (lines 94--159): the overview's HTML; when there
  are requests, the placeholder \<open>#recentArea\<close> and the fetch of both lists.\<close>

definition overview_done :: "response \<Rightarrow> dash \<Rightarrow> dash" where
  "overview_done r d =
     (case payload r of
        PJson j \<Rightarrow>
          (case dash_of j of
             Some (a, b, tr) \<Rightarrow>
               (if tr = 0 then d\<lparr>main_html := Shown (overview_html (a, b, tr))\<rparr>
                else d\<lparr>main_html := ShownRecent (overview_html (a, b, tr)) None,
                       pending := pending d @ [FRecent a b]\<rparr>)
           | None \<Rightarrow> d)
      | _ \<Rightarrow> d)"

text \<open>The callback a view's fetch resolves to.\<close>

definition render_done :: "dash_env \<Rightarrow> string \<Rightarrow> response \<Rightarrow> dash \<Rightarrow> dash" where
  "render_done E v r d =
     (if v = ''overview'' then overview_done r d
      else
        (case list_view (if v = ''applications'' then applications_html (date_of E) (fmt_long E)
                         else bookings_html (date_of E) (fmt_long E)) r of
           Some h \<Rightarrow> d\<lparr>main_html := Shown h\<rparr>
         | None \<Rightarrow> d))"

text \<open>The callback of \<open>Promise.all\<close> (lines 119--152): it fills \<open>#recentArea\<close> if that
  element is still in the page, and only when both answers are arrays.\<close>

definition recent_done :: "dash_env \<Rightarrow> ms \<Rightarrow> counts \<Rightarrow> counts \<Rightarrow> response \<Rightarrow> response \<Rightarrow> dash \<Rightarrow> dash" where
  "recent_done E now a b ra rb d =
     (case (payload ra, payload rb, main_html d) of
        (PJson (JsArr apps), PJson (JsArr books), ShownRecent h _) \<Rightarrow>
          d\<lparr>main_html := ShownRecent h (Some (recent_html (date_of E) (fmt_short E) now a b apps books))\<rparr>
      | _ \<Rightarrow> d)"

text \<open>What a fetch resolves to: one response, or for \<open>Promise.all\<close> both responses and
  the clock reading \<open>Date.now()\<close> of its callback.\<close>

datatype reply = Reply response | Replies ms response response

text \<open>What a settled fetch does. The auth check redirects unless it stays; the logout
  redirects whatever the answer; a deletion renders \<open>currentView\<close> again, read when
  the answer arrives, once \<open>r.json()\<close> has resolved. A reply of the other shape does
  not settle the fetch (\<open>None\<close>).\<close>

fun fetch_done :: "dash_env \<Rightarrow> fetch \<Rightarrow> reply \<Rightarrow> dash \<Rightarrow> dash option" where
  "fetch_done E FAuthCheck (Reply r) d = Some (if auth_stays r then d else d\<lparr>location := Some LOGIN_URL\<rparr>)"
| "fetch_done E FLogout (Reply r) d = Some (d\<lparr>location := Some LOGIN_URL\<rparr>)"
| "fetch_done E (FRender v) (Reply r) d = Some (render_done E v r d)"
| "fetch_done E (FRecent a b) (Replies now ra rb) d = Some (recent_done E now a b ra rb d)"
| "fetch_done E (FDelete ty i) (Reply r) d =
     Some (case payload r of PJson _ \<Rightarrow> renderView (currentView d) d | _ \<Rightarrow> d)"
| "fetch_done E _ _ d = None"

text \<open>A fetch that rejects (a network error): only the auth check has a \<open>.catch\<close>.\<close>

fun fetch_failed :: "fetch \<Rightarrow> dash \<Rightarrow> dash" where
  "fetch_failed FAuthCheck d = d\<lparr>location := Some LOGIN_URL\<rparr>"
| "fetch_failed _ d = d"

subsection \<open>Events\<close>

datatype dash_event =
    ClickLogout                       \<comment> \<open>lines 21--26\<close>
  | ClickMenu                         \<comment> \<open>lines 29--31\<close>
  | ClickNav nat                      \<comment> \<open>the sidebar link at this index\<close>
  | ClickDelete string string bool    \<comment> \<open>\<open>data-type\<close>, \<open>data-id\<close>, the answer to \<open>confirm\<close>\<close>
  | Settle nat reply                  \<comment> \<open>the fetch at this index of \<open>pending\<close> resolves\<close>
  | Reject nat                        \<comment> \<open>the fetch at this index of \<open>pending\<close> rejects\<close>

definition remove_nth :: "nat \<Rightarrow> 'a list \<Rightarrow> 'a list" where
  "remove_nth n xs = take n xs @ drop (Suc n) xs"

text \<open>The delete button's handler (lines 248--259): nothing unless the admin confirms.\<close>

definition delete_click :: "string \<Rightarrow> string \<Rightarrow> bool \<Rightarrow> dash \<Rightarrow> dash" where
  "delete_click ty i ok d = (if ok then d\<lparr>pending := pending d @ [FDelete ty i]\<rparr> else d)"

text \<open>One event; a settle or reject of a fetch that is not in flight, or a reply of the
  wrong shape, changes nothing.\<close>

fun dash_step :: "dash_env \<Rightarrow> dash_event \<Rightarrow> dash \<Rightarrow> dash" where
  "dash_step E ClickLogout d = d\<lparr>pending := pending d @ [FLogout]\<rparr>"
| "dash_step E ClickMenu d = d\<lparr>sidebar_open := \<not> sidebar_open d\<rparr>"
| "dash_step E (ClickNav i) d = nav_click E i d"
| "dash_step E (ClickDelete ty i ok) d = delete_click ty i ok d"
| "dash_step E (Settle n rp) d =
     (if n < length (pending d) then
        (case fetch_done E (pending d ! n) rp (d\<lparr>pending := remove_nth n (pending d)\<rparr>) of
           Some d' \<Rightarrow> d' | None \<Rightarrow> d)
      else d)"
| "dash_step E (Reject n) d =
     (if n < length (pending d) then fetch_failed (pending d ! n) (d\<lparr>pending := remove_nth n (pending d)\<rparr>)
      else d)"

definition dash_run :: "dash_env \<Rightarrow> dash_event list \<Rightarrow> dash \<Rightarrow> dash" where
  "dash_run E es d = fold (dash_step E) es d"

text \<open>The extra styles the script appends to \<open>document.head\<close> (lines 265--274).\<close>

definition ADMIN_STYLES :: string where
  "ADMIN_STYLES = js_join [CHR 0x0A]
     [''.empty-state{text-align:center;padding:80px 24px;color:var(--text-muted)}'',
      ''.empty-state__icon{font-size:48px;margin-bottom:16px}'',
      ''.empty-state h3{font-family:var(--font-serif);font-size:20px;color:var(--text-primary);margin-bottom:8px}'',
      ''.empty-state p{font-size:13px;max-width:360px;margin:0 auto}'',
      ''.delete-btn{background:none;border:none;color:var(--text-dim);font-size:14px;cursor:pointer;padding:4px 8px;border-radius:6px;transition:all 0.2s}'',
      ''.delete-btn:hover{color:var(--flame);background:rgba(229,57,45,0.1)}'']"

text \<open>The script's start (lines 7--18 and 277): \<open>currentView = 'overview'\<close>, the auth
  check, then \<open>renderOverview()\<close>; \<open>act\<close> are the classes the page's HTML gives the
  links. No link is made active on load.\<close>

definition dash_init :: "bool list \<Rightarrow> dash" where
  "dash_init act =
     renderView ''overview''
       \<lparr>currentView = ''overview'', sidebar_open = False, location = None, main_html = Loading,
        link_active = act, pending = [FAuthCheck]\<rparr>"

subsection \<open>The page and the server\<close>

text \<open>The requests a fetch sends with the browser's cookie \<open>ck\<close>: \<open>fetch(url)\<close> is a
  \<open>GET\<close>; the logout's \<open>POST\<close> has no body.\<close>

definition get_req :: "string \<Rightarrow> string option \<Rightarrow> request" where
  "get_req p ck = \<lparr>req_method = GET, path = p, cookie_header = ck, authorization = None, body = None\<rparr>"

fun fetch_reqs :: "string option \<Rightarrow> fetch \<Rightarrow> request list" where
  "fetch_reqs ck FAuthCheck = [get_req ''/api/auth/check'' ck]"
| "fetch_reqs ck FLogout =
     [\<lparr>req_method = POST, path = ''/api/auth/logout'', cookie_header = ck, authorization = None, body = None\<rparr>]"
| "fetch_reqs ck (FRender v) = (case view_path v of Some p \<Rightarrow> [get_req p ck] | None \<Rightarrow> [])"
| "fetch_reqs ck (FRecent a b) = [get_req ''/api/admin/applications'' ck, get_req ''/api/admin/bookings'' ck]"
| "fetch_reqs ck (FDelete ty i) = [delete_request ty i ck]"

text \<open>The browser's cookie after a response: \<open>Max-Age=0\<close> deletes it, any other
  \<open>Set-Cookie\<close> replaces it by its \<open>name=value\<close> part.\<close>

definition cookie_after :: "response \<Rightarrow> string option \<Rightarrow> string option" where
  "cookie_after r ck =
     (case set_cookie r of
        None \<Rightarrow> ck
      | Some sc \<Rightarrow> if sc = LOGOUT_COOKIE then None else Some (cookie_pair sc))"

record browser =
  srv :: server_state
  page :: dash
  jar :: "string option"

text \<open>The server answers the fetch at index \<open>n\<close> of the page, in the environment \<open>e\<close>,
  and the page settles it; \<open>now\<close> is the page's clock in the callback.\<close>

definition sys_deliver :: "server_cfg \<Rightarrow> dash_env \<Rightarrow> env \<Rightarrow> ms \<Rightarrow> nat \<Rightarrow> browser \<Rightarrow> browser" where
  "sys_deliver c E e now n b =
     (if n < length (pending (page b)) then
        (let (rs, s') = serve_all c (map (Pair e) (fetch_reqs (jar b) (pending (page b) ! n))) (srv b)
         in case rs of
              [r] \<Rightarrow> \<lparr>srv = s', page = dash_step E (Settle n (Reply r)) (page b), jar = cookie_after r (jar b)\<rparr>
            | [ra, rb] \<Rightarrow> \<lparr>srv = s', page = dash_step E (Settle n (Replies now ra rb)) (page b),
                          jar = cookie_after rb (cookie_after ra (jar b))\<rparr>
            | _ \<Rightarrow> b)
      else b)"

subsection \<open>Predicates and inputs of the properties\<close>

text \<open>The sidebar marks the current view: each link is \<open>active\<close> exactly when its
  \<open>data-view\<close> is \<open>currentView\<close>.\<close>

definition nav_consistent :: "dash_env \<Rightarrow> dash \<Rightarrow> bool" where
  "nav_consistent E d \<longleftrightarrow> link_active d = map (\<lambda>l. l = currentView d) (links E)"

text \<open>The browser's cookie names a session the server accepts at time \<open>now\<close>.\<close>

definition jar_valid :: "string option \<Rightarrow> ms \<Rightarrow> server_state \<Rightarrow> bool" where
  "jar_valid ck now s \<longleftrightarrow> fst (isValidSession (getTokenFromReq (get_req ''/'' ck)) now (active_sessions s))"

definition demo_dash_env :: dash_env where
  "demo_dash_env = \<lparr>links = [''overview'', ''applications'', ''bookings''], date_of = (\<lambda>_. None),
     fmt_long = (\<lambda>_. []), fmt_short = (\<lambda>_. [])\<rparr>"

subsection \<open>Lemmas\<close>

lemma renderView_nav [simp]:
  "currentView (renderView v d) = currentView d" "link_active (renderView v d) = link_active d"
  "location (renderView v d) = location d"
  by (simp_all add: renderView_def)

lemma render_done_nav [simp]:
  "currentView (render_done E v r d) = currentView d" "link_active (render_done E v r d) = link_active d"
  "location (render_done E v r d) = location d"
  by (auto simp: render_done_def overview_done_def split: payload.splits option.splits json.splits prod.splits)

lemma recent_done_nav [simp]:
  "currentView (recent_done E now a b ra rb d) = currentView d" "link_active (recent_done E now a b ra rb d) = link_active d"
  "location (recent_done E now a b ra rb d) = location d"
  by (auto simp: recent_done_def split: payload.splits main_el.splits json.splits)

lemma fetch_done_nav:
  "fetch_done E f rp d = Some d' \<Longrightarrow> currentView d' = currentView d \<and> link_active d' = link_active d"
  by (induction E f rp d rule: fetch_done.induct) (auto split: payload.splits)

lemma fetch_failed_nav [simp]:
  "currentView (fetch_failed f d) = currentView d" "link_active (fetch_failed f d) = link_active d"
  by (cases f; simp)+

lemma nav_click_consistent:
  "i < length (links E) \<Longrightarrow> nav_consistent E (nav_click E i d)"
  by (simp add: nav_click_def nav_consistent_def setActiveNav_def)

lemma dash_step_consistent:
  assumes "nav_consistent E d"
  shows "nav_consistent E (dash_step E e d)"
proof (cases e)
  case (ClickNav i)
  then show ?thesis
    using assms nav_click_consistent [of i E d] by (simp add: nav_click_def)
next
  case (Settle n rp)
  then show ?thesis
    using assms by (auto simp: nav_consistent_def dest: fetch_done_nav split: option.splits)
qed (use assms in \<open>auto simp: nav_consistent_def delete_click_def\<close>)

lemma dash_run_consistent:
  "nav_consistent E d \<Longrightarrow> nav_consistent E (dash_run E es d)"
  by (induction es arbitrary: d) (simp_all add: dash_run_def dash_step_consistent)

text \<open>
  C16. The sidebar always marks the view the script is on: after any click on a sidebar
  link, and whatever clicks, answers and failures follow, exactly the links whose
  \<open>data-view\<close> is \<open>currentView\<close> have the class \<open>active\<close>, even when the page's HTML
  marked other links at load.
\<close>

theorem nav_click_keeps_active:
  "i < length (links E) \<Longrightarrow> nav_consistent E (dash_run E es (dash_step E (ClickNav i) d))"
  by (simp add: dash_run_consistent nav_click_consistent)

lemma serve_auth_check:
  assumes "\<forall>f\<in>set (public_files c). CHR ''/'' \<notin> set f"
  shows "serve c e (get_req ''/api/auth/check'' ck) s =
    (let (ok, ss') = isValidSession (getTokenFromReq (get_req ''/api/auth/check'' ck)) (clock e) (active_sessions s)
     in (json_resp 200 (JsObj [(''authenticated'', JsBool ok)]), s\<lparr>active_sessions := ss'\<rparr>, []))"
proof -
  have "static_lookup (public_files c) ''/api/auth/check'' = None"
    using assms by (intro static_lookup_slash) auto
  then show ?thesis
    by (simp add: serve_def get_req_def is_get_def on_sessions_def auth_check_def split: prod.splits)
qed

lemma jar_valid_req:
  assumes "authorization r = None"
  shows "jar_valid (cookie_header r) now s \<longleftrightarrow> fst (isValidSession (getTokenFromReq r) now (active_sessions s))"
proof -
  have "getTokenFromReq (get_req ''/'' (cookie_header r)) = getTokenFromReq r"
    using assms by (simp add: getTokenFromReq_def get_req_def split: option.splits)
  then show ?thesis by (simp add: jar_valid_def)
qed

lemma serve_list_valid:
  assumes "\<forall>f\<in>set (public_files c). CHR ''/'' \<notin> set f"
    and "jar_valid ck (clock e) s"
  shows "serve c e (get_req ''/api/admin/applications'' ck) s = (list_handler APPLICATIONS (files s), s, [])"
proof -
  let ?r = "get_req ''/api/admin/applications'' ck"
  have m: "mount_strip ''/api/admin'' (path ?r) = Some ''/applications''"
    by (simp add: get_req_def mount_strip_def starts_with_def)
  have "fst (isValidSession (getTokenFromReq ?r) (clock e) (active_sessions s))"
    using assms(2) jar_valid_req [of ?r] by (simp add: get_req_def)
  then have "requireAdmin ''/applications'' ?r (clock e) (active_sessions s) = (Pass, active_sessions s)"
    by (simp add: requireAdmin_def isValidSession_valid)
  then show ?thesis
    using serve_under_admin [OF assms(1) m, of e s] by (simp add: admin_routes_def get_req_def is_get_def)
qed

lemma serve_delete_valid:
  assumes "\<forall>f\<in>set (public_files c). CHR ''/'' \<notin> set f"
    and "jar_valid ck (clock e) s"
    and "i = genId ''sub'' n rnd" and "CHR ''/'' \<notin> set rnd"
  shows "serve c e (delete_request ''applications'' i ck) s =
    (fst (delete_handler APPLICATIONS i (files s)), s\<lparr>files := snd (delete_handler APPLICATIONS i (files s))\<rparr>, [])"
  using delete_button_roundtrip [OF assms(1) _ assms(3,4)] assms(2) jar_valid_req [of "delete_request ''applications'' i ck"]
  by (simp add: delete_request_def)

subsection \<open>Properties\<close>

text \<open>
  C15. The dashboard shows the view whose data arrive last, not the view the admin
  chose last: after clicks on Applications and then Bookings, if the bookings arrive
  first and the applications second, \<open>currentView\<close> is \<open>bookings\<close> and its link is the
  active one, while \<open>#main\<close> shows the applications table. \<open>renderView\<close> never
  discards the answer of a view the admin has left.
\<close>

theorem stale_view_shown:
  assumes "links E = [''overview'', ''applications'', ''bookings'']"
    and "payload ra = PJson (JsArr xs)" and "payload rb = PJson (JsArr ys)"
  shows "currentView (dash_run E [ClickNav 1, ClickNav 2, Settle 3 (Reply rb), Settle 2 (Reply ra)] (dash_init act)) = ''bookings''
    \<and> link_active (dash_run E [ClickNav 1, ClickNav 2, Settle 3 (Reply rb), Settle 2 (Reply ra)] (dash_init act)) = [False, False, True]
    \<and> main_html (dash_run E [ClickNav 1, ClickNav 2, Settle 3 (Reply rb), Settle 2 (Reply ra)] (dash_init act))
        = Shown (applications_html (date_of E) (fmt_long E) xs)"
  using assms
  by (simp add: dash_run_def dash_init_def nav_click_def setActiveNav_def renderView_def view_path_def
      render_done_def list_view_def remove_nth_def)

text \<open>
  C9. The dashboard's auth check, answered by the server, sends the page to
  \<open>/login\<close> exactly when the browser's cookie names no session the server accepts at
  that time; otherwise the page stays where it is.
\<close>

theorem auth_check_leaves:
  assumes "\<forall>f\<in>set (public_files c). CHR ''/'' \<notin> set f"
    and "n < length (pending (page b))" and "pending (page b) ! n = FAuthCheck"
  shows "location (page (sys_deliver c E e now n b)) =
    (if fst (isValidSession (getTokenFromReq (get_req ''/api/auth/check'' (jar b))) (clock e) (active_sessions (srv b)))
     then location (page b) else Some LOGIN_URL)"
  using assms serve_auth_check [OF assms(1), of e "jar b" "srv b"]
  by (auto simp: sys_deliver_def auth_stays_def json_resp_def json_get_def split: prod.splits)

text \<open>
  C39. Deleting a record from the applications view, end to end: once the admin
  confirms, the server answers the \<open>DELETE\<close> for the record's \<open>genId\<close> id, and then
  the list the page fetches again, the page shows exactly the server's listing of the
  file without the records carrying that id, newest first.
\<close>

theorem delete_rerenders:
  assumes "\<forall>f\<in>set (public_files c). CHR ''/'' \<notin> set f"
    and "currentView (page b) = ''applications''"
    and "jar_valid (jar b) (clock e1) (srv b)" and "jar_valid (jar b) (clock e2) (srv b)"
    and "i = genId ''sub'' n rnd" and "CHR ''/'' \<notin> set rnd"
    and "loadJSON (files (srv b) APPLICATIONS) = Inr xs"
  shows "main_html (page (sys_deliver c E e2 now (length (pending (page b)))
           (sys_deliver c E e1 now (length (pending (page b)))
             (b\<lparr>page := dash_step E (ClickDelete ''applications'' i True) (page b)\<rparr>))))
    = Shown (applications_html (date_of E) (fmt_long E)
        (map entry_json (sort_by submitted_desc (filter (\<lambda>a. entry_id a \<noteq> Some i) xs))))"
proof -
  let ?d = "page b" and ?n = "length (pending (page b))"
  let ?st = "(files (srv b))(APPLICATIONS := FArray (filter (\<lambda>a. entry_id a \<noteq> Some i) xs))"
  have del: "serve c e1 (delete_request ''applications'' i (jar b)) (srv b) =
      (json_resp 200 (JsObj [(''success'', JsBool True)]), (srv b)\<lparr>files := ?st\<rparr>, [])"
    using serve_delete_valid [OF assms(1,3,5,6)] assms(7) by (simp add: delete_handler_def)
  have b2: "sys_deliver c E e1 now ?n (b\<lparr>page := dash_step E (ClickDelete ''applications'' i True) ?d\<rparr>) =
      \<lparr>srv = (srv b)\<lparr>files := ?st\<rparr>, page = ?d\<lparr>main_html := Loading, pending := pending ?d @ [FRender ''applications'']\<rparr>,
       jar = jar b\<rparr>"
    using del assms(2)
    by (simp add: sys_deliver_def delete_click_def remove_nth_def renderView_def view_path_def
        json_resp_def cookie_after_def)
  have v2: "jar_valid (jar b) (clock e2) ((srv b)\<lparr>files := ?st\<rparr>)"
    using assms(4) by (simp add: jar_valid_def)
  have lst: "serve c e2 (get_req ''/api/admin/applications'' (jar b)) ((srv b)\<lparr>files := ?st\<rparr>) =
      (list_handler APPLICATIONS ?st, (srv b)\<lparr>files := ?st\<rparr>, [])"
    using serve_list_valid [OF assms(1) v2] by simp
  show ?thesis
    unfolding b2 using lst
    by (simp add: sys_deliver_def remove_nth_def render_done_def list_view_def list_handler_def
        json_resp_def cookie_after_def view_path_def)
qed

theorem stale_view_shown_witness:
  "main_html (dash_run demo_dash_env
     [ClickNav 1, ClickNav 2, Settle 3 (Reply (json_resp 200 (JsArr []))), Settle 2 (Reply (json_resp 200 (JsArr [])))]
     (dash_init [])) = Shown (applications_html (\<lambda>_. None) (\<lambda>_. []) [])"
  using stale_view_shown [of demo_dash_env "json_resp 200 (JsArr [])" "[]" "json_resp 200 (JsArr [])" "[]" "[]"]
  by (simp add: demo_dash_env_def json_resp_def)

theorem auth_check_leaves_witness:
  "location (page (sys_deliver demo_cfg demo_dash_env (demo_env 0) 0 0
     \<lparr>srv = demo_state, page = dash_init [], jar = None\<rparr>)) = Some LOGIN_URL"
  using auth_check_leaves [of demo_cfg 0 "\<lparr>srv = demo_state, page = dash_init [], jar = None\<rparr>" demo_dash_env "demo_env 0" 0]
  by (simp add: demo_cfg_def dash_init_def renderView_def view_path_def demo_state_def isValidSession_def
      getTokenFromReq_def get_req_def starts_with_def)

theorem delete_rerenders_witness:
  "main_html (page (sys_deliver demo_cfg demo_dash_env (demo_env 1) 0 2
     (sys_deliver demo_cfg demo_dash_env (demo_env 0) 0 2
       \<lparr>srv = demo_admin_state, page = dash_step demo_dash_env
          (ClickDelete ''applications'' (genId ''sub'' 5 ''0.k3j9x2'') True)
          ((dash_init [])\<lparr>currentView := ''applications''\<rparr>), jar = Some ''ember_session=ab''\<rparr>)))
   = Shown (applications_html (date_of demo_dash_env) (fmt_long demo_dash_env)
       (map entry_json (sort_by submitted_desc (filter (\<lambda>a. entry_id a \<noteq> Some (genId ''sub'' 5 ''0.k3j9x2'')) []))))"
proof -
  have v: "jar_valid (Some ''ember_session=ab'') t demo_admin_state" if "t \<le> 10" for t
    using that by (simp add: jar_valid_def getTokenFromReq_def get_req_def SESSION_COOKIE_NAME_def
        starts_with_def is_hex_lower_def demo_admin_state_def isValidSession_def)
  have l: "length (pending ((dash_init [])\<lparr>currentView := ''applications''\<rparr>)) = 2"
    by (simp add: dash_init_def renderView_def view_path_def)
  have "main_html (page (sys_deliver demo_cfg demo_dash_env (demo_env 1) 0
     (length (pending (page \<lparr>srv = demo_admin_state, page = (dash_init [])\<lparr>currentView := ''applications''\<rparr>,
        jar = Some ''ember_session=ab''\<rparr>)))
     (sys_deliver demo_cfg demo_dash_env (demo_env 0) 0
       (length (pending (page \<lparr>srv = demo_admin_state, page = (dash_init [])\<lparr>currentView := ''applications''\<rparr>,
        jar = Some ''ember_session=ab''\<rparr>)))
       (\<lparr>srv = demo_admin_state, page = (dash_init [])\<lparr>currentView := ''applications''\<rparr>,
        jar = Some ''ember_session=ab''\<rparr>\<lparr>page := dash_step demo_dash_env
          (ClickDelete ''applications'' (genId ''sub'' 5 ''0.k3j9x2'') True)
          (page \<lparr>srv = demo_admin_state, page = (dash_init [])\<lparr>currentView := ''applications''\<rparr>,
        jar = Some ''ember_session=ab''\<rparr>)\<rparr>))))
   = Shown (applications_html (date_of demo_dash_env) (fmt_long demo_dash_env)
       (map entry_json (sort_by submitted_desc (filter (\<lambda>a. entry_id a \<noteq> Some (genId ''sub'' 5 ''0.k3j9x2'')) []))))"
  proof (rule delete_rerenders [where n = 5 and rnd = "''0.k3j9x2''"])
    show "jar_valid (jar \<lparr>srv = demo_admin_state, page = (dash_init [])\<lparr>currentView := ''applications''\<rparr>,
        jar = Some ''ember_session=ab''\<rparr>) (clock (demo_env 0)) (srv \<lparr>srv = demo_admin_state,
        page = (dash_init [])\<lparr>currentView := ''applications''\<rparr>, jar = Some ''ember_session=ab''\<rparr>)"
      using v [of 0] by (simp add: demo_env_def)
    show "jar_valid (jar \<lparr>srv = demo_admin_state, page = (dash_init [])\<lparr>currentView := ''applications''\<rparr>,
        jar = Some ''ember_session=ab''\<rparr>) (clock (demo_env 1)) (srv \<lparr>srv = demo_admin_state,
        page = (dash_init [])\<lparr>currentView := ''applications''\<rparr>, jar = Some ''ember_session=ab''\<rparr>)"
      using v [of 1] by (simp add: demo_env_def)
  qed (simp_all add: demo_cfg_def demo_admin_state_def demo_files_def)
  then show ?thesis using l by simp
qed

theorem nav_click_keeps_active_witness:
  "nav_consistent demo_dash_env
     (dash_run demo_dash_env [Settle 2 (Reply (json_resp 200 (JsArr []))), ClickMenu, ClickNav 1]
       (dash_step demo_dash_env (ClickNav 2) (dash_init [False, False, False])))"
  using nav_click_keeps_active [of 2 demo_dash_env "[Settle 2 (Reply (json_resp 200 (JsArr []))), ClickMenu, ClickNav 1]"
      "dash_init [False, False, False]"]
  by (simp add: demo_dash_env_def)

end
