(* ===== verification/ClientPage.thy ===== *)
theory ClientPage
  imports Prelude
begin

text \<open>
  The page behaviour of \<open>src/public/script.js\<close> (lines 8--225), apart from the forms:
  the header's scroll state and the scroll spy, the throttled scroll handler, the mobile
  menu and the modals with the body's scroll lock, and the two accordions. The page is
  a state record; each handler is a function on it, and the event sequences are step
  relations. Positions and sizes are integers (CSS pixels); the DOM lookups that find
  nothing are the \<open>if (!x) return\<close> branches of the code.
\<close>

subsection \<open>Header and scroll spy\<close>

text \<open>\<open>updateHeaderScroll\<close> (lines 19--25).\<close>

definition header_scrolled :: "int \<Rightarrow> bool" where
  "header_scrolled scroll_y \<longleftrightarrow> scroll_y > 20"

record section_box =
  sec_id :: string
  sec_top :: int
  sec_height :: int

text \<open>\<open>updateScrollSpy\<close> (lines 28--44): the last section that contains the probe line
  wins; a link is active when its \<open>data-section\<close> is that id (\<open>None\<close>: no attribute).\<close>

definition scroll_spy :: "int \<Rightarrow> int \<Rightarrow> section_box list \<Rightarrow> string" where
  "scroll_spy scroll_y header_h secs =
     (let pos = scroll_y + header_h + 100
      in foldl (\<lambda>cur s. if pos \<ge> sec_top s \<and> pos < sec_top s + sec_height s then sec_id s else cur) [] secs)"

definition active_links :: "string \<Rightarrow> string option list \<Rightarrow> bool list" where
  "active_links cur links = map (\<lambda>l. l = Some cur) links"

text \<open>The smooth scroll of an in-page link (lines 101--103): the target's top in the
  document, less the header's height.\<close>

definition anchor_scroll_top :: "int \<Rightarrow> int \<Rightarrow> int \<Rightarrow> int" where
  "anchor_scroll_top rect_top scroll_y header_h = rect_top + scroll_y - header_h"

text \<open>Reveal on scroll (lines 108--121): with \<open>IntersectionObserver\<close> an element
  becomes visible once it intersects and is then no longer observed; without it every
  element is made visible at once.\<close>

definition reveal :: "bool \<Rightarrow> bool list \<Rightarrow> bool list \<Rightarrow> bool list" where
  "reveal io_supported intersecting visible =
     (if io_supported then map2 (\<or>) visible intersecting else map (\<lambda>_. True) visible)"

subsection \<open>The throttled scroll handler\<close>

text \<open>Lines 47--57: a scroll event requests an animation frame unless one is pending;
  the frame runs the two updates and clears the flag.\<close>

record throttle =
  ticking :: bool
  frames :: nat   \<comment> \<open>animation frames requested and not yet run\<close>

definition on_scroll :: "throttle \<Rightarrow> throttle" where
  "on_scroll t = (if \<not> ticking t then \<lparr>ticking = True, frames = frames t + 1\<rparr> else t)"

definition on_frame :: "throttle \<Rightarrow> throttle" where
  "on_frame t = \<lparr>ticking = False, frames = frames t - 1\<rparr>"

inductive throttle_reachable :: "throttle \<Rightarrow> bool" where
  start: "throttle_reachable \<lparr>ticking = False, frames = 0\<rparr>"
| scroll: "throttle_reachable t \<Longrightarrow> throttle_reachable (on_scroll t)"
| frame: "throttle_reachable t \<Longrightarrow> frames t > 0 \<Longrightarrow> throttle_reachable (on_frame t)"

subsection \<open>Mobile menu and modals\<close>

record page =
  nav_open :: bool              \<comment> \<open>\<open>burger\<close> and \<open>mobileNav\<close> have class \<open>open\<close>\<close>
  open_modals :: "string list"  \<comment> \<open>ids of the modals with class \<open>open\<close>\<close>
  scroll_locked :: bool         \<comment> \<open>\<open>document.body.style.overflow = 'hidden'\<close>\<close>

definition openMobileNav :: "page \<Rightarrow> page" where
  "openMobileNav p = p\<lparr>nav_open := True, scroll_locked := True\<rparr>"

definition closeMobileNav :: "page \<Rightarrow> page" where
  "closeMobileNav p = p\<lparr>nav_open := False, scroll_locked := False\<rparr>"

text \<open>\<open>openModal(id)\<close>, \<open>closeModal(id)\<close>, \<open>closeAllModals()\<close> (lines 175--199); \<open>ms\<close>
  are the ids of the modals in the document.\<close>

definition openModal :: "string list \<Rightarrow> string \<Rightarrow> page \<Rightarrow> page" where
  "openModal ms i p =
     (if i \<notin> set ms then p
      else p\<lparr>open_modals := i # removeAll i (open_modals p), scroll_locked := True\<rparr>)"

definition closeModal :: "string list \<Rightarrow> string \<Rightarrow> page \<Rightarrow> page" where
  "closeModal ms i p =
     (if i \<notin> set ms then p else p\<lparr>open_modals := removeAll i (open_modals p), scroll_locked := False\<rparr>)"

definition closeAllModals :: "page \<Rightarrow> page" where
  "closeAllModals p = p\<lparr>open_modals := [], scroll_locked := False\<rparr>"

datatype page_event =
    BurgerClick                    \<comment> \<open>lines 79--85\<close>
  | AnchorClick bool               \<comment> \<open>lines 88--105: whether the target exists\<close>
  | OpenModalClick string          \<comment> \<open>lines 202--209\<close>
  | CloseModalClick string         \<comment> \<open>lines 212--217: the enclosing modal\<close>
  | EscapeKey                      \<comment> \<open>lines 220--225\<close>

fun page_step :: "string list \<Rightarrow> page \<Rightarrow> page_event \<Rightarrow> page" where
  "page_step ms p BurgerClick = (if nav_open p then closeMobileNav p else openMobileNav p)"
| "page_step ms p (AnchorClick found) = (if found then closeMobileNav p else p)"
| "page_step ms p (OpenModalClick i) = openModal ms i (closeMobileNav p)"
| "page_step ms p (CloseModalClick i) = closeModal ms i p"
| "page_step ms p EscapeKey =
     (let p' = closeAllModals p in if nav_open p' then closeMobileNav p' else p')"

definition page_init :: page where
  "page_init = \<lparr>nav_open = False, open_modals = [], scroll_locked = False\<rparr>"

subsection \<open>Accordions\<close>

text \<open>One panel of an accordion: the header's \<open>aria-expanded\<close> and the body's
  \<open>max-height\<close> (\<open>None\<close> for \<open>null\<close>).\<close>

record panel =
  expanded :: bool
  max_height :: "int option"

definition CLOSED :: panel where
  "CLOSED = \<lparr>expanded = False, max_height = None\<rparr>"

text \<open>A click on header \<open>i\<close> (lines 124--145, and the same code for the FAQ, lines
  148--169): every other panel is collapsed, and panel \<open>i\<close> toggles, opening to its
  body's \<open>scrollHeight\<close> (\<open>hs ! i\<close>).\<close>

definition click_panel :: "int list \<Rightarrow> nat \<Rightarrow> bool \<Rightarrow> nat \<Rightarrow> panel" where
  "click_panel hs i was_open j =
     (if j = i then (if was_open then CLOSED else \<lparr>expanded = True, max_height = Some (hs ! i)\<rparr>) else CLOSED)"

definition accordion_click :: "int list \<Rightarrow> nat \<Rightarrow> panel list \<Rightarrow> panel list" where
  "accordion_click hs i ps =
     (if i < length ps then map (click_panel hs i (expanded (ps ! i))) [0..<length ps] else ps)"

inductive acc_reachable :: "int list \<Rightarrow> panel list \<Rightarrow> bool" for hs where
  start: "acc_reachable hs (replicate n CLOSED)"
| click: "acc_reachable hs ps \<Longrightarrow> acc_reachable hs (accordion_click hs i ps)"

definition acc_inv :: "panel list \<Rightarrow> bool" where
  "acc_inv ps \<longleftrightarrow> length (filter expanded ps) \<le> 1 \<and> list_all (\<lambda>p. expanded p = (max_height p \<noteq> None)) ps"

subsection \<open>Lemmas and properties\<close>

lemma throttle_inv: "throttle_reachable t \<Longrightarrow> frames t \<le> 1 \<and> (ticking t \<longleftrightarrow> frames t = 1)"
  by (induction rule: throttle_reachable.induct) (auto simp: on_scroll_def on_frame_def)

lemma page_step_lock:
  "(scroll_locked p \<longrightarrow> nav_open p \<or> open_modals p \<noteq> []) \<Longrightarrow>
   scroll_locked (page_step ms p ev) \<longrightarrow> nav_open (page_step ms p ev) \<or> open_modals (page_step ms p ev) \<noteq> []"
  by (cases ev) (auto simp: openMobileNav_def closeMobileNav_def openModal_def closeModal_def closeAllModals_def Let_def)

lemma page_run_lock:
  "scroll_locked (foldl (page_step ms) page_init evs) \<longrightarrow>
   nav_open (foldl (page_step ms) page_init evs) \<or> open_modals (foldl (page_step ms) page_init evs) \<noteq> []"
proof (induction evs rule: rev_induct)
  case Nil
  then show ?case by (simp add: page_init_def)
next
  case (snoc ev evs)
  then show ?case using page_step_lock by simp
qed

lemma modal_open_unlocked:
  "foldl (page_step [''applyModal'']) page_init [OpenModalClick ''applyModal'', AnchorClick True] =
   \<lparr>nav_open = False, open_modals = [''applyModal''], scroll_locked = False\<rparr>"
  by (simp add: page_init_def openModal_def closeMobileNav_def)

lemma filter_upt_single: "length (filter (\<lambda>j. j = i) [0..<n]) \<le> 1"
  by (induction n) auto


lemma click_panel_inv: "expanded (click_panel hs i b j) \<longleftrightarrow> max_height (click_panel hs i b j) \<noteq> None"
  by (simp add: click_panel_def CLOSED_def)

lemma click_panel_only_i: "expanded (click_panel hs i b j) \<Longrightarrow> j = i"
  by (simp add: click_panel_def CLOSED_def split: if_splits)

lemma accordion_click_inv: "i < length ps \<Longrightarrow> acc_inv (accordion_click hs i ps)"
proof -
  assume i: "i < length ps"
  let ?f = "click_panel hs i (expanded (ps ! i))"
  have "length (filter (\<lambda>j. expanded (?f j)) [0..<length ps]) \<le> length (filter (\<lambda>j. j = i) [0..<length ps])"
    by (rule length_filter_mono_impl) (rule click_panel_only_i)
  then have "length (filter expanded (map ?f [0..<length ps])) \<le> 1"
    using filter_upt_single [of i "length ps"] by (simp add: comp_def)
  then show ?thesis using i click_panel_inv by (simp add: acc_inv_def accordion_click_def list_all_iff)
qed

lemma acc_inv_CLOSED: "acc_inv (replicate n CLOSED)"
  by (simp add: acc_inv_def CLOSED_def list_all_iff)

text \<open>
  C40. However the visitor clicks, an accordion that starts collapsed never shows more
  than one panel expanded, and every panel's body has a height exactly when its header
  says it is expanded.
\<close>

theorem accordion_at_most_one:
  assumes "acc_reachable hs ps"
  shows "acc_inv ps"
  using assms
proof (induction rule: acc_reachable.induct)
  case (start n)
  then show ?case by (rule acc_inv_CLOSED)
next
  case (click ps i)
  then show ?case
    by (cases "i < length ps") (simp add: accordion_click_inv, simp add: accordion_click_def)
qed

theorem accordion_at_most_one_witness:
  "acc_inv (accordion_click [10, 20] 1 (accordion_click [10, 20] 0 (replicate 2 CLOSED)))"
  by (rule accordion_at_most_one [of "[10, 20]"]) (intro acc_reachable.click acc_reachable.start)

end
