(* ===== verification/JsRegex.thy ===== *)
theory JsRegex
  imports Submissions "HOL-Library.Sublist"
begin

text \<open>
  \<open>RegExp.prototype.test\<close> for the regular expressions the code writes, evaluated as
  ECMAScript specifies (\<open>RegExpBuiltinExec\<close> and the continuation-passing matchers of
  the pattern semantics): each start position from 0 to the length is tried in turn,
  and at each the matcher backtracks through the choices of the quantifiers. The
  state of a matcher is the input still to be read. The matcher is given fuel, one unit
  per nested call, so that it is a total function; the theorems show how much fuel is
  enough for it to return, and what it returns. Captures are not modelled: \<open>test\<close>
  only reports whether some path succeeds.
\<close>

datatype rx =
    RClass "char \<Rightarrow> bool"   \<comment> \<open>a character class or a literal character\<close>
  | RBol                    \<comment> \<open>\<open>^\<close> without the \<open>m\<close> flag\<close>
  | REol                    \<comment> \<open>\<open>$\<close> without the \<open>m\<close> flag\<close>
  | RSeq rx rx              \<comment> \<open>concatenation\<close>
  | RStar rx                \<comment> \<open>greedy \<open>*\<close>\<close>

text \<open>\<open>r+\<close> is \<open>r r*\<close>: the RepeatMatcher with minimum 1 runs one mandatory iteration
  and then the minimum-0 loop.\<close>

definition rplus :: "rx \<Rightarrow> rx" where
  "rplus r = RSeq r (RStar r)"

text \<open>The matcher of a pattern at the input \<open>t\<close> still to be read, with continuation
  \<open>k\<close>; \<open>s\<close> is the whole input. The star's loop stops an iteration that read nothing,
  as the RepeatMatcher does.\<close>

fun rm :: "nat \<Rightarrow> string \<Rightarrow> rx \<Rightarrow> string \<Rightarrow> (string \<Rightarrow> bool option) \<Rightarrow> bool option" where
  "rm 0 s r t k = None"
| "rm (Suc f) s (RClass P) t k = (case t of c # t' \<Rightarrow> if P c then k t' else Some False | [] \<Rightarrow> Some False)"
| "rm (Suc f) s RBol t k = (if t = s then k t else Some False)"
| "rm (Suc f) s REol t k = (if t = [] then k t else Some False)"
| "rm (Suc f) s (RSeq a b) t k = rm f s a t (\<lambda>u. rm f s b u k)"
| "rm (Suc f) s (RStar r) t k =
     (case rm f s r t (\<lambda>u. if u = t then Some False else rm f s (RStar r) u k) of
        Some True \<Rightarrow> Some True
      | Some False \<Rightarrow> k t
      | None \<Rightarrow> None)"

text \<open>\<open>RegExpBuiltinExec\<close> without the \<open>g\<close> and \<open>y\<close> flags: \<open>lastIndex\<close> starts at 0 and
  moves one position on after each failure, up to the length of the input.\<close>

fun rx_search :: "nat \<Rightarrow> string \<Rightarrow> rx \<Rightarrow> string \<Rightarrow> bool option" where
  "rx_search f s r [] = rm f s r [] (\<lambda>_. Some True)"
| "rx_search f s r (c # t) =
     (case rm f s r (c # t) (\<lambda>_. Some True) of
        Some True \<Rightarrow> Some True
      | Some False \<Rightarrow> rx_search f s r t
      | None \<Rightarrow> None)"

definition regex_test :: "nat \<Rightarrow> rx \<Rightarrow> string \<Rightarrow> bool option" where
  "regex_test f r s = rx_search f s r s"

text \<open>The regular expression literal \<open>/^[^\s@]+@[^\s@]+\.[^\s@]+$/\<close> of
  \<open>server.js\<close> line 243 and \<open>script.js\<close> line 243.\<close>

definition EMAIL_RE :: rx where
  "EMAIL_RE =
     RSeq RBol (RSeq (rplus (RClass email_char)) (RSeq (RClass (\<lambda>c. c = CHR ''@''))
       (RSeq (rplus (RClass email_char)) (RSeq (RClass (\<lambda>c. c = CHR ''.''))
         (RSeq (rplus (RClass email_char)) REol)))))"

text \<open>What a pattern denotes: from the input \<open>t\<close> still to be read it can read up to the
  remainder \<open>u\<close>.\<close>

inductive rx_match :: "string \<Rightarrow> rx \<Rightarrow> string \<Rightarrow> string \<Rightarrow> bool" for s where
  cls: "P c \<Longrightarrow> rx_match s (RClass P) (c # t) t"
| bol: "rx_match s RBol s s"
| eol: "rx_match s REol [] []"
| seq: "rx_match s a t v \<Longrightarrow> rx_match s b v u \<Longrightarrow> rx_match s (RSeq a b) t u"
| star0: "rx_match s (RStar r) t t"
| starS: "rx_match s r t v \<Longrightarrow> v \<noteq> t \<Longrightarrow> rx_match s (RStar r) v u \<Longrightarrow> rx_match s (RStar r) t u"

fun rdepth :: "rx \<Rightarrow> nat" where
  "rdepth (RClass P) = 1"
| "rdepth RBol = 1"
| "rdepth REol = 1"
| "rdepth (RSeq a b) = Suc (max (rdepth a) (rdepth b))"
| "rdepth (RStar r) = Suc (rdepth r)"

subsection \<open>What the matcher computes\<close>

text \<open>With enough fuel, the matcher of a pattern answers whether the pattern reads the
  input to a remainder the continuation accepts, and the search answers whether the
  pattern matches from some start position.\<close>

inductive_simps rx_match_RClass [simp]: "rx_match s (RClass P) t u"
inductive_simps rx_match_RBol [simp]: "rx_match s RBol t u"
inductive_simps rx_match_REol [simp]: "rx_match s REol t u"
inductive_simps rx_match_RSeq [simp]: "rx_match s (RSeq a b) t u"
inductive_simps rx_match_RStar: "rx_match s (RStar r) t u"

lemma rx_match_suffix: "rx_match s r t u \<Longrightarrow> suffix u t"
  by (induction rule: rx_match.induct) (auto simp: suffix_def)

lemma suffix_neq_shorter: "suffix u t \<Longrightarrow> u \<noteq> t \<Longrightarrow> length u < length t"
  by (metis suffix_length_le suffix_length_less suffix_order.dual_order.not_eq_order_implies_strict)

lemma rx_match_star_step:
  "(\<exists>u. rx_match s (RStar r) t u \<and> k u = Some True) \<longleftrightarrow>
   k t = Some True \<or> (\<exists>v w. rx_match s r t v \<and> v \<noteq> t \<and> rx_match s (RStar r) v w \<and> k w = Some True)"
  by (auto intro: rx_match.intros elim: rx_match.cases)

lemma rm_correct:
  assumes "rdepth r + length t < f" and "\<forall>u. suffix u t \<longrightarrow> k u \<noteq> None"
  shows "rm f s r t k = Some (\<exists>u. rx_match s r t u \<and> k u = Some True)"
  using assms
proof (induction f arbitrary: r t k)
  case 0
  then show ?case by simp
next
  case (Suc f)
  show ?case
  proof (cases r)
    case (RClass P)
    show ?thesis
    proof (cases t)
      case (Cons c t')
      have "k t' \<noteq> None" using Suc.prems(2) Cons by (auto simp: suffix_def)
      then show ?thesis using RClass Cons by auto
    qed (simp add: RClass)
  next
    case RBol
    then show ?thesis using Suc.prems(2) by auto
  next
    case REol
    then show ?thesis using Suc.prems(2) by auto
  next
    case (RSeq a b)
    have kb: "\<And>v. suffix v t \<Longrightarrow> rm f s b v k = Some (\<exists>u. rx_match s b v u \<and> k u = Some True)"
    proof -
      fix v assume v: "suffix v t"
      show "rm f s b v k = Some (\<exists>u. rx_match s b v u \<and> k u = Some True)"
      proof (rule Suc.IH)
        show "rdepth b + length v < f" using Suc.prems(1) v RSeq suffix_length_le [OF v] by simp
        show "\<forall>u. suffix u v \<longrightarrow> k u \<noteq> None" using Suc.prems(2) v suffix_order.trans by blast
      qed
    qed
    have "rm f s a t (\<lambda>v. rm f s b v k) = Some (\<exists>v. rx_match s a t v \<and> rm f s b v k = Some True)"
      using Suc.prems(1) RSeq kb by (intro Suc.IH) auto
    moreover have "(\<exists>v. rx_match s a t v \<and> rm f s b v k = Some True) \<longleftrightarrow>
      (\<exists>u. (\<exists>v. rx_match s a t v \<and> rx_match s b v u) \<and> k u = Some True)"
    proof
      assume "\<exists>v. rx_match s a t v \<and> rm f s b v k = Some True"
      then obtain v where "rx_match s a t v" "rm f s b v k = Some True" by blast
      then show "\<exists>u. (\<exists>v. rx_match s a t v \<and> rx_match s b v u) \<and> k u = Some True"
        using kb [OF rx_match_suffix] by auto
    next
      assume "\<exists>u. (\<exists>v. rx_match s a t v \<and> rx_match s b v u) \<and> k u = Some True"
      then obtain u v where av: "rx_match s a t v" and bu: "rx_match s b v u" "k u = Some True" by blast
      have "rm f s b v k = Some True"
        unfolding kb [OF rx_match_suffix [OF av]] using bu by auto
      then show "\<exists>v. rx_match s a t v \<and> rm f s b v k = Some True" using av by blast
    qed
    ultimately show ?thesis using RSeq by simp
  next
    case (RStar r')
    let ?k' = "\<lambda>u. if u = t then Some False else rm f s (RStar r') u k"
    have ks: "\<And>u. suffix u t \<Longrightarrow> u \<noteq> t \<Longrightarrow> rm f s (RStar r') u k = Some (\<exists>w. rx_match s (RStar r') u w \<and> k w = Some True)"
    proof -
      fix u assume u: "suffix u t" "u \<noteq> t"
      show "rm f s (RStar r') u k = Some (\<exists>w. rx_match s (RStar r') u w \<and> k w = Some True)"
      proof (rule Suc.IH)
        show "rdepth (RStar r') + length u < f" using Suc.prems(1) RStar suffix_neq_shorter [OF u] by simp
        show "\<forall>w. suffix w u \<longrightarrow> k w \<noteq> None" using Suc.prems(2) u(1) suffix_order.trans by blast
      qed
    qed
    have inner: "rm f s r' t ?k' = Some (\<exists>v. rx_match s r' t v \<and> ?k' v = Some True)"
      using Suc.prems(1) RStar ks by (intro Suc.IH) auto
    have kt: "k t \<noteq> None" using Suc.prems(2) by simp
    have "\<And>v. rx_match s r' t v \<Longrightarrow> ?k' v = Some True \<longleftrightarrow>
        v \<noteq> t \<and> (\<exists>w. rx_match s (RStar r') v w \<and> k w = Some True)"
      using ks [OF rx_match_suffix] by auto
    then have "(\<exists>v. rx_match s r' t v \<and> ?k' v = Some True) \<longleftrightarrow>
        (\<exists>v w. rx_match s r' t v \<and> v \<noteq> t \<and> rx_match s (RStar r') v w \<and> k w = Some True)"
      by blast
    then have inner': "rm f s r' t ?k' =
        Some (\<exists>v w. rx_match s r' t v \<and> v \<noteq> t \<and> rx_match s (RStar r') v w \<and> k w = Some True)"
      using inner by simp
    show ?thesis
    proof (cases "\<exists>v w. rx_match s r' t v \<and> v \<noteq> t \<and> rx_match s (RStar r') v w \<and> k w = Some True")
      case True
      then show ?thesis using inner' RStar rx_match_star_step [of s r' t k] by simp
    next
      case False
      then have "rm f s r' t ?k' = Some False" using inner' by (simp del: not_ex)
      then show ?thesis using False kt RStar rx_match_star_step [of s r' t k] by (auto simp del: not_ex)
    qed
  qed
qed

lemma rx_search_correct:
  "rdepth r + length t < f \<Longrightarrow>
   rx_search f s r t = Some (\<exists>t'. suffix t' t \<and> (\<exists>u. rx_match s r t' u))"
proof (induction t)
  case Nil
  then show ?case by (simp add: rm_correct)
next
  case (Cons c t)
  have "rm f s r (c # t) (\<lambda>_. Some True) = Some (\<exists>u. rx_match s r (c # t) u)"
    using Cons.prems by (simp add: rm_correct)
  moreover have "rx_search f s r t = Some (\<exists>t'. suffix t' t \<and> (\<exists>u. rx_match s r t' u))"
    using Cons by simp
  ultimately show ?case by (auto simp: suffix_Cons split: bool.split)
qed

lemma star_class_imp:
  "rx_match s r t u \<Longrightarrow> r = RStar (RClass P) \<Longrightarrow> \<exists>a. t = a @ u \<and> list_all P a"
  by (induction rule: rx_match.induct) auto

lemma star_class_intro: "list_all P a \<Longrightarrow> rx_match s (RStar (RClass P)) (a @ u) u"
  by (induction a) (auto intro: rx_match.intros)

lemma rx_match_star_class:
  "rx_match s (RStar (RClass P)) t u \<longleftrightarrow> (\<exists>a. t = a @ u \<and> list_all P a)"
  using star_class_imp star_class_intro by blast

lemma rx_match_plus_class:
  "rx_match s (rplus (RClass P)) t u \<longleftrightarrow> (\<exists>a. t = a @ u \<and> a \<noteq> [] \<and> list_all P a)"
  by (auto simp: rplus_def rx_match_star_class neq_Nil_conv)

lemma rx_match_EMAIL_RE:
  "rx_match s EMAIL_RE t u \<longleftrightarrow> t = s \<and> u = [] \<and> email_regex s"
  by (auto simp: EMAIL_RE_def rx_match_plus_class email_regex_def list_all_iff)

lemma rdepth_EMAIL_RE: "rdepth EMAIL_RE = 9"
  by (simp add: EMAIL_RE_def rplus_def)

lemma regex_test_correct:
  "rdepth r + length s < f \<Longrightarrow>
   regex_test f r s = Some (\<exists>t. suffix t s \<and> (\<exists>u. rx_match s r t u))"
  by (simp add: regex_test_def rx_search_correct)

text \<open>C23. \<open>pattern.test(email)\<close> with the email pattern returns, given fuel one more than
  the input length plus the depth 9 of the pattern, and its answer is \<open>email_ok\<close>: the
  backtracking search terminates and accepts exactly the addresses the model's
  validation accepts.\<close>

theorem email_test_terminates:
  "length s + 9 < f \<Longrightarrow> regex_test f EMAIL_RE s = Some (email_ok s)"
  using regex_test_correct [of EMAIL_RE s f]
  by (auto simp: rdepth_EMAIL_RE rx_match_EMAIL_RE email_ok_iff_regex)

theorem email_test_terminates_witness:
  "regex_test 20 EMAIL_RE ''a@b.co'' = Some True \<and> regex_test 20 EMAIL_RE ''a@b'' = Some False"
  using email_test_terminates [of "''a@b.co''" 20] email_test_terminates [of "''a@b''" 20]
  by (simp add: email_ok_def email_char_def is_ws_def)

end
