(* ===== verification/FormUI.thy ===== *)
theory FormUI
  imports ClientForms
begin

text \<open>
  The two form handlers of \<open>src/public/script.js\<close> (the apply form, lines 246--302, and
  the book-a-call form, lines 304--363, which run the same code on other fields and
  another endpoint) as a state machine on what the visitor sees: the values of the
  inputs, the inputs marked \<open>error\<close>, the feedback line, the submit button's
  \<open>loading\<close> class and \<open>disabled\<close> flag, and whether a request is in flight. The checks,
  the request and the reading of the answer are those of \<open>ClientForms\<close>.
\<close>

subsection \<open>State and operations\<close>

record form_ui =
  input_values :: "string \<Rightarrow> string"   \<comment> \<open>the \<open>value\<close> of each named input\<close>
  error_marks :: "string list"     \<comment> \<open>the inputs with class \<open>error\<close>\<close>
  fb :: feedback                   \<comment> \<open>text and type of the feedback element\<close>
  btn_loading :: bool              \<comment> \<open>\<open>submitBtn.classList\<close> has \<open>loading\<close>\<close>
  btn_disabled :: bool             \<comment> \<open>\<open>submitBtn.disabled\<close>\<close>
  in_flight :: bool                \<comment> \<open>the form's \<open>fetch\<close> has not settled\<close>

text \<open>\<open>setFeedback(el, message, type)\<close> (lines 231--234) and \<open>clearFormErrors(form)\<close>
  (lines 236--240).\<close>

definition setFeedback :: "string \<Rightarrow> string \<Rightarrow> form_ui \<Rightarrow> form_ui" where
  "setFeedback m ty u = u\<lparr>fb := Feedback m ty\<rparr>"

definition clearFormErrors :: "form_ui \<Rightarrow> form_ui" where
  "clearFormErrors u = u\<lparr>error_marks := []\<rparr>"

text \<open>The submit handler up to the \<open>fetch\<close> (lines 307--335 for the book form): clear
  the marks and the feedback, read the inputs; an invalid form marks its inputs and
  shows the required-fields message; a valid one sets the button to \<open>loading\<close> and
  \<open>disabled\<close> and sends its request.\<close>

definition form_submit :: "string list \<Rightarrow> string \<Rightarrow> string option \<Rightarrow> form_ui \<Rightarrow> form_ui \<times> request option" where
  "form_submit ks p ck u =
     (let u' = setFeedback [] [] (clearFormErrors u); d = read_form ks (input_values u)
      in case client_submit p ck d of
           Inl (Feedback m ty) \<Rightarrow> (setFeedback m ty (u'\<lparr>error_marks := client_errors d\<rparr>), None)
         | Inr req \<Rightarrow> (u'\<lparr>btn_loading := True, btn_disabled := True, in_flight := True\<rparr>, Some req))"

text \<open>The \<open>then\<close> and \<open>catch\<close> callbacks (lines 342--361): the button is released, the
  feedback set, and on success the form is reset to the values of its HTML
  (\<open>dflt\<close>).\<close>

definition form_settle :: "(string \<Rightarrow> string) \<Rightarrow> feedback \<times> bool \<Rightarrow> form_ui \<Rightarrow> form_ui" where
  "form_settle dflt res u =
     (case res of (Feedback m ty, reset) \<Rightarrow>
        setFeedback m ty (u\<lparr>btn_loading := False, btn_disabled := False, in_flight := False,
                            input_values := (if reset then dflt else input_values u)\<rparr>))"

text \<open>The visitor's events. A submit while the button is disabled does nothing: the
  button cannot be clicked, and the browser blocks implicit submission (Enter) when the
  form's default button is disabled.\<close>

datatype form_event = Input string string | Submit | Answer response | Fail

fun form_step ::
  "string list \<Rightarrow> string \<Rightarrow> string option \<Rightarrow> (string \<Rightarrow> string) \<Rightarrow> form_event \<Rightarrow> form_ui \<Rightarrow> form_ui \<times> request option" where
  "form_step ks p ck dflt (Input k v) u = (u\<lparr>input_values := (input_values u)(k := v)\<rparr>, None)"
| "form_step ks p ck dflt Submit u = (if btn_disabled u then (u, None) else form_submit ks p ck u)"
| "form_step ks p ck dflt (Answer r) u =
     (if in_flight u then (form_settle dflt (client_result r) u, None) else (u, None))"
| "form_step ks p ck dflt Fail u =
     (if in_flight u then (form_settle dflt (NETWORK_FEEDBACK, False) u, None) else (u, None))"

text \<open>A run of events: the final state and the requests sent, in order.\<close>

fun form_run ::
  "string list \<Rightarrow> string \<Rightarrow> string option \<Rightarrow> (string \<Rightarrow> string) \<Rightarrow> form_event list \<Rightarrow> form_ui \<Rightarrow> form_ui \<times> request list" where
  "form_run ks p ck dflt [] u = (u, [])"
| "form_run ks p ck dflt (ev # evs) u =
     (case form_step ks p ck dflt ev u of
        (u', r) \<Rightarrow> (case form_run ks p ck dflt evs u' of
                      (u'', rs) \<Rightarrow> (u'', (case r of Some q \<Rightarrow> [q] | None \<Rightarrow> []) @ rs)))"

text \<open>The button shows exactly whether a request is in flight.\<close>

definition form_ok :: "form_ui \<Rightarrow> bool" where
  "form_ok u \<longleftrightarrow> btn_loading u = in_flight u \<and> btn_disabled u = in_flight u"

text \<open>The form as the page loads it: the inputs hold their HTML values, nothing marked,
  no feedback, the button enabled.\<close>

definition form_init :: "(string \<Rightarrow> string) \<Rightarrow> form_ui" where
  "form_init dflt = \<lparr>input_values = dflt, error_marks = [], fb = Feedback [] [], btn_loading = False,
     btn_disabled = False, in_flight = False\<rparr>"

text \<open>The events that settle the form's request.\<close>

fun settles :: "form_event \<Rightarrow> bool" where
  "settles (Answer r) = True"
| "settles Fail = True"
| "settles _ = False"

subsection \<open>Lemmas\<close>

lemma form_settle_ok [simp]: "\<not> btn_loading (form_settle dflt res u) \<and> \<not> btn_disabled (form_settle dflt res u)
   \<and> \<not> in_flight (form_settle dflt res u)"
  by (cases res; cases "fst res") (auto simp: form_settle_def setFeedback_def split: feedback.splits)

lemma form_submit_cases:
  "form_submit ks p ck u = (u', r) \<Longrightarrow>
     (r = None \<and> btn_loading u' = btn_loading u \<and> btn_disabled u' = btn_disabled u \<and> in_flight u' = in_flight u)
   \<or> (r \<noteq> None \<and> btn_loading u' \<and> btn_disabled u' \<and> in_flight u')"
  by (auto simp: form_submit_def Let_def setFeedback_def clearFormErrors_def client_submit_def
      split: feedback.splits if_splits)

lemma form_step_ok:
  assumes "form_ok u" and "form_step ks p ck dflt ev u = (u', r)"
  shows "form_ok u' \<and> (r \<noteq> None \<longrightarrow> \<not> in_flight u \<and> in_flight u')"
proof (cases ev)
  case Submit
  then show ?thesis
    using assms form_submit_cases [of ks p ck u u' r] by (auto simp: form_ok_def split: if_splits)
qed (use assms in \<open>auto simp: form_ok_def split: if_splits\<close>)

lemma form_run_bound:
  "form_ok u \<Longrightarrow>
   length (snd (form_run ks p ck dflt evs u)) + (if in_flight (fst (form_run ks p ck dflt evs u)) then 0 else 1)
     \<le> length (filter settles evs) + (if in_flight u then 0 else 1)"
proof (induction evs arbitrary: u)
  case Nil
  then show ?case by simp
next
  case (Cons ev evs)
  obtain u' r where st: "form_step ks p ck dflt ev u = (u', r)" by fastforce
  have ok: "form_ok u'" and snd_r: "r \<noteq> None \<Longrightarrow> \<not> in_flight u \<and> in_flight u'"
    using form_step_ok [OF Cons.prems st] by auto
  have ih: "length (snd (form_run ks p ck dflt evs u')) + (if in_flight (fst (form_run ks p ck dflt evs u')) then 0 else 1)
     \<le> length (filter settles evs) + (if in_flight u' then 0 else 1)"
    using Cons.IH [OF ok] .
  have "(case r of Some q \<Rightarrow> 1 | None \<Rightarrow> 0) + (if in_flight u' then 0 else 1::nat)
      \<le> (if settles ev then 1 else 0) + (if in_flight u then 0 else 1)"
  proof (cases ev)
    case (Answer x)
    then show ?thesis using st by (auto split: if_splits)
  next
    case Fail
    then show ?thesis using st by (auto split: if_splits)
  next
    case (Input k v)
    then show ?thesis using st by auto
  next
    case Submit
    then show ?thesis using st snd_r form_submit_cases [of ks p ck u u' r] by (auto split: if_splits option.splits)
  qed
  then show ?case using ih st by (auto split: prod.splits option.splits)
qed

lemma form_submit_valid:
  assumes "client_errors (read_form ks (input_values u)) = []"
  shows "form_submit ks p ck u =
    (u\<lparr>error_marks := [], fb := Feedback [] [], btn_loading := True, btn_disabled := True, in_flight := True\<rparr>,
     Some (client_request p ck (read_form ks (input_values u))))"
  using assms by (simp add: form_submit_def client_submit_def setFeedback_def clearFormErrors_def)

text \<open>
  C27. No double submission: however the visitor types, clicks and presses Enter, and
  however the answers arrive, a form that starts as the page loads it sends at most one
  request more than the answers and network failures it has received, so it never has
  two requests in flight. The button's \<open>disabled\<close> flag, set before the \<open>fetch\<close> and
  cleared in both callbacks, is what guarantees it.
\<close>

theorem form_no_double_submit:
  "length (snd (form_run ks p ck dflt evs (form_init dflt))) \<le> length (filter settles evs) + 1"
  using form_run_bound [of "form_init dflt" ks p ck dflt evs]
  by (simp add: form_init_def form_ok_def split: if_splits)

text \<open>
  C35. An application goes round the form, the server and the store: when the inputs
  pass the form's checks and the button is enabled, Submit sends one request; once the
  server's answer to it arrives, the feedback line shows the success message, the form
  is reset to its HTML values and the button is enabled again, and the applications
  file holds one more record after the ones it held.
\<close>

theorem form_apply_roundtrip:
  assumes "client_errors (read_form APPLY_FIELDS (input_values u)) = []" and "\<not> btn_disabled u"
    and "loadJSON (files s APPLICATIONS) = Inr xs"
  shows "\<exists>req. snd (form_step APPLY_FIELDS ''/api/apply'' ck dflt Submit u) = Some req
    \<and> fb (fst (form_step APPLY_FIELDS ''/api/apply'' ck dflt (Answer (fst (serve c e req s)))
              (fst (form_step APPLY_FIELDS ''/api/apply'' ck dflt Submit u))))
        = Feedback (success_message APPLY_FORM) ''success''
    \<and> input_values (fst (form_step APPLY_FIELDS ''/api/apply'' ck dflt (Answer (fst (serve c e req s)))
              (fst (form_step APPLY_FIELDS ''/api/apply'' ck dflt Submit u)))) = dflt
    \<and> \<not> btn_disabled (fst (form_step APPLY_FIELDS ''/api/apply'' ck dflt (Answer (fst (serve c e req s)))
              (fst (form_step APPLY_FIELDS ''/api/apply'' ck dflt Submit u))))
    \<and> (\<exists>ent. files (fst (snd (serve c e req s))) APPLICATIONS = FArray (xs @ [ent]))"
proof -
  let ?req = "client_request ''/api/apply'' ck (read_form APPLY_FIELDS (input_values u))"
  have cs: "client_submit ''/api/apply'' ck (read_form APPLY_FIELDS (input_values u)) = Inr ?req"
    using assms(1) by (simp add: client_submit_def)
  note rt = client_apply_roundtrip [OF cs assms(3), of c e]
  show ?thesis
    using rt assms(1,2)
    by (intro exI [of _ ?req]) (simp add: form_submit_valid form_settle_def setFeedback_def)
qed

theorem form_apply_roundtrip_witness:
  "\<exists>req. snd (form_step APPLY_FIELDS ''/api/apply'' None (\<lambda>_. []) Submit (form_init (demo_inputs ''ann@example.com''))) = Some req
    \<and> fb (fst (form_step APPLY_FIELDS ''/api/apply'' None (\<lambda>_. []) (Answer (fst (serve demo_cfg (demo_env 0) req demo_state)))
              (fst (form_step APPLY_FIELDS ''/api/apply'' None (\<lambda>_. []) Submit (form_init (demo_inputs ''ann@example.com''))))))
        = Feedback (success_message APPLY_FORM) ''success''
    \<and> input_values (fst (form_step APPLY_FIELDS ''/api/apply'' None (\<lambda>_. []) (Answer (fst (serve demo_cfg (demo_env 0) req demo_state)))
              (fst (form_step APPLY_FIELDS ''/api/apply'' None (\<lambda>_. []) Submit (form_init (demo_inputs ''ann@example.com'')))))) = (\<lambda>_. [])
    \<and> \<not> btn_disabled (fst (form_step APPLY_FIELDS ''/api/apply'' None (\<lambda>_. []) (Answer (fst (serve demo_cfg (demo_env 0) req demo_state)))
              (fst (form_step APPLY_FIELDS ''/api/apply'' None (\<lambda>_. []) Submit (form_init (demo_inputs ''ann@example.com''))))))
    \<and> (\<exists>ent. files (fst (snd (serve demo_cfg (demo_env 0) req demo_state))) APPLICATIONS = FArray ([] @ [ent]))"
proof (rule form_apply_roundtrip)
  show "client_errors (read_form APPLY_FIELDS (input_values (form_init (demo_inputs ''ann@example.com'')))) = []"
    by (simp add: form_init_def client_errors_Nil field_read_form APPLY_FIELDS_def demo_inputs_def
        email_ok_def str_trim_def is_ws_def email_char_def)
qed (simp_all add: form_init_def demo_state_def)

end
