(* ===== verification/Spec2Isabelle.thy ===== *)
theory Spec2Isabelle
  imports EnvConfig AdminPage ClientPage JsRegex FormUI
begin

text \<open>
  \<^bold>\<open>A verification model of Embersome: the server and its two browser scripts.\<close>

  The repository is a small Express~5 application (\<open>src/server.js\<close>) with two browser
  scripts (\<open>src/public/script.js\<close> for the landing page forms, \<open>src/public/admin.js\<close>
  for the dashboard). The server keeps two kinds of state: the in-memory session map
  \<open>activeSessions\<close> and two JSON array files, \<open>applications.json\<close> and
  \<open>bookings.json\<close>. Requests reach it through Express's middleware chain: the static
  file server, the auth routes, the guarded admin pages, the public form routes, the
  \<open>requireAdmin\<close> guard mounted on \<open>/api/admin\<close>, the admin API and a catch-all.

  \<^bold>\<open>Theories and what they model.\<close>
  \<^item> \<open>Prelude\<close>: the JavaScript values of a request body (\<open>jval\<close>), truthiness, and
    the ECMAScript builtins the code calls: \<open>String.prototype.trim\<close> (\<open>str_trim\<close>),
    \<open>startsWith\<close>, \<open>||\<close> (\<open>js_or\<close>), \<open>localeCompare\<close>, the stable
    \<open>Array.prototype.sort\<close> (\<open>sort_by\<close>, an insertion sort, which is the unique
    stable result), \<open>Number.prototype.toString(radix)\<close> (\<open>to_radix\<close>) and
    \<open>split\<close>/\<open>join\<close> (\<open>split_on\<close>, \<open>js_join\<close>). Lemmas:
    \<open>trim\<close> is idempotent and strips exactly the surrounding whitespace; the
    descending sort is a permutation, ordered, stable and equal to the library's
    \<open>sort_key\<close> on the reversed list; \<open>to_radix\<close> is inverted by \<open>from_radix\<close>; joining the pieces of a split
    gives the string back.
  \<^item> \<open>Http\<close>: the interface between Express and the handlers: the request record
    (method, path, \<open>Cookie\<close>, \<open>Authorization\<close>, parsed body), the response record
    (status, \<open>Set-Cookie\<close>, payload) and JSON documents (\<open>json\<close>).
  \<^item> \<open>Sessions\<close> (\<open>server.js\<close> 115--139, 166): \<open>activeSessions\<close> as a map
    \<open>string \<rightharpoonup> session\<close>, \<open>createSession\<close>, \<open>isValidSession\<close> (lazy expiry) and
    \<open>deleteSession\<close>; the operations as a step function \<open>sess_step\<close>, runs
    \<open>sess_run\<close>, and the reachable states \<open>sess_reachable\<close> (an inductive
    predicate). Lemmas: the exact acceptance condition, lazy expiry, the invariant of
    reachable states (rule induction), persistence of a session through unrelated
    operations and that no token becomes valid without a creation (induction on runs).
  \<^item> \<open>Auth\<close> (\<open>server.js\<close> 141--186): \<open>getTokenFromReq\<close> with the cookie pattern
    as a scanner \<open>cookie_match\<close>, the login, logout and check handlers and the
    \<open>requireAdmin\<close> middleware. Lemmas: login followed by check, logout followed by
    check, wrong passwords, the gate's decision, and the cookie round trip.
  \<^item> \<open>Store\<close> (\<open>server.js\<close> 217--235, 337--396): the data directory as a map from
    file name to what the file holds (\<open>file_state\<close>: absent, unparsable, a JSON array of
    records, other JSON), \<open>genId\<close>, \<open>saveSubmission\<close>, \<open>loadJSON\<close>, the list, delete
    and dashboard handlers. Lemmas: a save appends exactly one record; delete removes
    exactly the records with that id and answers success even when there is none; the
    lists are newest first, a permutation of the file and stable; the dashboard counts;
    the error paths of non-array and unreadable files; two saves in one tick with the
    same random digits collide. The unused \<open>readDB\<close>/\<open>writeDB\<close> helpers (205--215)
    are modelled on their own file state; no route reaches them.
  \<^item> \<open>Submissions\<close> (\<open>server.js\<close> 40--98, 238--332): the shared validation of
    \<open>/api/apply\<close> and \<open>/api/book\<close> (required fields, the email pattern as a scanner
    \<open>email_ok\<close> proved equal to the regular language \<open>email_regex\<close>), trimming and
    defaults, and the notifications as a list of mails sent after the answer. The two
    routes are one definition \<open>submission_handler\<close> applied to a \<open>form\<close> record. The
    \<open>async\<close> send functions (63--97) are \<open>runNotification\<close> and \<open>runConfirmation\<close>,
    with the outcome of \<open>sendMail\<close> as an input and the settlement of their promise
    and their console lines as the result.
    Lemmas: every missing field is reported; a valid body is stored trimmed and
    answered 200; an invalid one changes nothing; non-string fields raise (500); the
    send functions resolve whatever the transport does, and a failure is only logged.
  \<^item> \<open>Server\<close> (\<open>server.js\<close> 100--428): \<open>serve\<close> composes all of the above in
    Express's registration order, with the static file server, the mount-path stripping
    of \<open>app.use('/api/admin', requireAdmin)\<close> and the catch-all; \<open>serve_all\<close> runs a
    sequence of requests. Lemmas: an unauthenticated admin API call is redirected to
    \<open>/login\<close> instead of answered 401 (the guard sees the stripped path); every public
    file, the admin page included, is served without a session; and no request without
    a valid session removes a stored record.
  \<^item> \<open>EnvConfig\<close> (\<open>server.js\<close> 6--61, 117): the \<open>.env\<close> loader over
    \<open>process.env\<close> (a map), the settings read from it and the email transporter with
    its one-shot \<open>verify()\<close>; \<open>startup\<close> yields the \<open>server_cfg\<close> that \<open>Server\<close>
    takes. Lemmas: what loading leaves in each variable (it never overrides a set one),
    loading is idempotent, and a failed \<open>verify()\<close> disables all email for good.
  \<^item> \<open>ClientForms\<close> (\<open>script.js\<close> 231--363): the form checks of the landing page,
    the JSON body it posts and the feedback it shows for each answer, composed with
    \<open>serve\<close>. Lemmas: the client's checks refine the server's; a valid application goes
    round client, server and store and shows the success message; 400 and 500 answers.
  \<^item> \<open>AdminView\<close> (\<open>admin.js\<close>): \<open>timeAgo\<close>, \<open>formatDate\<close>, \<open>escHtml\<close>,
    \<open>statCard\<close>, the HTML of the overview, the tables and the recent area, and the
    delete request. Lemmas: \<open>escHtml\<close> round-trips through the HTML parser and never
    emits a tag; its output is not safe inside an attribute (the \<open>mailto:\<close> breakout);
    the dashboard JSON has the type the overview reads; the delete button of a record
    reaches the delete route with that record's id.
  \<^item> \<open>JsRegex\<close>: \<open>RegExp.prototype.test\<close> as ECMAScript specifies it, for the
    email pattern of \<open>server.js\<close> line 243 and \<open>isValidEmail\<close> in \<open>script.js\<close>: the
    start-position loop of \<open>RegExpBuiltinExec\<close> (\<open>rx_search\<close>) and the backtracking,
    continuation-passing matchers (\<open>rm\<close>) with the greedy loop's empty-iteration check,
    with fuel. Lemmas: with fuel above the pattern's depth plus the input's length the
    matcher returns and agrees with the inductive semantics \<open>rx_match\<close> (induction on
    the fuel); the email pattern denotes \<open>email_regex\<close>; so \<open>test\<close> terminates and
    answers \<open>email_ok\<close>.
  \<^item> \<open>AdminPage\<close> (\<open>admin.js\<close> 7--31, 62--84, 94--159, 247--277): the dashboard as
    a state (\<open>currentView\<close>, the sidebar, the location, \<open>#main\<close>, the active links,
    the fetches in flight) and one step \<open>dash_step\<close> per event: clicks, and each fetch
    settling or rejecting in any order; \<open>sys_deliver\<close> lets \<open>Server.serve\<close> answer a
    fetch with the browser's cookie. Lemmas: the links mark \<open>currentView\<close> after any
    navigation; answers arriving out of order show a view the admin has left; the auth
    check sends the page to \<open>/login\<close> exactly when the server rejects the cookie; a
    confirmed delete ends with the server's listing of the file without that record.
  \<^item> \<open>FormUI\<close> (\<open>script.js\<close> 231--240, 246--363): both form handlers as a state
    machine on the inputs, error marks, feedback, the submit button and the request in
    flight. Lemmas: the button shows exactly whether a request is in flight; a form
    never sends more than one request per answer it receives; and a valid application
    goes round form, server and store, ending with the success message, a reset form
    and an enabled button.
  \<^item> \<open>ClientPage\<close> (\<open>script.js\<close> 8--225): scroll state, scroll spy, the scroll
    throttle, the mobile menu and modals with the body's scroll lock, reveal, and the
    accordions as a reachability predicate. Lemmas: at most one frame is pending; the
    page is never locked with nothing open; an accordion never has two open panels.
  \<^item> This theory: properties across components, over sequences of requests run by
    \<open>serve_all\<close>: a record submitted through \<open>/api/apply\<close> is listed to an admin who
    logs in afterwards (with concrete inputs \<open>demo_cfg\<close>, \<open>demo_env\<close>, \<open>demo_req\<close>
    for its witness), and every session token comes from a login request.

  \<^bold>\<open>Environment inputs.\<close> What the program reads from outside is a parameter of the
  operation that reads it: the clock (\<open>Date.now()\<close>, one parameter per call), the
  token of \<open>crypto.randomBytes(32)\<close> (any 64-digit hex string), the digits of
  \<open>Math.random().toString(36)\<close>, the ISO forms of the date, the outcome of a mail send,
  and the configuration (password, SMTP state, the files under \<open>public/\<close>), collected in
  the \<open>env\<close> and \<open>server_cfg\<close> records of \<open>Server\<close>; the \<open>.env\<close> file and the
  outcome of \<open>verify()\<close> are inputs of \<open>EnvConfig.startup\<close>, and the browser's input
  values, scroll positions, element sizes and clicks are inputs of the client
  theories; the order in which the browser's fetches settle is the order of the
  \<open>Settle\<close> events. Every loop of the code is over a finite string or list and is
  modelled by structural recursion (\<open>fun\<close>), or by a measure (\<open>to_radix\<close>). The one
  exception is the regular-expression engine, whose backtracking is not structural: it
  runs on fuel, one unit per nested matcher call, and the fuel \<open>rdepth r + length s + 1\<close>
  is enough because each call either descends into a sub-pattern or, in a star, only
  repeats after consuming input (the empty-iteration check), so the nesting of calls is
  bounded by the pattern's depth plus the input's length.

  \<^bold>\<open>Plan.\<close> Done: every component of the server, the \<open>.env\<close> loader, the regular
  expression the code tests, both browser scripts as state machines, and the dashboard
  composed with the server. Next: the landing-page forms composed with the server over
  whole sessions, and expiry between the dashboard's requests.

  \<^bold>\<open>Mutation checks.\<close> Seventeen claims were checked against a variant of the definition
  they rest on with a plausible bug: an off-by-one expiry, no eviction, a login that
  does not store its session, a logout that does not delete, a password check reduced to
  presence, swapped denials, a session without a duration, a logout that clears every
  session, a loader that overrides set variables, a client without the email pattern,
  an escaper without \<open>&amp;\<close>, an accordion that leaves other panels open, an email
  pattern without its \<open>$\<close> anchor, a delete callback that does not render again, and a
  submit handler that does not disable its button, a sidebar that toggles against the
  previous view, and a \<open>sendNotification\<close> without its \<open>try\<close>/\<open>catch\<close>. Each claim
  fails on its variant.

  \<^bold>\<open>Not modelled.\<close> The HTML bodies of the emails; nodemailer's SMTP transport
  beyond success or failure of a send; the console output of \<open>app.listen\<close>; the byte-level JSON encoding (a written array is read back as the same array;
  the client reads properties of the parsed object); the browser's date parser and
  \<open>toLocaleDateString\<close>, which are parameters; focus timers and the aria attributes that mirror the modelled flags; the admin
  overview of a JSON value of another shape than the server sends. Strings are byte
  lists (UTF-8) and the whitespace class is its ASCII part; non-ASCII whitespace of
  ECMAScript's \<open>\s\<close> is not modelled.
\<close>

text \<open>A form body for the witness of the end-to-end scenario.\<close>

definition demo_form :: "string \<Rightarrow> jval" where
  "demo_form k = (if k = ''name'' then JStr '' Ann '' else if k = ''email'' then JStr ''ann@example.com''
                  else JUndefined)"

subsection \<open>Helper lemmas\<close>

lemma getTokenFromReq_login_cookie:
  assumes "is_session_token tok" and "cookie_header r = Some (cookie_pair (login_cookie tok))"
  shows "getTokenFromReq r = Some tok"
proof -
  have "\<forall>c\<in>set tok. is_hex_lower c" "tok \<noteq> []" using assms(1) by (auto simp: is_session_token_def)
  then have "cookie_match (SESSION_COOKIE_NAME @ tok @ []) = Some tok" by (intro cookie_match_at_start) auto
  then show ?thesis using assms by (simp add: getTokenFromReq_def cookie_pair_login_cookie)
qed

lemma session_token_nonempty: "is_session_token t \<Longrightarrow> t \<noteq> []"
  by (auto simp: is_session_token_def)

lemma submission_handler_store:
  assumes "body r = Some b" and "validate b = Inr []" and "trimmed_fields b (form_optional f) = Inr flds"
    and "loadJSON (st (form_file f)) = Inr xs"
  shows "fst (snd (submission_handler f mc r i t st)) =
    st(form_file f := FArray (xs @ [\<lparr>entry_id = Some i, entry_data = flds, submittedAt = Some t\<rparr>]))"
  using submission_handler_accepts [where st = st, OF assms] by simp

lemma serve_admin_list_valid:
  assumes "\<forall>f\<in>set (public_files c). CHR ''/'' \<notin> set f"
    and "is_get r" and "path r = ''/api/admin/applications''"
    and "fst (isValidSession (getTokenFromReq r) (clock e) (active_sessions s))"
  shows "fst (serve c e r s) = list_handler APPLICATIONS (files s)"
proof -
  have m: "mount_strip ''/api/admin'' (path r) = Some ''/applications''"
    using assms(3) by (simp add: mount_strip_def starts_with_def)
  have "requireAdmin ''/applications'' r (clock e) (active_sessions s) = (Pass, active_sessions s)"
    using assms(4) by (auto simp: requireAdmin_def isValidSession_def split: option.splits)
  then show ?thesis
    using serve_under_admin [OF assms(1) m, of e s] assms(2,3) by (simp add: admin_routes_def)
qed

subsection \<open>Properties across components\<close>

text \<open>
  C31. End to end: after a valid \<open>POST /api/apply\<close>, a login with the configured
  password and a \<open>GET /api/admin/applications\<close> that sends back the session cookie
  within 24 hours, the third answer is 200 with a list that holds exactly the records
  the file held before plus the new one, with its id and timestamp.
\<close>

theorem apply_login_list:
  assumes "\<forall>f\<in>set (public_files c). CHR ''/'' \<notin> set f"
    and "req_method r1 = POST" "path r1 = ''/api/apply''" "body r1 = Some b" "validate b = Inr []"
    "trimmed_fields b (form_optional APPLY_FORM) = Inr flds" "loadJSON (files s APPLICATIONS) = Inr xs"
    and "req_method r2 = POST" "path r2 = ''/api/auth/login''" "body r2 = Some pb"
    "pb ''password'' = JStr (admin_password (cfg_auth c))" "is_session_token (new_token e2)"
    and "req_method r3 = GET" "path r3 = ''/api/admin/applications''"
    "cookie_header r3 = Some (cookie_pair (login_cookie (new_token e2)))" "clock e3 \<le> clock e2 + SESSION_DURATION"
  shows "\<exists>ys. fst (serve_all c [(e1, r1), (e2, r2), (e3, r3)] s) ! 2 = json_resp 200 (JsArr (map entry_json ys))
     \<and> mset ys = mset (xs @ [\<lparr>entry_id = Some (genId ''sub'' (nat (clock e1)) (random36 e1)),
                              entry_data = flds, submittedAt = Some (clock_iso e1)\<rparr>])"
proof -
  define ent where "ent = \<lparr>entry_id = Some (genId ''sub'' (nat (clock e1)) (random36 e1)),
                              entry_data = flds, submittedAt = Some (clock_iso e1)\<rparr>"
  obtain resp1 s1 m1 where 1: "serve c e1 r1 s = (resp1, s1, m1)" by (metis prod.exhaust)
  have ff: "form_file APPLY_FORM = APPLICATIONS" by (simp add: APPLY_FORM_def)
  have h: "\<And>mc i t. fst (snd (apply_handler mc r1 i t (files s))) =
      (files s)(APPLICATIONS := FArray (xs @ [\<lparr>entry_id = Some i, entry_data = flds, submittedAt = Some t\<rparr>]))"
    unfolding apply_handler_def using submission_handler_store [OF assms(4,5,6)] assms(7) ff by simp
  have "files s1 = files (fst (snd (serve c e1 r1 s)))" using 1 by simp
  also have "\<dots> = (files s)(APPLICATIONS := FArray (xs @ [ent]))"
    by (simp add: serve_post_apply [OF assms(2,3)] h ent_def)
  finally have f1: "files s1 = (files s)(APPLICATIONS := FArray (xs @ [ent]))" .
  obtain resp2 s2 m2 where 2: "serve c e2 r2 s1 = (resp2, s2, m2)" by (metis prod.exhaust)
  have s2: "files s2 = files s1"
    "active_sessions s2 = snd (createSession (new_token e2) (clock e2) (clock e2) (active_sessions s1))"
    using 2 serve_post_login [OF assms(8,9), of c e2 s1] login_accepts [OF assms(10,11)]
    by (auto simp: on_sessions_def)
  have valid: "fst (isValidSession (getTokenFromReq r3) (clock e3) (active_sessions s2))"
    using s2(2) getTokenFromReq_login_cookie [OF assms(12,15)] session_token_nonempty [OF assms(12)] assms(16)
    by (simp add: isValidSession_def createSession_def)
  have 3: "fst (serve c e3 r3 s2) = list_handler APPLICATIONS (files s2)"
    using assms(13,14) by (intro serve_admin_list_valid [OF assms(1) _ _ valid]) (simp_all add: is_get_def)
  show ?thesis
    using 1 2 3 s2(1) f1 by (auto simp: list_handler_def Let_def split: prod.splits simp flip: ent_def)
qed

theorem apply_login_list_witness:
  "\<exists>ys. fst (serve_all demo_cfg
       [(demo_env 0, demo_req POST ''/api/apply'' None (Some demo_form)),
        (demo_env 1, demo_req POST ''/api/auth/login'' None (Some (\<lambda>_. JStr ''pw''))),
        (demo_env 2, demo_req GET ''/api/admin/applications''
                       (Some (cookie_pair (login_cookie (new_token (demo_env 1))))) None)] demo_state) ! 2
       = json_resp 200 (JsArr (map entry_json ys))
     \<and> mset ys = mset ([] @ [\<lparr>entry_id = Some (genId ''sub'' (nat (clock (demo_env 0))) (random36 (demo_env 0))),
                              entry_data = [(''name'', ''Ann''), (''email'', ''ann@example.com''),
                                (''platforms'', []), (''audience'', []), (''message'', [])],
                              submittedAt = Some (clock_iso (demo_env 0))\<rparr>])"
proof (rule apply_login_list [where b = demo_form and pb = "\<lambda>_. JStr ''pw''"])
  show "is_session_token (new_token (demo_env 1))" by (simp add: demo_env_def token_a64)
  show "validate demo_form = Inr []"
    by (simp add: validate_def demo_form_def required_missing_def email_invalid_def email_ok_def
        str_trim_def is_ws_def email_char_def)
  show "trimmed_fields demo_form (form_optional APPLY_FORM) =
        Inr [(''name'', ''Ann''), (''email'', ''ann@example.com''), (''platforms'', []), (''audience'', []), (''message'', [])]"
    by (simp add: trimmed_fields_def APPLY_FORM_def demo_form_def opt_trim_def str_trim_def is_ws_def js_or_def)
qed (simp_all add: demo_cfg_def demo_env_def demo_req_def demo_state_def SESSION_DURATION_def)

subsection \<open>Sessions come only from logins\<close>

lemma isValidSession_dom: "dom (snd (isValidSession tok now ss)) \<subseteq> dom ss"
  by (auto simp: isValidSession_def split: option.splits)

lemma requireAdmin_dom: "dom (snd (requireAdmin p req now ss)) \<subseteq> dom ss"
  using isValidSession_dom [of "getTokenFromReq req" now ss]
  by (cases "isValidSession (getTokenFromReq req) now ss") (auto simp: requireAdmin_def)

lemma login_dom: "dom (snd (login cfg req tok t1 t2 ss)) \<subseteq> dom ss \<union> {tok}"
  by (auto simp: login_def createSession_def split: option.splits)

lemma logout_dom: "dom (snd (logout req ss)) \<subseteq> dom ss"
  by (auto simp: logout_def deleteSession_def split: option.splits)

lemma auth_check_dom: "dom (snd (auth_check req now ss)) \<subseteq> dom ss"
  using isValidSession_dom [of "getTokenFromReq req" now ss]
  by (cases "isValidSession (getTokenFromReq req) now ss") (auto simp: auth_check_def)

lemma on_sessions_sessions [simp]: "active_sessions (fst (snd (on_sessions h s))) = snd (h (active_sessions s))"
  by (simp add: on_sessions_def split: prod.splits)

lemma on_files_sessions [simp]: "active_sessions (fst (snd (on_files h s))) = active_sessions s"
  by (simp add: on_files_def split: prod.splits)

lemma admin_routes_sessions [simp]: "active_sessions (fst (snd (admin_routes c e req s))) = active_sessions s"
  by (simp add: admin_routes_def Let_def fallback_def)

lemma gate_sessions:
  "active_sessions (fst (snd (case g of (Deny r, ss') \<Rightarrow> (r, s\<lparr>active_sessions := ss'\<rparr>, [])
                    | (Pass, ss') \<Rightarrow> admin_routes c e req (s\<lparr>active_sessions := ss'\<rparr>)))) = snd g"
  "active_sessions (fst (snd (case g of (Pass, ss') \<Rightarrow> (x::response, s\<lparr>active_sessions := ss'\<rparr>, ([]::mail list))
                    | (Deny r, ss') \<Rightarrow> (r, s\<lparr>active_sessions := ss'\<rparr>, [])))) = snd g"
  by (cases g; cases "fst g"; auto)+

lemma serve_sessions_dom:
  "dom (active_sessions (fst (snd (serve c e req s)))) \<subseteq>
   dom (active_sessions s) \<union> (if req_method req = POST \<and> path req = ''/api/auth/login'' then {new_token e} else {})"
proof (cases "if is_get req then static_lookup (public_files c) (path req) else None")
  case None
  have m: "dom (active_sessions (fst (snd (case mount_strip ''/api/admin'' (path req) of
             Some sub \<Rightarrow>
               (case requireAdmin sub req (clock e) (active_sessions s) of
                  (Deny r, ss') \<Rightarrow> (r, s\<lparr>active_sessions := ss'\<rparr>, [])
                | (Pass, ss') \<Rightarrow> admin_routes c e req (s\<lparr>active_sessions := ss'\<rparr>))
           | None \<Rightarrow> fallback c req s)))) \<subseteq> dom (active_sessions s)"
    by (cases "mount_strip ''/api/admin'' (path req)")
       (simp_all add: fallback_def gate_sessions requireAdmin_dom)
  from None show ?thesis
    unfolding serve_def Let_def
    using login_dom [of "cfg_auth c" req "new_token e" "clock e" "clock e" "active_sessions s"]
    by (simp add: m gate_sessions requireAdmin_dom logout_dom auth_check_dom)
qed (simp add: serve_def)

lemma subset_chain: "X \<subseteq> Y \<union> A \<Longrightarrow> Y \<subseteq> Z \<union> B \<Longrightarrow> B \<union> A \<subseteq> D \<Longrightarrow> X \<subseteq> Z \<union> D"
  by blast

lemma serve_all_Cons_state:
  "snd (serve_all c ((e, req) # rs) s) = snd (serve_all c rs (fst (snd (serve c e req s))))"
  by (simp split: prod.splits)

text \<open>
  C32. Over any sequence of requests, every token in \<open>activeSessions\<close> at the end was
  there at the start or is the token drawn by one of the \<open>POST /api/auth/login\<close>
  requests of the sequence.
\<close>

theorem serve_all_sessions_from_logins:
  "dom (active_sessions (snd (serve_all c rs s))) \<subseteq>
   dom (active_sessions s) \<union>
   {new_token e | e req. (e, req) \<in> set rs \<and> req_method req = POST \<and> path req = ''/api/auth/login''}"
proof (induction rs arbitrary: s)
  case Nil
  then show ?case by simp
next
  case (Cons er rs)
  obtain e req where er: "er = (e, req)" by (metis prod.exhaust)
  let ?L = "\<lambda>rs. {new_token e | e req. (e, req) \<in> set rs \<and> req_method req = POST \<and> path req = ''/api/auth/login''}"
  have "(if req_method req = POST \<and> path req = ''/api/auth/login'' then {new_token e} else {}) \<union> ?L rs
      \<subseteq> ?L (er # rs)" by (auto simp: er)
  then show ?case
    unfolding er serve_all_Cons_state
    by (rule subset_chain [OF Cons.IH serve_sessions_dom, unfolded er])
qed

end
